theory Spec2Isabelle
  imports Main "HOL-Library.Word"
begin

unbundle bit_operations_syntax

section \<open>Data model\<close>

type_synonym byte = "8 word"
type_synonym uint64 = "64 word"

text \<open>
  \<^verbatim>\<open>type gfP [FpUint64Size]uint64\<close> with \<^verbatim>\<open>FpUint64Size = 4\<close>: four 64-bit limbs, the
  least significant first. \<open>GfP a b c d\<close> is the array \<^verbatim>\<open>{a, b, c, d}\<close>, so a Go literal
  \<^verbatim>\<open>gfP{v}\<close> is \<open>GfP v 0 0 0\<close>.
\<close>

datatype gfP = GfP uint64 uint64 uint64 uint64

fun limb :: "gfP \<Rightarrow> nat \<Rightarrow> uint64" where
  "limb (GfP a b c d) i = (if i = 0 then a else if i = 1 then b else if i = 2 then c else d)"

fun set_limb :: "gfP \<Rightarrow> nat \<Rightarrow> uint64 \<Rightarrow> gfP" where
  "set_limb (GfP a b c d) i v =
     (if i = 0 then GfP v b c d else if i = 1 then GfP a v c d
      else if i = 2 then GfP a b v d else GfP a b c v)"

text \<open>Returned errors (\<^verbatim>\<open>errors.New\<close>), one constructor for each message of the source.\<close>

datatype error =
    WrongEncodedPointSize
  | PointNotCompressed
  | HighYBitImproperlySet
  | InvalidInfinityEncoding
  | CoordinateExceedsModulus
  | CoordinateEqualsModulus
  | NotASquareModP

text \<open>Run-time panics of Go: an index or a slice bound outside the slice.\<close>

datatype panic = IndexOutOfRange | SliceBoundsOutOfRange

text \<open>\<^verbatim>\<open>gfP2\<close>: the value is \<open>x\<cdot>i + y\<close>.\<close>

record gfP2 =
  x2 :: gfP
  y2 :: gfP

text \<open>
  \<^verbatim>\<open>curvePoint\<close> with the four coordinates that \<^verbatim>\<open>DecodeCompressed\<close> assigns, and \<^verbatim>\<open>G1\<close>, whose
  field \<^verbatim>\<open>p\<close> is a pointer that may be nil.
\<close>

record curvePoint =
  x :: gfP
  y :: gfP
  z :: gfP
  t :: gfP

record G1 =
  p :: "curvePoint option"

section \<open>Constants\<close>

text \<open>
  The serialization constants of \<^verbatim>\<open>mpc_serialization.go\<close>.
\<close>

definition FqElementSize :: nat where "FqElementSize = 32"
definition G1CompressedSize :: nat where "G1CompressedSize = FqElementSize + 1"
definition G1UncompressedSize :: nat where "G1UncompressedSize = 2 * FqElementSize"

definition serializationCompressed :: byte where "serializationCompressed = push_bit 7 1"
definition serializationInfinity :: byte where "serializationInfinity = push_bit 6 1"
definition serializationBigY :: byte where "serializationBigY = push_bit 5 1"

text \<open>
  The modulus. \<^verbatim>\<open>p2\<close> is quoted in the comment of \<^verbatim>\<open>gfP.Invert\<close>; \<^verbatim>\<open>P\<close> is the same number as a
  \<^verbatim>\<open>big.Int\<close> (its decimal expansion is quoted in the older decoder).
\<close>

definition p2 :: gfP where
  "p2 = GfP 0x3c208c16d87cfd47 0x97816a916871ca8d 0xb85045b68181585d 0x30644e72e131a029"

definition P :: nat where
  "P = 21888242871839275222246405745257275088696311157297823662689037894645226208583"

text \<open>The number that the limbs of a field element denote, and the limbs of a number.\<close>

fun val :: "gfP \<Rightarrow> nat" where
  "val (GfP a b c d) = unat a + 2 ^ 64 * unat b + 2 ^ 128 * unat c + 2 ^ 192 * unat d"

definition of_val :: "nat \<Rightarrow> gfP" where
  "of_val n = GfP (of_nat n) (of_nat (n div 2 ^ 64)) (of_nat (n div 2 ^ 128)) (of_nat (n div 2 ^ 192))"

text \<open>
  Modelled from the spec: the Montgomery constants of \<^verbatim>\<open>constants.go\<close>, which is not among
  the sources. With \<open>R = 2 ^ 256\<close> (one bit for every bit of the four machine words),
  \<^verbatim>\<open>rN1\<close> is \<open>R\<^sup>-\<^sup>1 mod p\<close>, \<^verbatim>\<open>r2\<close> is \<open>R\<^sup>2 mod p\<close> and \<^verbatim>\<open>r3\<close> is \<open>R\<^sup>3 mod p\<close>.
\<close>

definition R :: nat where
  "R = 2 ^ 256"

definition Rinv :: nat where
  "Rinv = 20988524275117001072002809824448087578619730785600314334253784976379291040311"

definition rN1 :: gfP where
  "rN1 = GfP 0xed84884a014afa37 0xeb2022850278edf8 0xcf63e9cfb74492d9 0x2e67157159e5c639"

definition r2 :: gfP where
  "r2 = GfP 0xf32cfc5b538afa89 0xb5e71911d44501fb 0x47ab1eff0a417ff6 0x06d89f71cab8351f"

definition r3 :: gfP where
  "r3 = GfP 0xb1cd6dafda1530df 0x62f210e6a7283db6 0xef7f0b0c0ada0afb 0x20fd6e902d592544"

section \<open>The primitive arithmetic unit\<close>

text \<open>
  Modelled from the spec: \<^verbatim>\<open>gfpAdd\<close>, \<^verbatim>\<open>gfpSub\<close>, \<^verbatim>\<open>gfpNeg\<close> and \<^verbatim>\<open>gfpMul\<close> are assembly
  routines that are not among the sources. The spec gives their contracts on field elements:
  \<open>add(a,b)\<close>, \<open>sub(a,b)\<close>, \<open>neg(a)\<close> in the field, and \<open>mul(a,b) = a\<cdot>b\<cdot>R\<^sup>-\<^sup>1 mod p\<close>; every
  result is the canonical residue below \<open>p\<close>.
\<close>

definition gfpAdd :: "gfP \<Rightarrow> gfP \<Rightarrow> gfP" where
  "gfpAdd a b = of_val ((val a + val b) mod P)"

definition gfpNeg :: "gfP \<Rightarrow> gfP" where
  "gfpNeg a = of_val ((P - val a mod P) mod P)"

definition gfpSub :: "gfP \<Rightarrow> gfP \<Rightarrow> gfP" where
  "gfpSub a b = of_val ((val a + (P - val b mod P)) mod P)"

definition gfpMul :: "gfP \<Rightarrow> gfP \<Rightarrow> gfP" where
  "gfpMul a b = of_val (val a * val b * Rinv mod P)"

section \<open>Field elements: \<^verbatim>\<open>gfp.go\<close>\<close>

definition montEncode :: "gfP \<Rightarrow> gfP" where
  "montEncode a = gfpMul a r2"

definition montDecode :: "gfP \<Rightarrow> gfP" where
  "montDecode a = gfpMul a (GfP 1 0 0 0)"

text \<open>\<^verbatim>\<open>newGFp(x int64)\<close>: the argument is an \<^verbatim>\<open>int64\<close>, so its absolute value fits a limb.\<close>

definition newGFp :: "int \<Rightarrow> gfP" where
  "newGFp n =
     (if 0 \<le> n then montEncode (GfP (of_int n) 0 0 0)
      else montEncode (gfpNeg (GfP (of_int (- n)) 0 0 0)))"

text \<open>
  \<^verbatim>\<open>gFpToBigInt\<close> prints the limbs in hexadecimal, the most significant first, and reads the
  string back as a number.
\<close>

definition gFpToBigInt :: "gfP \<Rightarrow> nat" where
  "gFpToBigInt e = val e"

text \<open>
  \<^verbatim>\<open>big.Int.Bytes\<close>: the big-endian bytes of the absolute value, without leading zeros
  (the empty slice for 0). The slice ends where its backing array ends.
\<close>

fun Bytes :: "nat \<Rightarrow> byte list" where
  "Bytes n = (if n = 0 then [] else Bytes (n div 256) @ [of_nat (n mod 256)])"

declare Bytes.simps [simp del]

text \<open>\<^verbatim>\<open>binary.Read(buf, binary.BigEndian, &n)\<close> on eight bytes.\<close>

definition be_uint64 :: "byte list \<Rightarrow> uint64" where
  "be_uint64 bs = foldl (\<lambda>acc b. acc * 256 + ucast b) 0 bs"

text \<open>
  \<^verbatim>\<open>newGFpFromBigInt\<close>: the slice expression \<^verbatim>\<open>inBytes[i*8 : (i+1)*8]\<close> panics when the upper
  bound exceeds the capacity, which for the result of \<^verbatim>\<open>Bytes\<close> is its length.
\<close>

fun newGFpFromBigInt_loop :: "byte list \<Rightarrow> nat list \<Rightarrow> gfP \<Rightarrow> panic + gfP" where
  "newGFpFromBigInt_loop inBytes [] out = Inr out"
| "newGFpFromBigInt_loop inBytes (i # is) out =
     (if (i + 1) * 8 \<le> length inBytes
      then newGFpFromBigInt_loop inBytes is
             (set_limb out (3 - i) (be_uint64 (take 8 (drop (i * 8) inBytes))))
      else Inl SliceBoundsOutOfRange)"

definition newGFpFromBigInt :: "nat \<Rightarrow> panic + gfP" where
  "newGFpFromBigInt n = newGFpFromBigInt_loop (Bytes n) [0, 1, 2, 3] (GfP 0 0 0 0)"

text \<open>
  \<^verbatim>\<open>Invert\<close>: square and multiply over the 256 bits of \<^verbatim>\<open>bits\<close> (\<open>p - 2\<close>), the least
  significant first, in the Montgomery domain. The state is \<open>(sum, power)\<close>.
\<close>

definition Invert_bits :: gfP where
  "Invert_bits = GfP 0x3c208c16d87cfd45 0x97816a916871ca8d 0xb85045b68181585d 0x30644e72e131a029"

definition Invert_step :: "nat \<Rightarrow> nat \<Rightarrow> gfP \<times> gfP \<Rightarrow> gfP \<times> gfP" where
  "Invert_step word bit' s =
     (let (sum, power) = s;
          sum' = (if drop_bit bit' (limb Invert_bits word) AND 1 = 1 then gfpMul sum power else sum)
      in (sum', gfpMul power power))"

definition Invert :: "gfP \<Rightarrow> gfP" where
  "Invert f =
     (let (sum, power) =
            fold (\<lambda>word s. fold (\<lambda>bit' s'. Invert_step word bit' s') [0..<64] s) [0..<4] (rN1, f)
      in gfpMul sum r3)"

text \<open>
  \<^verbatim>\<open>Marshal\<close> writes 32 bytes into the slice \<^verbatim>\<open>out\<close>. The slice is a window of a buffer:
  \<open>buf\<close> is the buffer, \<open>off\<close> where the window starts (\<^verbatim>\<open>ret[off:]\<close>), so the window has
  \<open>length buf - off\<close> bytes and a write outside it panics.
\<close>

definition Marshal_byte :: "gfP \<Rightarrow> nat \<Rightarrow> nat \<Rightarrow> byte" where
  "Marshal_byte e w b = ucast (drop_bit (56 - 8 * b) (limb e (3 - w)))"

fun Marshal_loop :: "gfP \<Rightarrow> nat \<Rightarrow> (nat \<times> nat) list \<Rightarrow> byte list \<Rightarrow> panic + byte list" where
  "Marshal_loop e off [] buf = Inr buf"
| "Marshal_loop e off ((w, b) # wbs) buf =
     (if off + (8 * w + b) < length buf
      then Marshal_loop e off wbs (buf[off + (8 * w + b) := Marshal_byte e w b])
      else Inl IndexOutOfRange)"

definition wb_indices :: "(nat \<times> nat) list" where
  "wb_indices = concat (map (\<lambda>w. map (\<lambda>b. (w, b)) [0..<8]) [0..<4])"

definition Marshal :: "gfP \<Rightarrow> byte list \<Rightarrow> nat \<Rightarrow> panic + byte list" where
  "Marshal e buf off = Marshal_loop e off wb_indices buf"

text \<open>
  \<^verbatim>\<open>Unmarshal\<close>: every byte is added into its limb of the receiver (\<^verbatim>\<open>+=\<close>), then the limbs
  are compared with \<^verbatim>\<open>p2\<close>, the most significant first. The result is the receiver after
  the call and the returned error (\<open>None\<close> for nil).
\<close>

fun Unmarshal_loop :: "byte list \<Rightarrow> (nat \<times> nat) list \<Rightarrow> gfP \<Rightarrow> panic + gfP" where
  "Unmarshal_loop inp [] e = Inr e"
| "Unmarshal_loop inp ((w, b) # wbs) e =
     (if 8 * w + b < length inp
      then Unmarshal_loop inp wbs
             (set_limb e (3 - w) (limb e (3 - w) + push_bit (56 - 8 * b) (ucast (inp ! (8 * w + b)))))
      else Inl IndexOutOfRange)"

fun Unmarshal_check :: "gfP \<Rightarrow> nat list \<Rightarrow> error option" where
  "Unmarshal_check e [] = Some CoordinateEqualsModulus"
| "Unmarshal_check e (i # is) =
     (if limb e i < limb p2 i then None
      else if limb e i > limb p2 i then Some CoordinateExceedsModulus
      else Unmarshal_check e is)"

definition Unmarshal :: "gfP \<Rightarrow> byte list \<Rightarrow> panic + (gfP \<times> error option)" where
  "Unmarshal e inp =
     (case Unmarshal_loop inp wb_indices e of
        Inl pn \<Rightarrow> Inl pn
      | Inr e' \<Rightarrow> Inr (e', Unmarshal_check e' [3, 2, 1, 0]))"

section \<open>The quadratic extension: \<^verbatim>\<open>gfp2.go\<close>\<close>

definition SetOne :: gfP2 where
  "SetOne = \<lparr>x2 = GfP 0 0 0 0, y2 = newGFp 1\<rparr>"

definition Mul :: "gfP2 \<Rightarrow> gfP2 \<Rightarrow> gfP2" where
  "Mul a b =
     (let tx = gfpMul (x2 a) (y2 b);
          t = gfpMul (x2 b) (y2 a);
          tx = gfpAdd tx t;
          ty = gfpMul (y2 a) (y2 b);
          t = gfpMul (x2 a) (x2 b);
          ty = gfpSub ty t
      in \<lparr>x2 = tx, y2 = ty\<rparr>)"

definition Square :: "gfP2 \<Rightarrow> gfP2" where
  "Square a =
     (let tx = gfpSub (y2 a) (x2 a);
          ty = gfpAdd (x2 a) (y2 a);
          ty = gfpMul tx ty;
          tx = gfpMul (x2 a) (y2 a);
          tx = gfpAdd tx tx
      in \<lparr>x2 = tx, y2 = ty\<rparr>)"

text \<open>
  \<^verbatim>\<open>Exp\<close>: the loop state is \<open>(res, foundOne, n)\<close>. The third component is not in the
  source: it counts the calls of \<^verbatim>\<open>Mul\<close>, to state how many multiplications a run performs.
  The bit test \<^verbatim>\<open>uint(exponentBytes[i]) & uint(math.Pow(2, float64(7-j)))\<close> reads bit \<open>7 - j\<close>
  (the powers of two up to 128 are exact in floating point).
\<close>

definition Exp_step :: "gfP2 \<Rightarrow> byte \<Rightarrow> nat \<Rightarrow> gfP2 \<times> bool \<times> nat \<Rightarrow> gfP2 \<times> bool \<times> nat" where
  "Exp_step base eb j s =
     (let (res, foundOne, n) = s;
          (res, n) = (if foundOne then (Mul res res, n + 1) else (res, n))
      in if (ucast eb :: uint64) AND 2 ^ (7 - j) \<noteq> 0
         then (Mul res base, True, n + 1)
         else (res, foundOne, n))"

definition Exp_run :: "gfP2 \<Rightarrow> int \<Rightarrow> gfP2 \<times> bool \<times> nat" where
  "Exp_run e exponent =
     fold (\<lambda>eb s. fold (\<lambda>j s'. Exp_step e eb j s') [0..<8] s) (Bytes (nat \<bar>exponent\<bar>))
       (SetOne, False, 0)"

definition Exp :: "gfP2 \<Rightarrow> int \<Rightarrow> gfP2" where
  "Exp e exponent = fst (Exp_run e exponent)"

definition Exp_muls :: "gfP2 \<Rightarrow> int \<Rightarrow> nat" where
  "Exp_muls e exponent = snd (snd (Exp_run e exponent))"

section \<open>Curve points\<close>

text \<open>
  Modelled from the spec: \<^verbatim>\<open>curvePoint.IsInfinity\<close>, \<^verbatim>\<open>SetInfinity\<close>, \<^verbatim>\<open>MakeAffine\<close> and
  \<^verbatim>\<open>G1.Neg\<close> are declared in files that are not among the sources. The spec has Jacobian
  coordinates \<open>(X, Y, Z)\<close> for computation and the affine form, with \<open>Z\<close> normalised away,
  for serialization; the point at infinity is the one whose \<open>Z\<close> is zero, the affine point
  \<open>(X / Z\<^sup>2, Y / Z\<^sup>3)\<close> otherwise. Negating a point negates its \<open>y\<close>.
\<close>

definition IsInfinity :: "curvePoint \<Rightarrow> bool" where
  "IsInfinity c = (z c = GfP 0 0 0 0)"

definition SetInfinity :: "curvePoint \<Rightarrow> curvePoint" where
  "SetInfinity c = c\<lparr>x := GfP 0 0 0 0, y := newGFp 1, z := GfP 0 0 0 0, t := GfP 0 0 0 0\<rparr>"

definition MakeAffine :: "curvePoint \<Rightarrow> curvePoint" where
  "MakeAffine c =
     (if z c = newGFp 1 then c
      else if z c = GfP 0 0 0 0 then c\<lparr>x := GfP 0 0 0 0, y := newGFp 1, t := GfP 0 0 0 0\<rparr>
      else let zInv = Invert (z c);
               t' = gfpMul (y c) zInv;
               zInv2 = gfpMul zInv zInv
           in c\<lparr>x := gfpMul (x c) zInv2, y := gfpMul t' zInv2, z := newGFp 1, t := newGFp 1\<rparr>)"

definition Neg :: "curvePoint \<Rightarrow> curvePoint" where
  "Neg c = c\<lparr>y := gfpNeg (y c)\<rparr>"

text \<open>Modelled from the spec: \<^verbatim>\<open>curveB\<close> of \<^verbatim>\<open>constants.go\<close>, the curve constant \<open>b = 3\<close>.\<close>

definition curveB :: gfP where
  "curveB = newGFp 3"

section \<open>Serialization: \<^verbatim>\<open>mpc_serialization.go\<close>\<close>

text \<open>
  \<^verbatim>\<open>IsHigherY\<close> and the encoders are methods of \<^verbatim>\<open>G1\<close> that dereference \<^verbatim>\<open>e.p\<close> at once; they
  are modelled on the curve point. The loop of \<^verbatim>\<open>IsHigherY\<close> runs from limb 3 down to limb 0.
\<close>

fun IsHigherY_loop :: "gfP \<Rightarrow> gfP \<Rightarrow> nat list \<Rightarrow> bool" where
  "IsHigherY_loop yCopy yNeg [] = False"
| "IsHigherY_loop yCopy yNeg (i # is) =
     (if limb yCopy i > limb yNeg i then True
      else if limb yCopy i < limb yNeg i then False
      else IsHigherY_loop yCopy yNeg is)"

definition IsHigherY :: "curvePoint \<Rightarrow> bool" where
  "IsHigherY c = (let yCopy = y c; yNeg = gfpNeg yCopy in IsHigherY_loop yCopy yNeg [3, 2, 1, 0])"

text \<open>
  The encoders normalise the receiver with \<^verbatim>\<open>MakeAffine\<close> and return the bytes; the result is
  the receiver after the call and the slice.
\<close>

definition EncodeCompressed :: "curvePoint \<Rightarrow> panic + (curvePoint \<times> byte list)" where
  "EncodeCompressed c =
     (let c = MakeAffine c;
          ret = replicate G1CompressedSize (0 :: byte);
          ret = ret[0 := ret ! 0 OR serializationCompressed]
      in if IsInfinity c then Inr (c, ret[0 := ret ! 0 OR serializationInfinity])
         else let ret = (if IsHigherY c then ret[0 := ret ! 0 OR serializationBigY] else ret);
                  temp = montDecode (x c)
              in case Marshal temp ret 1 of
                   Inl pn \<Rightarrow> Inl pn
                 | Inr ret \<Rightarrow> Inr (c, ret))"

definition EncodeUncompressed :: "curvePoint \<Rightarrow> panic + (curvePoint \<times> byte list)" where
  "EncodeUncompressed c =
     (let c = MakeAffine c;
          ret = replicate G1UncompressedSize (0 :: byte)
      in if IsInfinity c then Inr (c, ret[0 := ret ! 0 OR serializationInfinity])
         else let temp = montDecode (x c)
              in case Marshal temp ret 1 of
                   Inl pn \<Rightarrow> Inl pn
                 | Inr ret \<Rightarrow>
                     (let temp = montDecode (y c)
                      in case Marshal temp ret G1CompressedSize of
                           Inl pn \<Rightarrow> Inl pn
                         | Inr ret \<Rightarrow> Inr (c, ret)))"

text \<open>
  \<^verbatim>\<open>big.Int.ModSqrt\<close> of Go's library, from its documentation: a square root of \<open>x\<close> modulo
  the odd prime \<open>p\<close> if there is one, nil if \<open>x\<close> is not a square. The library decides by the
  Jacobi symbol, which for a prime modulus is 0 on the multiples of \<open>p\<close> and otherwise
  \<open>x ^ ((p - 1) div 2) mod p\<close> read as 1 or -1; for \<open>p mod 4 = 3\<close> the root it returns is
  \<open>x ^ ((p + 1) div 4) mod p\<close>.
\<close>

definition Jacobi :: "nat \<Rightarrow> nat \<Rightarrow> int" where
  "Jacobi n m = (if n mod m = 0 then 0 else if n ^ ((m - 1) div 2) mod m = 1 then 1 else - 1)"

definition ModSqrt :: "nat \<Rightarrow> nat \<Rightarrow> nat option" where
  "ModSqrt n m =
     (if Jacobi n m = - 1 then None
      else if Jacobi n m = 0 then Some 0
      else Some (n ^ ((m + 1) div 4) mod m))"

text \<open>
  \<^verbatim>\<open>getYFromMontEncodedX\<close> returns a field element or an error, and panics where
  \<^verbatim>\<open>newGFpFromBigInt\<close> does.
\<close>

definition getYFromMontEncodedX :: "gfP \<Rightarrow> panic + (error + gfP)" where
  "getYFromMontEncodedX xm =
     (let x2 = gfpMul xm xm;
          x3 = gfpMul x2 xm;
          rhs = gfpAdd x3 curveB;
          rhs = montDecode rhs;
          rhsBig = gFpToBigInt rhs
      in case ModSqrt rhsBig P of
           None \<Rightarrow> Inr (Inl NotASquareModP)
         | Some yCoord \<Rightarrow>
             (case newGFpFromBigInt yCoord of
                Inl pn \<Rightarrow> Inl pn
              | Inr yCoordGFp \<Rightarrow> Inr (Inr (montEncode yCoordGFp))))"

text \<open>
  \<^verbatim>\<open>DecodeCompressed\<close>: the result is the receiver after the call and the returned error
  (\<open>None\<close> for nil). \<^verbatim>\<open>copy(bin, encoding)\<close> fills a fresh slice of \<^verbatim>\<open>G1CompressedSize\<close> bytes.
\<close>

definition copy_bytes :: "nat \<Rightarrow> byte list \<Rightarrow> byte list" where
  "copy_bytes n src = take n src @ replicate (n - length src) 0"

definition DecodeCompressed :: "G1 \<Rightarrow> byte list \<Rightarrow> panic + (G1 \<times> error option)" where
  "DecodeCompressed e encoding =
     (if length encoding \<noteq> G1CompressedSize then Inr (e, Some WrongEncodedPointSize)
      else if encoding ! 0 AND serializationCompressed = 0 then Inr (e, Some PointNotCompressed)
      else
        let c = (case p e of
                   None \<Rightarrow> \<lparr>x = GfP 0 0 0 0, y = GfP 0 0 0 0, z = GfP 0 0 0 0, t = GfP 0 0 0 0\<rparr>
                 | Some c \<Rightarrow> c\<lparr>x := GfP 0 0 0 0, y := GfP 0 0 0 0, z := newGFp 1, t := newGFp 1\<rparr>);
            bin = copy_bytes G1CompressedSize encoding
        in if encoding ! 0 AND serializationInfinity \<noteq> 0 then
             (if encoding ! 0 AND serializationBigY \<noteq> 0
              then Inr (\<lparr>p = Some c\<rparr>, Some HighYBitImproperlySet)
              else if list_ex (\<lambda>b. b \<noteq> 0) bin
              then Inr (\<lparr>p = Some c\<rparr>, Some InvalidInfinityEncoding)
              else Inr (\<lparr>p = Some (SetInfinity c)\<rparr>, None))
           else
             (case Unmarshal (x c) (drop 1 bin) of
                Inl pn \<Rightarrow> Inl pn
              | Inr (x', Some err) \<Rightarrow> Inr (\<lparr>p = Some (c\<lparr>x := x'\<rparr>)\<rparr>, Some err)
              | Inr (x', None) \<Rightarrow>
                  (let c = c\<lparr>x := montEncode x'\<rparr>
                   in case getYFromMontEncodedX (x c) of
                        Inl pn \<Rightarrow> Inl pn
                      | Inr (Inl err) \<Rightarrow> Inr (\<lparr>p = Some c\<rparr>, Some err)
                      | Inr (Inr y') \<Rightarrow>
                          (let c = c\<lparr>y := y'\<rparr>;
                               c = (if \<not> IsHigherY c
                                    then (if encoding ! 0 AND serializationBigY \<noteq> 0 then Neg c else c)
                                    else (if encoding ! 0 AND serializationBigY = 0 then Neg c else c))
                           in Inr (\<lparr>p = Some c\<rparr>, None)))))"

section \<open>Readings of the claims\<close>

text \<open>
  The big-endian parse of 32 bytes into little-endian limbs, and the
  sum of two elements limb by limb (each limb wraps at \<open>2 ^ 64\<close>).
\<close>

definition parse_limbs :: "byte list \<Rightarrow> gfP" where
  "parse_limbs inp =
     GfP (be_uint64 (take 8 (drop 24 inp))) (be_uint64 (take 8 (drop 16 inp)))
         (be_uint64 (take 8 (drop 8 inp))) (be_uint64 (take 8 inp))"

fun limb_sum :: "gfP \<Rightarrow> gfP \<Rightarrow> gfP" where
  "limb_sum (GfP a b c d) (GfP a' b' c' d') = GfP (a + a') (b + b') (c + c') (d + d')"

text \<open>
  The residue a field element in Montgomery form stands for: what \<^verbatim>\<open>montDecode\<close> returns,
  as a number.
\<close>

definition plain :: "gfP \<Rightarrow> nat" where
  "plain u = val u * Rinv mod P"

text \<open>
  Primes, for the facts about the modulus. A certificate for a modular power lists, for
  every squaring (\<open>False\<close>) and every multiplication by the base (\<open>True\<close>), the quotient and
  the remainder of the product by the modulus; \<open>chain_ok\<close> checks the products and
  \<open>chain_exp\<close> is the exponent the steps reach.
\<close>

definition is_prime :: "nat \<Rightarrow> bool" where
  "is_prime n \<longleftrightarrow> 1 < n \<and> (\<forall>d. d dvd n \<longrightarrow> d = 1 \<or> d = n)"

fun chain_ok :: "nat \<Rightarrow> nat \<Rightarrow> nat \<Rightarrow> (bool \<times> nat \<times> nat) list \<Rightarrow> nat \<Rightarrow> bool" where
  "chain_ok n c v [] w = (v = w)"
| "chain_ok n c v ((m, d, r) # rest) w =
     (r < n \<and> (if m then v * c else v * v) = d * n + r \<and> chain_ok n c r rest w)"

fun chain_exp :: "nat \<Rightarrow> (bool \<times> nat \<times> nat) list \<Rightarrow> nat" where
  "chain_exp k [] = k"
| "chain_exp k ((m, d, r) # rest) = chain_exp (if m then k + 1 else 2 * k) rest"

section \<open>Marshalling of field elements\<close>

lemma wb_indices_eval: "wb_indices = [(0,0),(0,1),(0,2),(0,3),(0,4),(0,5),(0,6),(0,7),
  (1,0),(1,1),(1,2),(1,3),(1,4),(1,5),(1,6),(1,7),
  (2,0),(2,1),(2,2),(2,3),(2,4),(2,5),(2,6),(2,7),
  (3,0),(3,1),(3,2),(3,3),(3,4),(3,5),(3,6),(3,7)]"
  by (simp add: wb_indices_def upt_rec)

lemma take8_drop: "k + 8 \<le> length xs \<Longrightarrow>
  take 8 (drop k xs) = [xs ! k, xs ! (k+1), xs ! (k+2), xs ! (k+3), xs ! (k+4), xs ! (k+5), xs ! (k+6), xs ! (k+7)]"
  by (auto simp: list_eq_iff_nth_eq nth_Cons' less_Suc_eq numeral_eq_Suc add.commute)

lemma be_uint64_8: "be_uint64 [b0, b1, b2, b3, b4, b5, b6, b7] =
   push_bit 56 (ucast b0) + push_bit 48 (ucast b1) + push_bit 40 (ucast b2) + push_bit 32 (ucast b3)
   + push_bit 24 (ucast b4) + push_bit 16 (ucast b5) + push_bit 8 (ucast b6) + ucast b7"
  by (simp add: be_uint64_def push_bit_eq_mult algebra_simps)

lemma parse_limbs_32:
  assumes "length inp = 32"
  shows "parse_limbs inp = GfP
    (be_uint64 [inp ! 24, inp ! 25, inp ! 26, inp ! 27, inp ! 28, inp ! 29, inp ! 30, inp ! 31])
    (be_uint64 [inp ! 16, inp ! 17, inp ! 18, inp ! 19, inp ! 20, inp ! 21, inp ! 22, inp ! 23])
    (be_uint64 [inp ! 8, inp ! 9, inp ! 10, inp ! 11, inp ! 12, inp ! 13, inp ! 14, inp ! 15])
    (be_uint64 [inp ! 0, inp ! 1, inp ! 2, inp ! 3, inp ! 4, inp ! 5, inp ! 6, inp ! 7])"
proof -
  have a: "take 8 (drop 24 inp) = [inp ! 24, inp ! 25, inp ! 26, inp ! 27, inp ! 28, inp ! 29, inp ! 30, inp ! 31]"
    using take8_drop [of 24 inp] assms by simp
  have b: "take 8 (drop 16 inp) = [inp ! 16, inp ! 17, inp ! 18, inp ! 19, inp ! 20, inp ! 21, inp ! 22, inp ! 23]"
    using take8_drop [of 16 inp] assms by simp
  have c: "take 8 (drop 8 inp) = [inp ! 8, inp ! 9, inp ! 10, inp ! 11, inp ! 12, inp ! 13, inp ! 14, inp ! 15]"
    using take8_drop [of 8 inp] assms by simp
  have d: "take 8 inp = [inp ! 0, inp ! 1, inp ! 2, inp ! 3, inp ! 4, inp ! 5, inp ! 6, inp ! 7]"
    using take8_drop [of 0 inp] assms by (simp add: numeral_2_eq_2 [symmetric])
  show ?thesis unfolding parse_limbs_def a b c d ..
qed

lemma Unmarshal_loop_32:
  assumes "length inp = 32"
  shows "Unmarshal_loop inp wb_indices e = Inr (limb_sum e (parse_limbs inp))"
proof -
  obtain a b c d where e: "e = GfP a b c d" by (cases e)
  show ?thesis
    unfolding wb_indices_eval e parse_limbs_32 [OF assms] be_uint64_8
    by (simp add: assms numeral_2_eq_2 [symmetric])
qed


lemma limb_sum_eq_iff: "limb_sum e q = q \<longleftrightarrow> e = GfP 0 0 0 0"
  by (cases e; cases q) auto

text \<open>
  C10: \<^verbatim>\<open>gfP.Unmarshal\<close> adds the parsed bytes into the limbs the receiver already has. For
  every 32-byte input the receiver ends as the limb-wise sum (each limb modulo \<open>2 ^ 64\<close>) of
  its old contents and the big-endian parse of the input, and it ends as the parse itself
  exactly when every limb of the receiver was zero before the call.
\<close>

theorem Unmarshal_accumulates:
  assumes "length inp = 32"
  shows "(\<exists>err. Unmarshal e inp = Inr (limb_sum e (parse_limbs inp), err)) \<and>
         ((\<exists>err. Unmarshal e inp = Inr (parse_limbs inp, err)) \<longleftrightarrow> e = GfP 0 0 0 0)"
  using limb_sum_eq_iff [of e "parse_limbs inp"]
  by (auto simp: Unmarshal_def Unmarshal_loop_32 [OF assms])

theorem Unmarshal_accumulates_witness:
  "length (replicate 31 (0 :: byte) @ [1]) = 32 \<and>
   (\<exists>err. Unmarshal (GfP 5 0 0 0) (replicate 31 0 @ [1]) = Inr (GfP 6 0 0 0, err)) \<and>
   \<not> (\<exists>err. Unmarshal (GfP 5 0 0 0) (replicate 31 0 @ [1]) = Inr (GfP 1 0 0 0, err))"
proof -
  have l: "length (replicate 31 (0 :: byte) @ [1]) = 32" by simp
  have q: "parse_limbs (replicate 31 (0 :: byte) @ [1]) = GfP 1 0 0 0"
    by (simp add: parse_limbs_def be_uint64_def numeral_eq_Suc)
  show ?thesis
    using Unmarshal_accumulates [OF l, of "GfP 5 0 0 0"] unfolding q by simp
qed

section \<open>Limbs and numbers\<close>

lemma P_lt: "P < 2 ^ 256" by (simp add: P_def)

lemma val_p2: "val p2 = P" by (simp add: p2_def P_def)

lemma digits4:
  fixes B :: nat
  assumes "n < B * B * B * B"
  shows "n mod B + B * (n div B mod B) + B * B * (n div (B * B) mod B)
           + B * B * B * (n div (B * B * B) mod B) = n"
proof -
  define q1 where "q1 = n div B"
  define q2 where "q2 = q1 div B"
  define q3 where "q3 = q2 div B"
  have B: "0 < B" using assms by (cases "B = 0") auto
  have e2: "n div (B * B) = q2" by (simp add: q1_def q2_def div_mult2_eq)
  have e3: "n div (B * B * B) = q3"
    using div_mult2_eq [of n "B * B" B] e2 by (simp add: q3_def)
  have "q3 < B"
    unfolding e3 [symmetric] using assms B
    by (metis less_mult_imp_div_less mult.commute mult.assoc)
  then have m3: "q3 mod B = q3" by simp
  have a: "n = n mod B + B * q1" by (simp add: q1_def)
  have b: "q1 = q1 mod B + B * q2" by (simp add: q2_def)
  have c: "q2 = q2 mod B + B * q3" by (simp add: q3_def)
  have "n mod B + B * (q1 mod B) + B * B * (q2 mod B) + B * B * B * q3
        = n mod B + B * (q1 mod B + B * (q2 mod B + B * q3))"
    by (simp add: algebra_simps)
  also have "\<dots> = n" using a b c by simp
  finally show ?thesis unfolding e2 e3 m3 q1_def [symmetric] .
qed


lemma digit_lt:
  fixes B :: nat
  assumes "a < B" "r < M"
  shows "a + B * r < B * M"
proof -
  have "a + B * r < B * Suc r" using assms(1) by simp
  also have "\<dots> \<le> B * M" using assms(2) by (simp only: mult_le_mono2 Suc_leI)
  finally show ?thesis .
qed

lemma digit_mod_div:
  fixes B :: nat
  assumes "a < B"
  shows "(a + B * r) mod B = a" and "(a + B * r) div B = r"
  using assms by simp_all

lemma val_nested:
  "val (GfP a b c d) = unat a + 2 ^ 64 * (unat b + 2 ^ 64 * (unat c + 2 ^ 64 * unat d))"
  by simp

lemma val_lt: "val e < 2 ^ 256"
proof (cases e)
  case (GfP a b c d)
  let ?B = "2 ^ 64 :: nat"
  have l: "unat a < ?B" "unat b < ?B" "unat c < ?B" "unat d < ?B"
    using unsigned_less [of a] unsigned_less [of b] unsigned_less [of c] unsigned_less [of d] by simp_all
  have "unat c + ?B * unat d < ?B * ?B" by (rule digit_lt [OF l(3) l(4)])
  then have "unat b + ?B * (unat c + ?B * unat d) < ?B * (?B * ?B)" by (rule digit_lt [OF l(2)])
  then have "unat a + ?B * (unat b + ?B * (unat c + ?B * unat d)) < ?B * (?B * (?B * ?B))"
    by (rule digit_lt [OF l(1)])
  moreover have "?B * (?B * (?B * ?B)) = 2 ^ 256" by simp
  ultimately show ?thesis unfolding GfP val_nested by simp
qed

lemma of_val_val: "of_val (val e) = e"
proof (cases e)
  case (GfP a b c d)
  let ?B = "2 ^ 64 :: nat"
  have l: "unat a < ?B" "unat b < ?B" "unat c < ?B" "unat d < ?B"
    using unsigned_less [of a] unsigned_less [of b] unsigned_less [of c] unsigned_less [of d] by simp_all
  let ?r1 = "unat b + ?B * (unat c + ?B * unat d)"
  let ?r2 = "unat c + ?B * unat d"
  let ?n = "unat a + ?B * ?r1"
  have d1: "?n div ?B = ?r1" by (rule digit_mod_div(2) [OF l(1)])
  have d2: "?n div 2 ^ 128 = ?r2"
  proof -
    have "?n div 2 ^ 128 = ?n div ?B div ?B" by (simp add: div_mult2_eq [symmetric])
    also have "\<dots> = ?r2" unfolding d1 by (rule digit_mod_div(2) [OF l(2)])
    finally show ?thesis .
  qed
  have d3: "?n div 2 ^ 192 = unat d"
  proof -
    have "?n div 2 ^ 192 = ?n div 2 ^ 128 div ?B" by (simp add: div_mult2_eq [symmetric])
    also have "\<dots> = unat d" unfolding d2 by (rule digit_mod_div(2) [OF l(3)])
    finally show ?thesis .
  qed
  have w: "(of_nat (unat u + ?B * r) :: uint64) = u" for u r
  proof -
    have "(of_nat (?B * r) :: uint64) = 0" by (simp only: word_of_nat_eq_0_iff) simp
    then show ?thesis by (simp only: of_nat_add of_nat_unat ucast_id add_0_right)
  qed
  have "of_val ?n = GfP a b c d"
    unfolding of_val_def d1 d2 d3 by (simp only: w of_nat_unat ucast_id)
  then show ?thesis unfolding GfP val_nested .
qed

lemma val_of_val:
  assumes "n < 2 ^ 256"
  shows "val (of_val n) = n"
proof -
  let ?B = "2 ^ 64 :: nat"
  have 1: "n < ?B * ?B * ?B * ?B" using assms by simp
  have "val (of_val n) = n mod ?B + ?B * (n div ?B mod ?B)
          + ?B * ?B * (n div (?B * ?B) mod ?B) + ?B * ?B * ?B * (n div (?B * ?B * ?B) mod ?B)"
    by (simp add: of_val_def unat_of_nat)
  also have "\<dots> = n" by (rule digits4 [OF 1])
  finally show ?thesis .
qed

lemma val_inj: "val a = val b \<Longrightarrow> a = b"
  by (metis of_val_val)


lemma digit_less_iff:
  fixes B :: nat
  assumes "a < B" "b < B"
  shows "a + B * r < b + B * s \<longleftrightarrow> r < s \<or> (r = s \<and> a < b)"
proof -
  have 1: "a + B * r < b + B * s" if "r < s"
  proof -
    have "a + B * r < B * s" using assms(1) that by (rule digit_lt)
    then show ?thesis by simp
  qed
  have 2: "\<not> a + B * r < b + B * s" if "s < r"
  proof -
    have "b + B * s < B * r" using assms(2) that by (rule digit_lt)
    then show ?thesis by simp
  qed
  show ?thesis using 1 2 by (cases r s rule: linorder_cases) auto
qed

lemma digit_eq_iff:
  fixes B :: nat
  assumes "a < B" "b < B"
  shows "a + B * r = b + B * s \<longleftrightarrow> r = s \<and> a = b"
  using digit_mod_div [OF assms(1), of r] digit_mod_div [OF assms(2), of s] by metis

lemma val_less_iff:
  "val (GfP a b c d) < val (GfP a' b' c' d') \<longleftrightarrow>
     d < d' \<or> (d = d' \<and> (c < c' \<or> (c = c' \<and> (b < b' \<or> (b = b' \<and> a < a')))))"
proof -
  let ?B = "2 ^ 64 :: nat"
  have l: "unat w < ?B" for w :: uint64 using unsigned_less [of w] by simp
  show ?thesis
    unfolding val_nested
    by (simp only: digit_less_iff [OF l l] digit_eq_iff [OF l l] word_less_nat_alt word_unat_eq_iff) blast
qed

lemma IsHigherY_loop_val: "IsHigherY_loop a b [3, 2, 1, 0] \<longleftrightarrow> val b < val a"
proof -
  obtain a0 a1 a2 a3 where a: "a = GfP a0 a1 a2 a3" by (cases a)
  obtain b0 b1 b2 b3 where b: "b = GfP b0 b1 b2 b3" by (cases b)
  have "IsHigherY_loop a b [3, 2, 1, 0] =
     (if b3 < a3 then True else if a3 < b3 then False
      else if b2 < a2 then True else if a2 < b2 then False
      else if b1 < a1 then True else if a1 < b1 then False
      else if b0 < a0 then True else False)"
    unfolding a b by simp
  also have "\<dots> \<longleftrightarrow> val b < val a"
    unfolding a b val_less_iff by (auto simp: not_less_iff_gr_or_eq)
  finally show ?thesis .
qed

lemma Unmarshal_check_loop:
  "Unmarshal_check e is =
     (if IsHigherY_loop p2 e is then None
      else if IsHigherY_loop e p2 is then Some CoordinateExceedsModulus
      else Some CoordinateEqualsModulus)"
  by (induction "is") auto

lemma Unmarshal_check_val:
  "Unmarshal_check e [3, 2, 1, 0] =
     (if val e < P then None
      else if P < val e then Some CoordinateExceedsModulus
      else Some CoordinateEqualsModulus)"
  unfolding Unmarshal_check_loop IsHigherY_loop_val val_p2 ..

section \<open>Montgomery arithmetic\<close>

lemma mod_witness:
  fixes a :: nat
  shows "a = q * m + r \<Longrightarrow> r < m \<Longrightarrow> a mod m = r"
  by simp

lemma P_pos: "0 < P" by (simp add: P_def)

lemma P_gt1: "1 < P" by (simp add: P_def)

lemma R_Rinv: "R * Rinv mod P = 1"
proof -
  have "R * Rinv = 111032442853175714102588374283752698368366046808579839647964533820976443843465 * P + 1"
    by (simp add: R_def Rinv_def P_def)
  then show ?thesis using P_gt1 by (rule mod_witness)
qed

lemma val_r2: "val r2 = R * R mod P"
proof -
  have "R * R = 612557527273816073910311476275045157063291712851072105081573245353947274219089 * P + val r2"
    by (simp add: R_def r2_def P_def)
  moreover have "val r2 < P" by (simp add: r2_def P_def)
  ultimately show ?thesis by (simp only: mod_witness)
qed

lemma val_r3: "val r3 = R * R * R mod P"
proof -
  have "R * R * R = 70929315861079460050545713470651790606923405926466211915113036792909980961599421414997981004512474711712187937888378613618671853005854333634873964382086231 * P + val r3"
    by (simp add: R_def r3_def P_def)
  moreover have "val r3 < P" by (simp add: r3_def P_def)
  ultimately show ?thesis by (simp only: mod_witness)
qed

lemma val_rN1: "val rN1 = Rinv" by (simp add: rN1_def Rinv_def)

lemma mod_P_lt: "n mod P < 2 ^ 256"
  using P_lt mod_less_divisor [OF P_pos, of n] by (rule less_trans [rotated])

lemma val_gfpMul: "val (gfpMul a b) = val a * val b * Rinv mod P"
  by (simp only: gfpMul_def val_of_val [OF mod_P_lt])

lemma val_gfpAdd: "val (gfpAdd a b) = (val a + val b) mod P"
  by (simp only: gfpAdd_def val_of_val [OF mod_P_lt])

lemma val_gfpSub: "val (gfpSub a b) = (val a + (P - val b mod P)) mod P"
  by (simp only: gfpSub_def val_of_val [OF mod_P_lt])

lemma val_gfpNeg: "val (gfpNeg a) = (P - val a mod P) mod P"
  by (simp only: gfpNeg_def val_of_val [OF mod_P_lt])

lemma cancel_R: "a * R * Rinv mod P = a mod P"
proof -
  have "a * R * Rinv mod P = (a mod P) * (R * Rinv mod P) mod P"
    by (simp only: mult.assoc mod_mult_eq)
  then show ?thesis by (simp add: R_Rinv)
qed

lemma val_montEncode: "val (montEncode a) = val a * R mod P"
proof -
  have "val (montEncode a) = val a * (R * R mod P) * Rinv mod P"
    by (simp only: montEncode_def val_gfpMul val_r2)
  also have "\<dots> = (val a * R) * R * Rinv mod P"
    by (metis mod_mult_left_eq mod_mult_right_eq mult.assoc)
  also have "\<dots> = val a * R mod P" by (simp only: cancel_R mod_mod_trivial)
  finally show ?thesis .
qed

lemma val_montDecode: "val (montDecode a) = val a * Rinv mod P"
  by (simp add: montDecode_def val_gfpMul)

lemma val_decode_encode: "val (montDecode (montEncode a)) = val a mod P"
proof -
  have "val (montDecode (montEncode a)) = (val a * R mod P) * Rinv mod P"
    by (simp only: val_montDecode val_montEncode)
  also have "\<dots> = val a * R * Rinv mod P" by (simp only: mod_mult_left_eq)
  finally show ?thesis by (simp only: cancel_R)
qed

section \<open>The encoders\<close>

lemma R_mod_P_nonzero: "R mod P \<noteq> 0"
proof
  assume "R mod P = 0"
  then have "R * Rinv mod P = 0" by (metis mod_mult_left_eq mult_zero_left mod_0)
  then show False using R_Rinv by simp
qed

lemma val_newGFp_1: "val (newGFp 1) = R mod P"
  by (simp add: newGFp_def val_montEncode)

lemma newGFp_1_nonzero: "newGFp 1 \<noteq> GfP 0 0 0 0"
proof
  assume "newGFp 1 = GfP 0 0 0 0"
  then have "val (newGFp 1) = val (GfP 0 0 0 0)" by simp
  then show False using R_mod_P_nonzero by (simp add: val_newGFp_1)
qed

lemma Marshal_loop_ok:
  "\<forall>wb \<in> set wbs. off + (8 * fst wb + snd wb) < length buf \<Longrightarrow>
   \<exists>buf'. Marshal_loop e off wbs buf = Inr buf' \<and> length buf' = length buf"
proof (induction wbs arbitrary: buf)
  case Nil
  then show ?case by simp
next
  case (Cons wb wbs)
  obtain w b where wb: "wb = (w, b)" by (cases wb)
  have "\<forall>wb \<in> set wbs. off + (8 * fst wb + snd wb) < length (buf[off + (8 * w + b) := Marshal_byte e w b])"
    using Cons.prems by simp
  from Cons.IH [OF this] show ?case using Cons.prems by (simp add: wb)
qed

lemma Marshal_ok:
  assumes "off + 32 \<le> length buf"
  shows "\<exists>buf'. Marshal e buf off = Inr buf' \<and> length buf' = length buf"
proof -
  have "\<forall>wb \<in> set wb_indices. off + (8 * fst wb + snd wb) < length buf"
    using assms unfolding wb_indices_eval by simp
  then show ?thesis unfolding Marshal_def by (rule Marshal_loop_ok)
qed

lemma Marshal_panic:
  assumes "length buf = off + 31"
  shows "Marshal e buf off = Inl IndexOutOfRange"
  unfolding Marshal_def wb_indices_eval using assms by simp


lemma EncodeUncompressed_panics:
  assumes "\<not> IsInfinity (MakeAffine c)"
  shows "EncodeUncompressed c = Inl IndexOutOfRange"
proof -
  let ?ret = "replicate G1UncompressedSize (0 :: byte)"
  have "1 + 32 \<le> length ?ret" by (simp add: G1UncompressedSize_def FqElementSize_def)
  from Marshal_ok [OF this] obtain ret' where
    1: "Marshal (montDecode (x (MakeAffine c))) ?ret 1 = Inr ret'" and 2: "length ret' = length ?ret"
    by blast
  have "length ret' = G1CompressedSize + 31"
    using 2 by (simp add: G1UncompressedSize_def G1CompressedSize_def FqElementSize_def)
  then have "Marshal (montDecode (y (MakeAffine c))) ret' G1CompressedSize = Inl IndexOutOfRange"
    by (rule Marshal_panic)
  then show ?thesis using assms 1 by (simp add: EncodeUncompressed_def Let_def)
qed

text \<open>
  C3: for every point that is not the point at infinity \<^verbatim>\<open>EncodeUncompressed\<close> should return
  65 bytes, the flag byte, then \<open>x\<close>, then \<open>y\<close>. The source allocates \<^verbatim>\<open>G1UncompressedSize = 64\<close>
  bytes, writes \<open>x\<close> at offset 1 and \<open>y\<close> at offset 33, where only 31 bytes are left: the
  last write of \<^verbatim>\<open>Marshal\<close> is out of range and the call panics. The theorem runs the encoder
  on the generator \<open>(1, 2)\<close>.
\<close>

theorem EncodeUncompressed_generator_panics:
  "EncodeUncompressed \<lparr>x = newGFp 1, y = newGFp 2, z = newGFp 1, t = newGFp 1\<rparr> = Inl IndexOutOfRange"
  by (rule EncodeUncompressed_panics) (simp add: MakeAffine_def IsInfinity_def newGFp_1_nonzero)

lemma infinity_bytes:
  "(replicate G1CompressedSize (0 :: byte))[0 := 0 OR serializationCompressed OR serializationInfinity]
     = 0xC0 # replicate 32 0"
  by (simp add: G1CompressedSize_def FqElementSize_def serializationCompressed_def
      serializationInfinity_def numeral_eq_Suc)

lemma EncodeCompressed_infinity_aux:
  assumes "IsInfinity (MakeAffine c)"
  shows "EncodeCompressed c = Inr (MakeAffine c, 0xC0 # replicate 32 0)"
proof -
  have 0: "0 < G1CompressedSize" by (simp add: G1CompressedSize_def)
  show ?thesis
    using assms infinity_bytes by (simp add: EncodeCompressed_def Let_def 0)
qed

section \<open>The decoder\<close>

lemma copy_bytes_same: "length src = n \<Longrightarrow> copy_bytes n src = src"
  by (simp add: copy_bytes_def)

lemma MakeAffine_infinity:
  "MakeAffine \<lparr>x = GfP 0 0 0 0, y = newGFp 1, z = GfP 0 0 0 0, t = GfP 0 0 0 0\<rparr>
     = \<lparr>x = GfP 0 0 0 0, y = newGFp 1, z = GfP 0 0 0 0, t = GfP 0 0 0 0\<rparr>"
  using newGFp_1_nonzero by (simp add: MakeAffine_def)

lemma DecodeCompressed_infinity_bytes:
  "DecodeCompressed \<lparr>p = None\<rparr> (0xC0 # replicate 32 0) =
     Inr (\<lparr>p = Some \<lparr>x = GfP 0 0 0 0, y = GfP 0 0 0 0, z = GfP 0 0 0 0, t = GfP 0 0 0 0\<rparr>\<rparr>,
          Some InvalidInfinityEncoding)"
  by (simp add: DecodeCompressed_def G1CompressedSize_def FqElementSize_def copy_bytes_same
      serializationCompressed_def serializationInfinity_def serializationBigY_def)

text \<open>
  C4, as the spec states it, would make the compressed encoding of the point at infinity
  the byte \<open>0x40\<close> followed by 32 zero bytes. The encoder sets the COMPRESSED flag before it
  looks at the point, so the first byte is \<open>0xC0\<close>.
\<close>

theorem EncodeCompressed_infinity_not_0x40:
  "EncodeCompressed \<lparr>x = GfP 0 0 0 0, y = newGFp 1, z = GfP 0 0 0 0, t = GfP 0 0 0 0\<rparr>
     \<noteq> Inr (\<lparr>x = GfP 0 0 0 0, y = newGFp 1, z = GfP 0 0 0 0, t = GfP 0 0 0 0\<rparr>, 0x40 # replicate 32 0)"
proof -
  have "IsInfinity (MakeAffine \<lparr>x = GfP 0 0 0 0, y = newGFp 1, z = GfP 0 0 0 0, t = GfP 0 0 0 0\<rparr>)"
    unfolding MakeAffine_infinity by (simp add: IsInfinity_def)
  from EncodeCompressed_infinity_aux [OF this] show ?thesis by simp
qed

text \<open>
  C4, amended: for every point that \<^verbatim>\<open>MakeAffine\<close> leaves at infinity, \<^verbatim>\<open>EncodeCompressed\<close>
  returns 33 bytes, the first \<open>0xC0\<close> (COMPRESSED and \<lparr>x = GfP 0 0 0 0, y = newGFp 1, z = GfP 0 0 0 0, t = GfP 0 0 0 0\<rparr>INITY set), the other 32 zero.
\<close>

theorem EncodeCompressed_infinity:
  assumes "IsInfinity (MakeAffine c)"
  shows "EncodeCompressed c = Inr (MakeAffine c, 0xC0 # replicate 32 0)"
  using assms by (rule EncodeCompressed_infinity_aux)

theorem EncodeCompressed_infinity_witness:
  "IsInfinity (MakeAffine \<lparr>x = GfP 0 0 0 0, y = newGFp 1, z = GfP 0 0 0 0, t = GfP 0 0 0 0\<rparr>) \<and>
   EncodeCompressed \<lparr>x = GfP 0 0 0 0, y = newGFp 1, z = GfP 0 0 0 0, t = GfP 0 0 0 0\<rparr> = Inr (\<lparr>x = GfP 0 0 0 0, y = newGFp 1, z = GfP 0 0 0 0, t = GfP 0 0 0 0\<rparr>, 0xC0 # replicate 32 0)"
proof -
  have i: "IsInfinity (MakeAffine \<lparr>x = GfP 0 0 0 0, y = newGFp 1, z = GfP 0 0 0 0, t = GfP 0 0 0 0\<rparr>)"
    unfolding MakeAffine_infinity by (simp add: IsInfinity_def)
  show ?thesis
    using i EncodeCompressed_infinity [OF i] unfolding MakeAffine_infinity by simp
qed

text \<open>
  C1: decoding the compressed encoding of a point should give the point back, the point at
  infinity included. The encoder writes \<open>0xC0\<close> and 32 zero bytes for the point at infinity;
  the decoder, in its infinity branch, requires every byte of \<^verbatim>\<open>bin\<close> to be zero, the flag
  byte included, which it never is there: the encoding is rejected as an invalid infinity
  encoding.
\<close>

theorem roundtrip_infinity_rejected:
  "EncodeCompressed \<lparr>x = GfP 0 0 0 0, y = newGFp 1, z = GfP 0 0 0 0, t = GfP 0 0 0 0\<rparr>
     = Inr (\<lparr>x = GfP 0 0 0 0, y = newGFp 1, z = GfP 0 0 0 0, t = GfP 0 0 0 0\<rparr>, 0xC0 # replicate 32 0)
   \<and> DecodeCompressed \<lparr>p = None\<rparr> (0xC0 # replicate 32 0) =
     Inr (\<lparr>p = Some \<lparr>x = GfP 0 0 0 0, y = GfP 0 0 0 0, z = GfP 0 0 0 0, t = GfP 0 0 0 0\<rparr>\<rparr>,
          Some InvalidInfinityEncoding)"
proof -
  have "IsInfinity (MakeAffine \<lparr>x = GfP 0 0 0 0, y = newGFp 1, z = GfP 0 0 0 0, t = GfP 0 0 0 0\<rparr>)"
    unfolding MakeAffine_infinity by (simp add: IsInfinity_def)
  from EncodeCompressed_infinity_aux [OF this] show ?thesis
    unfolding MakeAffine_infinity using DecodeCompressed_infinity_bytes by simp
qed

lemma DecodeCompressed_infinity_never_accepted:
  assumes "encoding ! 0 AND serializationInfinity \<noteq> 0"
  shows "DecodeCompressed e encoding \<noteq> Inr (g, None)"
proof (cases "length encoding = G1CompressedSize \<and> encoding ! 0 AND serializationCompressed \<noteq> 0")
  case False
  then show ?thesis by (auto simp: DecodeCompressed_def)
next
  case True
  then have "0 < length encoding" by (simp add: G1CompressedSize_def)
  moreover from True have "encoding ! 0 \<noteq> 0" by auto
  ultimately have "list_ex (\<lambda>b. b \<noteq> 0) encoding"
    unfolding list_ex_iff using nth_mem by blast
  then show ?thesis
    using True assms by (simp add: DecodeCompressed_def Let_def copy_bytes_same)
qed

lemma limb_sum_zero: "limb_sum (GfP 0 0 0 0) q = q"
  by (cases q) simp

lemma DecodeCompressed_x_cases:
  "x (case p e of
        None \<Rightarrow> \<lparr>x = GfP 0 0 0 0, y = GfP 0 0 0 0, z = GfP 0 0 0 0, t = GfP 0 0 0 0\<rparr>
      | Some c \<Rightarrow> c\<lparr>x := GfP 0 0 0 0, y := GfP 0 0 0 0, z := newGFp 1, t := newGFp 1\<rparr>) = GfP 0 0 0 0"
  by (cases "p e") simp_all

lemma DecodeCompressed_Unmarshal:
  assumes "length encoding = 33"
  shows "Unmarshal (GfP 0 0 0 0) (drop 1 (copy_bytes G1CompressedSize encoding)) =
           Inr (parse_limbs (drop 1 encoding),
                Unmarshal_check (parse_limbs (drop 1 encoding)) [3, 2, 1, 0])"
proof -
  have c: "copy_bytes G1CompressedSize encoding = encoding"
    using assms by (simp add: copy_bytes_same G1CompressedSize_def FqElementSize_def)
  have l: "length (drop 1 encoding) = 32" using assms by simp
  show ?thesis
    unfolding c Unmarshal_def Unmarshal_loop_32 [OF l] limb_sum_zero by simp
qed

text \<open>The decoder on an encoding that reaches the coordinate: 33 bytes, flagged compressed, not flagged infinity.\<close>

lemma DecodeCompressed_point:
  assumes "length encoding = 33"
    and "encoding ! 0 AND serializationCompressed \<noteq> 0"
    and "encoding ! 0 AND serializationInfinity = 0"
  shows "DecodeCompressed e encoding =
     (let c = (case p e of
                 None \<Rightarrow> \<lparr>x = GfP 0 0 0 0, y = GfP 0 0 0 0, z = GfP 0 0 0 0, t = GfP 0 0 0 0\<rparr>
               | Some c \<Rightarrow> c\<lparr>x := GfP 0 0 0 0, y := GfP 0 0 0 0, z := newGFp 1, t := newGFp 1\<rparr>);
          x' = parse_limbs (drop 1 encoding)
      in if val x' = P then Inr (\<lparr>p = Some (c\<lparr>x := x'\<rparr>)\<rparr>, Some CoordinateEqualsModulus)
         else if P < val x' then Inr (\<lparr>p = Some (c\<lparr>x := x'\<rparr>)\<rparr>, Some CoordinateExceedsModulus)
         else
           (let c = c\<lparr>x := montEncode x'\<rparr>
            in case getYFromMontEncodedX (montEncode x') of
                 Inl pn \<Rightarrow> Inl pn
               | Inr (Inl err) \<Rightarrow> Inr (\<lparr>p = Some c\<rparr>, Some err)
               | Inr (Inr y') \<Rightarrow>
                   (let c = c\<lparr>y := y'\<rparr>;
                        c = (if \<not> IsHigherY c
                             then (if encoding ! 0 AND serializationBigY \<noteq> 0 then Neg c else c)
                             else (if encoding ! 0 AND serializationBigY = 0 then Neg c else c))
                    in Inr (\<lparr>p = Some c\<rparr>, None))))"
proof -
  have n: "length encoding = G1CompressedSize"
    using assms(1) by (simp add: G1CompressedSize_def FqElementSize_def)
  have i: "\<not> encoding ! 0 AND serializationInfinity \<noteq> 0" using assms(3) by simp
  show ?thesis
    unfolding DecodeCompressed_def Let_def DecodeCompressed_x_cases
      DecodeCompressed_Unmarshal [OF assms(1)] Unmarshal_check_val
    by (simp only: n assms(2) i if_False if_True not_False_eq_True not_True_eq_False simp_thms
        sum.case prod.case option.case if_distrib [of "\<lambda>v. case_option _ _ v"]
        if_distrib [of "\<lambda>v. case_prod _ (_, v)"] linorder_neqE_nat split: if_split)
      (auto simp: not_less)
qed

text \<open>
  C6: a compressed encoding of 33 bytes that reaches the coordinate (COMPRESSED set,
  INFINITY clear) and whose 32 coordinate bytes parse to a number that is at least \<open>p\<close>
  is rejected: \<^verbatim>\<open>DecodeCompressed\<close> returns the error of \<^verbatim>\<open>Unmarshal\<close>, "coordinate equals
  modulus" at \<open>p\<close> and "coordinate exceeds modulus" above it, and no point. The flags have a
  byte of their own in this format, so no bit of the coordinate is masked.
\<close>

theorem DecodeCompressed_coordinate_out_of_range:
  assumes "length encoding = 33"
    and "encoding ! 0 AND serializationCompressed \<noteq> 0"
    and "encoding ! 0 AND serializationInfinity = 0"
    and "P \<le> val (parse_limbs (drop 1 encoding))"
  shows "\<exists>g. DecodeCompressed e encoding =
           Inr (g, Some (if val (parse_limbs (drop 1 encoding)) = P
                         then CoordinateEqualsModulus else CoordinateExceedsModulus))"
  using assms(4) unfolding DecodeCompressed_point [OF assms(1-3)] Let_def by auto

theorem DecodeCompressed_coordinate_out_of_range_witness:
  "length [0x80,
      0xFF, 0xFF, 0xFF, 0xFF, 0xFF, 0xFF, 0xFF, 0xFF,
      0xFF, 0xFF, 0xFF, 0xFF, 0xFF, 0xFF, 0xFF, 0xFF,
      0xFF, 0xFF, 0xFF, 0xFF, 0xFF, 0xFF, 0xFF, 0xFF,
      0xFF, 0xFF, 0xFF, 0xFF, 0xFF, 0xFF, 0xFF, 0xFF :: byte] = 33 \<and>
   [0x80,
      0xFF, 0xFF, 0xFF, 0xFF, 0xFF, 0xFF, 0xFF, 0xFF,
      0xFF, 0xFF, 0xFF, 0xFF, 0xFF, 0xFF, 0xFF, 0xFF,
      0xFF, 0xFF, 0xFF, 0xFF, 0xFF, 0xFF, 0xFF, 0xFF,
      0xFF, 0xFF, 0xFF, 0xFF, 0xFF, 0xFF, 0xFF, 0xFF :: byte] ! 0 AND serializationCompressed \<noteq> 0 \<and>
   [0x80,
      0xFF, 0xFF, 0xFF, 0xFF, 0xFF, 0xFF, 0xFF, 0xFF,
      0xFF, 0xFF, 0xFF, 0xFF, 0xFF, 0xFF, 0xFF, 0xFF,
      0xFF, 0xFF, 0xFF, 0xFF, 0xFF, 0xFF, 0xFF, 0xFF,
      0xFF, 0xFF, 0xFF, 0xFF, 0xFF, 0xFF, 0xFF, 0xFF :: byte] ! 0 AND serializationInfinity = 0 \<and>
   P \<le> val (parse_limbs (drop 1 [0x80,
      0xFF, 0xFF, 0xFF, 0xFF, 0xFF, 0xFF, 0xFF, 0xFF,
      0xFF, 0xFF, 0xFF, 0xFF, 0xFF, 0xFF, 0xFF, 0xFF,
      0xFF, 0xFF, 0xFF, 0xFF, 0xFF, 0xFF, 0xFF, 0xFF,
      0xFF, 0xFF, 0xFF, 0xFF, 0xFF, 0xFF, 0xFF, 0xFF :: byte])) \<and>
   (\<exists>g. DecodeCompressed \<lparr>p = None\<rparr> [0x80,
      0xFF, 0xFF, 0xFF, 0xFF, 0xFF, 0xFF, 0xFF, 0xFF,
      0xFF, 0xFF, 0xFF, 0xFF, 0xFF, 0xFF, 0xFF, 0xFF,
      0xFF, 0xFF, 0xFF, 0xFF, 0xFF, 0xFF, 0xFF, 0xFF,
      0xFF, 0xFF, 0xFF, 0xFF, 0xFF, 0xFF, 0xFF, 0xFF :: byte] = Inr (g, Some CoordinateExceedsModulus))"
proof -
  let ?enc = "[0x80,
      0xFF, 0xFF, 0xFF, 0xFF, 0xFF, 0xFF, 0xFF, 0xFF,
      0xFF, 0xFF, 0xFF, 0xFF, 0xFF, 0xFF, 0xFF, 0xFF,
      0xFF, 0xFF, 0xFF, 0xFF, 0xFF, 0xFF, 0xFF, 0xFF,
      0xFF, 0xFF, 0xFF, 0xFF, 0xFF, 0xFF, 0xFF, 0xFF :: byte]"
  have 1: "length ?enc = 33" by simp
  have 2: "?enc ! 0 AND serializationCompressed \<noteq> 0" by (simp add: serializationCompressed_def)
  have 3: "?enc ! 0 AND serializationInfinity = 0" by (simp add: serializationInfinity_def)
  have v: "parse_limbs (drop 1 ?enc) = GfP (- 1) (- 1) (- 1) (- 1)"
    by (simp add: parse_limbs_def be_uint64_def)
  have 4: "P \<le> val (parse_limbs (drop 1 ?enc))" and 5: "val (parse_limbs (drop 1 ?enc)) \<noteq> P"
    unfolding v by (simp_all add: P_def unsigned_minus_1_eq_mask mask_eq_exp_minus_1)
  show ?thesis
    using 1 2 3 4 5 DecodeCompressed_coordinate_out_of_range [OF 1 2 3 4, of "\<lparr>p = None\<rparr>"]
    by simp
qed

section \<open>The sign of \<open>y\<close>\<close>

lemma P_odd: "odd P" by (simp add: P_def)

lemma val_gfpNeg_valid:
  assumes "val a < P"
  shows "val (gfpNeg a) = (if val a = 0 then 0 else P - val a)"
  using assms P_pos by (simp add: val_gfpNeg)

lemma IsHigherY_val: "IsHigherY c \<longleftrightarrow> val (gfpNeg (y c)) < val (y c)"
  unfolding IsHigherY_def Let_def IsHigherY_loop_val ..

text \<open>
  C5: \<^verbatim>\<open>IsHigherY\<close> is true exactly when the limbs of \<open>y\<close>, read as one unsigned number with
  limb 3 the most significant, are greater than those of \<open>-y\<close>. For a field element \<open>y\<close>
  (below \<open>p\<close>) that is not zero, exactly one of the point and its negation is higher; for
  \<open>y = 0\<close> neither is.
\<close>

theorem IsHigherY_canonical_sign:
  assumes "val (y c) < P"
  shows "(IsHigherY c \<longleftrightarrow> val (gfpNeg (y c)) < val (y c)) \<and>
         (val (y c) \<noteq> 0 \<longrightarrow> (IsHigherY c \<longleftrightarrow> \<not> IsHigherY (Neg c))) \<and>
         (val (y c) = 0 \<longrightarrow> \<not> IsHigherY c \<and> \<not> IsHigherY (Neg c))"
proof -
  let ?v = "val (y c)"
  have n: "val (gfpNeg (y c)) = (if ?v = 0 then 0 else P - ?v)"
    using assms by (rule val_gfpNeg_valid)
  have "val (gfpNeg (y c)) < P" using assms P_pos by (simp add: n)
  then have nn: "val (gfpNeg (gfpNeg (y c))) = ?v"
    using assms by (simp add: val_gfpNeg_valid n)
  have h: "IsHigherY c \<longleftrightarrow> val (gfpNeg (y c)) < ?v" by (rule IsHigherY_val)
  have hn: "IsHigherY (Neg c) \<longleftrightarrow> ?v < val (gfpNeg (y c))"
    by (simp add: IsHigherY_val Neg_def nn)
  have ne: "P - ?v \<noteq> ?v"
  proof
    assume "P - ?v = ?v"
    then have "P = 2 * ?v" using assms by simp
    then have "even P" by (metis dvd_triv_left)
    then show False using P_odd by simp
  qed
  show ?thesis unfolding h hn n using ne by auto
qed

theorem IsHigherY_canonical_sign_witness:
  "val (y \<lparr>x = GfP 1 0 0 0, y = GfP 2 0 0 0, z = GfP 1 0 0 0, t = GfP 1 0 0 0\<rparr>) < P \<and>
   val (y \<lparr>x = GfP 1 0 0 0, y = GfP 2 0 0 0, z = GfP 1 0 0 0, t = GfP 1 0 0 0\<rparr>) \<noteq> 0 \<and>
   \<not> IsHigherY \<lparr>x = GfP 1 0 0 0, y = GfP 2 0 0 0, z = GfP 1 0 0 0, t = GfP 1 0 0 0\<rparr> \<and>
   IsHigherY (Neg \<lparr>x = GfP 1 0 0 0, y = GfP 2 0 0 0, z = GfP 1 0 0 0, t = GfP 1 0 0 0\<rparr>)"
proof -
  let ?c = "\<lparr>x = GfP 1 0 0 0, y = GfP 2 0 0 0, z = GfP 1 0 0 0, t = GfP 1 0 0 0\<rparr>"
  have 1: "val (y ?c) < P" by (simp add: P_def)
  have 2: "val (gfpNeg (y ?c)) = P - 2" using 1 by (simp add: val_gfpNeg_valid)
  have 3: "\<not> P - 2 < 2" by (simp add: P_def)
  show ?thesis
    using 1 3 IsHigherY_canonical_sign [OF 1] unfolding 2 by auto
qed

section \<open>The quadratic extension\<close>

lemma int_sub_mod:
  "int ((u + (P - v mod P)) mod P) = (int u - int v) mod int P"
proof -
  have "v mod P \<le> P" using P_pos by (simp add: less_imp_le)
  then have 1: "int (P - v mod P) = int P - int v mod int P"
    by (simp add: of_nat_diff zmod_int)
  have "int ((u + (P - v mod P)) mod P) = (int u + (int P - int v mod int P)) mod int P"
    by (simp add: zmod_int 1)
  also have "int u + (int P - int v mod int P) = (int u - int v mod int P) + int P"
    by simp
  also have "((int u - int v mod int P) + int P) mod int P = (int u - int v mod int P) mod int P"
    by (rule mod_add_self2)
  also have "\<dots> = (int u - int v) mod int P"
    by (rule mod_diff_right_eq)
  finally show ?thesis .
qed

lemma mod_mult3:
  fixes m :: int
  shows "(a mod m) * (b mod m) * c mod m = a * b * c mod m"
  by (metis mod_mult_eq mod_mult_left_eq)

lemma Square_Mul_y:
  "gfpMul (gfpSub b a) (gfpAdd a b) = gfpSub (gfpMul b b) (gfpMul a a)"
proof -
  let ?a = "int (val a)" and ?b = "int (val b)" and ?r = "int Rinv" and ?m = "int P"
  have A: "int (val (gfpSub b a)) = (?b - ?a) mod ?m"
    by (simp only: val_gfpSub int_sub_mod)
  have B: "int (val (gfpAdd a b)) = (?a + ?b) mod ?m"
    by (simp add: val_gfpAdd zmod_int)
  have C: "int (val (gfpMul c c)) = (int (val c) * int (val c) * ?r) mod ?m" for c
    by (simp add: val_gfpMul zmod_int)
  have "int (val (gfpSub b a) * val (gfpAdd a b) * Rinv mod P)
          = (int (val (gfpSub b a)) * int (val (gfpAdd a b)) * ?r) mod ?m"
    by (simp only: zmod_int of_nat_mult)
  also have "\<dots> = ((?b - ?a) * (?a + ?b) * ?r) mod ?m"
    unfolding A B by (rule mod_mult3)
  also have "(?b - ?a) * (?a + ?b) * ?r = ?b * ?b * ?r - ?a * ?a * ?r"
    by (simp add: algebra_simps)
  also have "(?b * ?b * ?r - ?a * ?a * ?r) mod ?m
               = (int (val (gfpMul b b)) - int (val (gfpMul a a))) mod ?m"
    unfolding C by (simp add: mod_simps)
  also have "\<dots> = int ((val (gfpMul b b) + (P - val (gfpMul a a) mod P)) mod P)"
    by (simp only: int_sub_mod)
  finally have "val (gfpSub b a) * val (gfpAdd a b) * Rinv mod P
                  = (val (gfpMul b b) + (P - val (gfpMul a a) mod P)) mod P"
    by (simp only: of_nat_eq_iff)
  then show ?thesis by (simp only: gfpMul_def [of "gfpSub b a"] gfpSub_def [of "gfpMul b b"])
qed

text \<open>
  C7: for every element \<open>a\<close> of \<^verbatim>\<open>gfP2\<close>, \<^verbatim>\<open>Square\<close> of \<open>a\<close> is \<^verbatim>\<open>Mul\<close> of \<open>a\<close> and \<open>a\<close>, limb for
  limb in both components.
\<close>

theorem Square_eq_Mul: "Square a = Mul a a"
  by (simp add: Square_def Mul_def Let_def Square_Mul_y)

lemma val_zero: "val (GfP 0 0 0 0) = 0" by simp

lemma gfpMul_zero_left: "gfpMul (GfP 0 0 0 0) b = GfP 0 0 0 0"
  by (simp add: gfpMul_def of_val_def)

lemma val_gfpMul_one_right: "val (gfpMul a (newGFp 1)) = val a mod P"
proof -
  have "val (gfpMul a (newGFp 1)) = val a * (R mod P) * Rinv mod P"
    by (simp only: val_gfpMul val_newGFp_1)
  also have "\<dots> = val a * R * Rinv mod P"
    by (metis mod_mult_left_eq mod_mult_right_eq)
  finally show ?thesis by (simp only: cancel_R)
qed

lemma val_gfpMul_commute: "gfpMul a b = gfpMul b a"
  by (simp add: gfpMul_def mult.commute)

lemma Mul_SetOne:
  assumes "val (x2 a) < P" "val (y2 a) < P"
  shows "Mul SetOne a = a"
proof -
  have tx: "gfpAdd (GfP 0 0 0 0) (gfpMul (x2 a) (newGFp 1)) = x2 a"
    using assms(1) by (simp add: gfpAdd_def val_gfpMul_one_right of_val_val)
  have ty: "gfpSub (gfpMul (newGFp 1) (y2 a)) (GfP 0 0 0 0) = y2 a"
    using assms(2)
    by (simp add: gfpSub_def val_gfpMul_commute [of "newGFp 1"] val_gfpMul_one_right of_val_val)
  show ?thesis
    by (simp add: Mul_def SetOne_def Let_def gfpMul_zero_left tx ty)
qed

lemma Exp_run_0: "Exp_run a 0 = (SetOne, False, 0)"
  by (simp add: Exp_run_def Bytes.simps)

lemma Bytes_1: "Bytes (Suc 0) = [1]"
  by (subst Bytes.simps) (simp add: Bytes.simps [of 0])

lemma Exp_run_1: "Exp_run a 1 = (Mul SetOne a, True, 1)"
  by (simp add: Exp_run_def Bytes_1 upt_rec Exp_step_def)

lemma montDecode_one: "montDecode (newGFp 1) = GfP 1 0 0 0"
proof -
  have "val (montDecode (newGFp 1)) = 1"
    using P_gt1 by (simp add: newGFp_def val_decode_encode)
  then have "of_val (val (montDecode (newGFp 1))) = of_val 1" by simp
  then show ?thesis by (simp add: of_val_val) (simp add: of_val_def)
qed

lemma montDecode_zero: "montDecode (GfP 0 0 0 0) = GfP 0 0 0 0"
  by (simp add: montDecode_def gfpMul_zero_left)

text \<open>
  C9: for every element \<open>a\<close> of \<^verbatim>\<open>gfP2\<close> (both components field elements, below \<open>p\<close>),
  \<^verbatim>\<open>Exp\<close> with exponent 0 is the one \<^verbatim>\<open>SetOne\<close> builds, after no call of \<^verbatim>\<open>Mul\<close>; that one is
  the Montgomery form of \<open>(0, 1)\<close>; and \<^verbatim>\<open>Exp\<close> with exponent 1 is \<open>a\<close>.
\<close>

theorem Exp_zero_one:
  assumes "val (x2 a) < P" "val (y2 a) < P"
  shows "Exp a 0 = SetOne \<and> Exp_muls a 0 = 0 \<and>
         montDecode (x2 SetOne) = GfP 0 0 0 0 \<and> montDecode (y2 SetOne) = GfP 1 0 0 0 \<and>
         Exp a 1 = a"
  using Mul_SetOne [OF assms]
  by (simp add: Exp_def Exp_muls_def Exp_run_0 Exp_run_1 montDecode_zero)
     (simp add: SetOne_def montDecode_zero montDecode_one)

theorem Exp_zero_one_witness:
  "val (x2 \<lparr>x2 = GfP 1 0 0 0, y2 = GfP 2 0 0 0\<rparr>) < P \<and>
   val (y2 \<lparr>x2 = GfP 1 0 0 0, y2 = GfP 2 0 0 0\<rparr>) < P \<and>
   Exp \<lparr>x2 = GfP 1 0 0 0, y2 = GfP 2 0 0 0\<rparr> 0 = SetOne \<and>
   Exp_muls \<lparr>x2 = GfP 1 0 0 0, y2 = GfP 2 0 0 0\<rparr> 0 = 0 \<and>
   Exp \<lparr>x2 = GfP 1 0 0 0, y2 = GfP 2 0 0 0\<rparr> 1 = \<lparr>x2 = GfP 1 0 0 0, y2 = GfP 2 0 0 0\<rparr>"
proof -
  let ?a = "\<lparr>x2 = GfP 1 0 0 0, y2 = GfP 2 0 0 0\<rparr>"
  have 1: "val (x2 ?a) < P" and 2: "val (y2 ?a) < P" by (simp_all add: P_def)
  show ?thesis using 1 2 Exp_zero_one [OF 1 2] by simp
qed

section \<open>Primes and Fermat's little theorem\<close>

lemma is_prime_gt1: "is_prime n \<Longrightarrow> 1 < n"
  by (simp add: is_prime_def)

lemma prime_factor_exists: "1 < n \<Longrightarrow> \<exists>q. is_prime q \<and> q dvd n"
proof (induction n rule: less_induct)
  case (less n)
  show ?case
  proof (cases "is_prime n")
    case True
    then show ?thesis by (meson dvd_refl)
  next
    case False
    with less.prems obtain d where d: "d dvd n" "d \<noteq> 1" "d \<noteq> n"
      by (auto simp: is_prime_def)
    have "d \<noteq> 0" using d(1) less.prems by (metis dvd_0_left not_one_less_zero zero_less_one less_numeral_extra(3) gr_implies_not_zero)
    then have "1 < d" using d(2) by simp
    moreover have "d < n" using d less.prems by (metis dvd_imp_le le_neq_implies_less less_trans zero_less_one)
    ultimately obtain q where "is_prime q" "q dvd d" using less.IH by blast
    then show ?thesis using d(1) by (meson dvd_trans)
  qed
qed

lemma small_prime_factor:
  assumes "1 < n" "\<not> is_prime n"
  shows "\<exists>q. is_prime q \<and> q dvd n \<and> q * q \<le> n"
proof -
  from assms obtain d where d: "d dvd n" "d \<noteq> 1" "d \<noteq> n"
    by (auto simp: is_prime_def)
  then obtain e where e: "n = d * e" by (auto simp: dvd_def)
  have n0: "n \<noteq> 0" using assms by simp
  then have "d \<noteq> 0" "e \<noteq> 0" using e by auto
  then have d1: "1 < d" using d(2) by simp
  have e1: "1 < e" using d(3) e \<open>e \<noteq> 0\<close> by (cases "e = 1") auto
  define m where "m = min d e"
  have m1: "1 < m" using d1 e1 by (simp add: m_def)
  have mm: "m * m \<le> n" unfolding e m_def by (simp add: mult_le_mono min_def)
  have mdvd: "m dvd n" unfolding e m_def by (simp add: min_def)
  from prime_factor_exists [OF m1] obtain q where q: "is_prime q" "q dvd m" by blast
  have "q \<le> m" using q(2) m1 by (simp add: dvd_imp_le)
  then have "q * q \<le> m * m" by (simp add: mult_le_mono)
  then show ?thesis using q mm mdvd by (meson dvd_trans le_trans)
qed

lemma prime_coprime:
  assumes "is_prime q" "\<not> q dvd a"
  shows "coprime q a"
proof (rule coprimeI)
  fix c assume c: "c dvd q" "c dvd a"
  from assms(1) c(1) have "c = 1 \<or> c = q" by (simp add: is_prime_def)
  then show "is_unit c" using c(2) assms(2) by auto
qed

lemma prime_dvd_mult:
  assumes "is_prime q" "q dvd a * b"
  shows "q dvd a \<or> q dvd b"
  using assms prime_coprime coprime_dvd_mult_right_iff by blast

lemma prime_not_dvd_less:
  fixes i q :: nat
  assumes "0 < i" "i < q"
  shows "\<not> q dvd i"
  using assms by (meson dvd_imp_le not_less)

lemma fermat_little:
  assumes "is_prime q" "\<not> q dvd a"
  shows "a ^ (q - 1) mod q = 1"
proof -
  let ?S = "{1..<q}"
  have q1: "1 < q" using assms(1) by (rule is_prime_gt1)
  have a0: "0 < a" using assms(2) by (cases "a = 0") auto
  define f where "f i = a * i mod q" for i
  have ndvd: "\<not> q dvd a * i" if "i \<in> ?S" for i
    using prime_dvd_mult [OF assms(1), of a i] assms(2) prime_not_dvd_less [of i q] that by auto
  have inS: "f i \<in> ?S" if "i \<in> ?S" for i
  proof -
    have "f i \<noteq> 0" using ndvd [OF that] by (simp add: f_def dvd_eq_mod_eq_0)
    moreover have "f i < q" using q1 by (simp add: f_def)
    ultimately show ?thesis by simp
  qed
  have le: "i = j" if "i \<in> ?S" "j \<in> ?S" "i \<le> j" "f i = f j" for i j
  proof -
    have "a * i \<le> a * j" using that(3) by simp
    moreover have "a * j mod q = a * i mod q" using that(4) by (simp add: f_def)
    ultimately have "q dvd a * j - a * i"
      by (simp only: mod_eq_dvd_iff_nat)
    then have "q dvd a * (j - i)" by (simp add: diff_mult_distrib2)
    then have "q dvd j - i"
      using prime_dvd_mult [OF assms(1)] assms(2) by blast
    moreover have "j - i < q" using that(2) by auto
    ultimately have "j - i = 0" by (meson dvd_imp_le not_less gr0I)
    then show ?thesis using that(3) by simp
  qed
  have inj: "inj_on f ?S"
  proof (rule inj_onI)
    fix i j assume "i \<in> ?S" "j \<in> ?S" "f i = f j"
    then show "i = j" using le [of i j] le [of j i] by (cases "i \<le> j") auto
  qed
  have img: "f ` ?S = ?S"
  proof (rule card_subset_eq)
    show "finite ?S" by simp
    show "f ` ?S \<subseteq> ?S" using inS by blast
    show "card (f ` ?S) = card ?S" using inj by (rule card_image)
  qed
  define F where "F = \<Prod>?S"
  have "F = prod (\<lambda>i. i) (f ` ?S)" by (simp only: F_def img)
  also have "\<dots> = (\<Prod>i\<in>?S. f i)" using inj by (simp add: prod.reindex)
  finally have "F mod q = (\<Prod>i\<in>?S. a * i mod q) mod q" by (simp add: f_def)
  also have "\<dots> = (\<Prod>i\<in>?S. a * i) mod q" by (rule mod_prod_eq)
  also have "(\<Prod>i\<in>?S. a * i) = a ^ (q - 1) * F"
    by (simp add: prod.distrib F_def)
  finally have eq: "(a ^ (q - 1) * F) mod q = (1 * F) mod q" by simp
  have "1 * F \<le> a ^ (q - 1) * F" using a0 by (simp add: Suc_leI)
  then have "q dvd a ^ (q - 1) * F - 1 * F"
    using eq by (simp only: mod_eq_dvd_iff_nat)
  then have d: "q dvd (a ^ (q - 1) - 1) * F" by (simp add: diff_mult_distrib)
  have "coprime F q"
    unfolding F_def
  proof (rule prod_coprime_left)
    fix i assume "i \<in> ?S"
    then have "\<not> q dvd i" using prime_not_dvd_less [of i q] by simp
    then show "coprime i q" using prime_coprime [OF assms(1)] by (simp add: coprime_commute)
  qed
  then have "q dvd a ^ (q - 1) - 1"
    using d by (simp add: coprime_commute coprime_dvd_mult_left_iff)
  moreover have "1 \<le> a ^ (q - 1)" using a0 by (simp add: Suc_leI)
  ultimately have "a ^ (q - 1) mod q = 1 mod q"
    by (simp only: mod_eq_dvd_iff_nat)
  then show ?thesis using q1 by simp
qed

lemma pow_mod_one:
  fixes b n :: nat
  assumes "1 < n" "b ^ k mod n = 1"
  shows "(b ^ k) ^ d mod n = 1"
proof -
  have "(b ^ k) ^ d mod n = (b ^ k mod n) ^ d mod n" by (simp only: power_mod)
  then show ?thesis using assms by simp
qed

lemma pow_gcd:
  fixes b n :: nat
  assumes "1 < n" "b ^ m mod n = 1" "b ^ k mod n = 1"
  shows "b ^ gcd m k mod n = 1"
proof -
  have "b ^ m mod n = 1 \<longrightarrow> b ^ k mod n = 1 \<longrightarrow> b ^ gcd m k mod n = 1"
  proof (rule gcd_nat_induct [of "\<lambda>m k. b ^ m mod n = 1 \<longrightarrow> b ^ k mod n = 1 \<longrightarrow> b ^ gcd m k mod n = 1"])
    fix m show "b ^ m mod n = 1 \<longrightarrow> b ^ 0 mod n = 1 \<longrightarrow> b ^ gcd m 0 mod n = 1" by simp
  next
    fix m k :: nat
    assume "0 < k"
      and IH: "b ^ k mod n = 1 \<longrightarrow> b ^ (m mod k) mod n = 1 \<longrightarrow> b ^ gcd k (m mod k) mod n = 1"
    show "b ^ m mod n = 1 \<longrightarrow> b ^ k mod n = 1 \<longrightarrow> b ^ gcd m k mod n = 1"
    proof (intro impI)
      assume bm: "b ^ m mod n = 1" and bk: "b ^ k mod n = 1"
      have "b ^ m = (b ^ k) ^ (m div k) * b ^ (m mod k)"
        by (simp add: power_add [symmetric] power_mult [symmetric])
      then have "b ^ m mod n = ((b ^ k) ^ (m div k) mod n) * (b ^ (m mod k) mod n) mod n"
        by (simp only: mod_mult_eq)
      then have "b ^ (m mod k) mod n = 1"
        using bm pow_mod_one [OF assms(1) bk, of "m div k"] by simp
      with IH bk show "b ^ gcd m k mod n = 1" by (simp add: gcd_red_nat [of m k])
    qed
  qed
  then show ?thesis using assms(2,3) by blast
qed

lemma pock_step:
  fixes n q c r :: nat
  assumes "1 < n" and "is_prime q" and "c ^ q mod n = 1" and "coprime (c - 1) n"
    and "is_prime r" and "r dvd n"
  shows "q dvd r - 1"
proof -
  have r1: "1 < r" using assms(5) by (rule is_prime_gt1)
  have q0: "0 < q" using is_prime_gt1 [OF assms(2)] by simp
  have "c ^ q mod n mod r = c ^ q mod r" using assms(6) by (rule mod_mod_cancel)
  then have cq: "c ^ q mod r = 1" using assms(3) r1 by simp
  have nd: "\<not> r dvd c"
  proof
    assume "r dvd c"
    then have "r dvd c ^ q" using q0 by (meson dvd_power dvd_trans)
    then show False using cq by (simp add: dvd_eq_mod_eq_0)
  qed
  have "c ^ (r - 1) mod r = 1" using assms(5) nd by (rule fermat_little)
  from pow_gcd [OF r1 cq this] have g: "c ^ gcd q (r - 1) mod r = 1" .
  have "gcd q (r - 1) dvd q" by simp
  then have "gcd q (r - 1) = 1 \<or> gcd q (r - 1) = q"
    using assms(2) by (simp add: is_prime_def)
  then show ?thesis
  proof
    assume "gcd q (r - 1) = 1"
    then have "c mod r = 1 mod r" using g r1 by simp
    moreover have "1 \<le> c" using nd by (cases "c = 0") auto
    ultimately have "r dvd c - 1" by (simp only: mod_eq_dvd_iff_nat)
    then have "r dvd 1" using assms(4,6) by (meson coprime_def)
    then show ?thesis using r1 by simp
  next
    assume "gcd q (r - 1) = q"
    then show ?thesis by (metis gcd_dvd2)
  qed
qed

lemma pocklington:
  fixes n m :: nat
  assumes "1 < n" and "\<And>r. is_prime r \<Longrightarrow> r dvd n \<Longrightarrow> m dvd r - 1" and "n < (m + 1) * (m + 1)"
  shows "is_prime n"
proof (rule ccontr)
  assume "\<not> is_prime n"
  from small_prime_factor [OF assms(1) this] obtain r where
    r: "is_prime r" "r dvd n" "r * r \<le> n" by blast
  have r1: "1 < r" using r(1) by (rule is_prime_gt1)
  then have "0 < r - 1" by simp
  then have "m \<le> r - 1" using assms(2) [OF r(1,2)] by (rule dvd_imp_le [rotated])
  with r1 have "m + 1 \<le> r" by linarith
  then have "(m + 1) * (m + 1) \<le> r * r" by (simp only: mult_le_mono)
  then show False using r(3) assms(3) by simp
qed

lemma pocklington_one:
  fixes n q c :: nat
  assumes "1 < n" and "is_prime q" and "c ^ q mod n = 1" and "coprime (c - 1) n"
    and "n < (q + 1) * (q + 1)"
  shows "is_prime n"
  using assms(1) pock_step [OF assms(1-4)] assms(5) by (rule pocklington)

lemma distinct_primes_coprime:
  assumes "is_prime q" "is_prime r" "q \<noteq> r"
  shows "coprime q r"
proof (rule prime_coprime [OF assms(1)])
  show "\<not> q dvd r" using assms is_prime_gt1 [OF assms(1)] by (auto simp: is_prime_def)
qed

lemma pocklington_two:
  fixes n q c q' c' :: nat
  assumes "1 < n" and "is_prime q" and "c ^ q mod n = 1" and "coprime (c - 1) n"
    and "is_prime q'" and "c' ^ q' mod n = 1" and "coprime (c' - 1) n"
    and "q \<noteq> q'" and "n < (q * q' + 1) * (q * q' + 1)"
  shows "is_prime n"
proof (rule pocklington [OF assms(1) _ assms(9)])
  fix r assume r: "is_prime r" "r dvd n"
  have "q dvd r - 1" using assms(1-4) r by (rule pock_step)
  moreover have "q' dvd r - 1" using assms(1) assms(5-7) r by (rule pock_step)
  moreover have "coprime q q'" using assms(2,5,8) by (rule distinct_primes_coprime)
  ultimately show "q * q' dvd r - 1" by (simp add: divides_mult)
qed

lemma chain_sound:
  "chain_ok n c v cert w \<Longrightarrow> v = c ^ k mod n \<Longrightarrow> w = c ^ chain_exp k cert mod n"
proof (induction cert arbitrary: v k)
  case Nil
  then show ?case by simp
next
  case (Cons s cert)
  obtain m d r where s: "s = (m, d, r)" by (cases s)
  from Cons.prems(1) have r: "r < n" and e: "(if m then v * c else v * v) = d * n + r"
    and rest: "chain_ok n c r cert w" by (simp_all add: s)
  have "r = (if m then v * c else v * v) mod n" using r e by simp
  also have "\<dots> = c ^ (if m then k + 1 else 2 * k) mod n"
  proof (cases m)
    case True
    have "(c ^ k mod n) * c mod n = c ^ k * c mod n" by (rule mod_mult_left_eq)
    then show ?thesis using True by (simp add: Cons.prems(2) mult.commute)
  next
    case False
    have "(c ^ k mod n) * (c ^ k mod n) mod n = c ^ k * c ^ k mod n" by (rule mod_mult_eq)
    also have "c ^ k * c ^ k = c ^ (2 * k)" by (simp add: power_add [symmetric] mult_2)
    finally show ?thesis using False by (simp add: Cons.prems(2))
  qed
  finally have "r = c ^ (if m then k + 1 else 2 * k) mod n" .
  from Cons.IH [OF rest this] show ?case by (simp add: s)
qed

lemma chain_power:
  assumes "chain_ok n c c cert 1" "c < n" "chain_exp 1 cert = q"
  shows "c ^ q mod n = 1"
proof -
  have "c = c ^ 1 mod n" using assms(2) by simp
  from chain_sound [OF assms(1) this] show ?thesis using assms(3) by simp
qed

lemma bezout_coprime:
  fixes a b :: nat
  assumes "a * s = b * u + 1"
  shows "coprime a b"
proof (rule coprimeI)
  fix d assume "d dvd a" "d dvd b"
  then have "d dvd a * s" "d dvd b * u" by simp_all
  then have "d dvd a * s - b * u" by (rule dvd_diff_nat)
  then show "is_unit d" using assms by simp
qed

lemma is_prime_list:
  assumes "1 < n" and "\<forall>d \<in> set [2..<m]. n mod d \<noteq> 0" and "n < m * m"
  shows "is_prime n"
proof (rule ccontr)
  assume "\<not> is_prime n"
  from small_prime_factor [OF assms(1) this] obtain q where
    q: "is_prime q" "q dvd n" "q * q \<le> n" by blast
  have q2: "2 \<le> q" using is_prime_gt1 [OF q(1)] by simp
  have "q < m"
  proof (rule ccontr)
    assume "\<not> q < m"
    then have "m * m \<le> q * q" by (simp add: mult_le_mono)
    then show False using q(3) assms(3) by simp
  qed
  then have "q \<in> set [2..<m]" using q2 by simp
  with assms(2) have "n mod q \<noteq> 0" by blast
  then show False using q(2) by (simp add: mod_eq_0_iff_dvd)
qed

section \<open>The modulus is prime\<close>

text \<open>
  Pocklington certificates, from the prime factors of \<open>p - 1\<close> downwards.
\<close>

lemma prime_3557: "is_prime 3557"
  by (rule is_prime_list [of _ 60]) (simp_all add: upt_rec)

lemma prime_13: "is_prime 13"
  by (rule is_prime_list [of _ 4]) (simp_all add: upt_rec)

lemma pow_1263766531_3557: "(142661317::nat) ^ 3557 mod 1263766531 = 1"
  by (rule chain_power [of _ _
    "[(False, 16104439, 359443380),
     (True, 40576059, 653650131),
     (False, 338083406, 567032575),
     (False, 254418781, 825511914),
     (True, 93188586, 792415572),
     (False, 496865855, 802388179),
     (True, 90578244, 1157420179),
     (False, 1060022906, 60232955),
     (True, 6799446, 402959909),
     (False, 128486302, 101729919),
     (True, 11483864, 1253087539),
     (False, 1242498785, 1105911686),
     (False, 967774210, 1068397086),
     (False, 903230387, 500513899),
     (True, 56500920, 341436463),
     (False, 92247148, 43346781),
     (False, 1486780, 620101781),
     (True, 70000696, 1)]"]) simp_all

lemma pow_1263766531_13: "(733610513::nat) ^ 13 mod 1263766531 = 1"
  by (rule chain_power [of _ _
    "[(False, 425857444, 79716405),
     (True, 46274997, 335840358),
     (False, 89248087, 755191967),
     (False, 451281857, 97201022),
     (True, 56424735, 1)]"]) simp_all

lemma cop_1263766531_660891: "coprime (142661317 - 1) (1263766531::nat)"
  by (rule bezout_coprime [of _ 1084735757 _ 122451281]) simp

lemma cop_1263766531_608314: "coprime (733610513 - 1) (1263766531::nat)"
  by (rule bezout_coprime [of _ 645555144 _ 374741717]) simp

lemma prime_1263766531: "is_prime 1263766531"
  by (rule pocklington_two [OF _ prime_3557 pow_1263766531_3557 cop_1263766531_660891 prime_13 pow_1263766531_13 cop_1263766531_608314]) simp_all

lemma pow_35385462869_1263766531: "(268435456::nat) ^ 1263766531 mod 35385462869 = 1"
  by (rule chain_power [of _ _
    "[(False, 2036361, 17484548227),
     (False, 8639407313, 17960282532),
     (False, 9115939780, 28034302204),
     (True, 212669273, 32653820787),
     (False, 30133052545, 28789847764),
     (False, 23423611479, 26259126445),
     (True, 199202723, 23305041633),
     (False, 15348816193, 35355868972),
     (True, 268210955, 20563541337),
     (False, 11950083396, 27896324445),
     (False, 21992220941, 26104818296),
     (True, 198032136, 7787144792),
     (False, 1713687460, 26671800524),
     (False, 20103875589, 14491669735),
     (True, 109934353, 7407085403),
     (False, 1550493047, 24074500566),
     (False, 16379087074, 17189465050),
     (False, 8350256991, 3533335321),
     (True, 26804015, 570922341),
     (False, 9211475, 12871698506),
     (True, 97645190, 12871178626),
     (False, 4681788107, 1624948893),
     (True, 12326923, 20963628121),
     (False, 12419611568, 8715122049),
     (False, 2146456374, 6860581395),
     (False, 1330138798, 30174854563),
     (False, 25731522893, 5126960952),
     (True, 38893319, 5717641901),
     (False, 923866081, 2916847412),
     (True, 22127314, 17184936006),
     (False, 8345857354, 20377643410),
     (False, 11734998422, 15661835382),
     (False, 6932029925, 14982731099),
     (False, 6343911114, 16258321735),
     (False, 7470102245, 20692369320),
     (False, 12100283940, 12050238540),
     (False, 4103613096, 33651199176),
     (False, 32001932832, 19855063968),
     (False, 11140833924, 25974337068),
     (True, 197042300, 24873924308),
     (False, 17484923477, 17423403351),
     (True, 132174595, 1)]"]) simp_all

lemma cop_35385462869_434652: "coprime (268435456 - 1) (35385462869::nat)"
  by (rule bezout_coprime [of _ 30792025501 _ 233589466]) simp

lemma prime_35385462869: "is_prime 35385462869"
  by (rule pocklington_one [OF _ prime_1263766531 pow_35385462869_1263766531 cop_35385462869_434652]) simp_all

lemma pow_2480874801745591_35385462869: "(1241451147209469::nat) ^ 35385462869 mod 2480874801745591 = 1"
  by (rule chain_power [of _ _
    "[(False, 621232861014706, 1633765441600715),
     (False, 1075906577909810, 2154113325363515),
     (False, 1870390321689641, 345831551032394),
     (False, 48208584167697, 403545762997309),
     (False, 65641838402524, 2435369440969797),
     (False, 2390698760709875, 315491554810084),
     (True, 157874694998027, 1968724960536439),
     (False, 1562302929398960, 2354882186815361),
     (True, 1178403356069424, 1662619311943725),
     (False, 1114245255142746, 97066885742739),
     (True, 48573106783375, 907468180445966),
     (False, 331938757224863, 2451607339844123),
     (True, 1226805456855436, 2057778352218011),
     (False, 1706838145914348, 2319048100156453),
     (False, 2167777304624643, 1234149642342196),
     (True, 617579125006967, 264998952921427),
     (False, 28306323640371, 743197516862068),
     (False, 222640235082119, 100890906049295),
     (False, 4102978077041, 2073353689920794),
     (True, 1037524068168237, 1365119275805319),
     (False, 751166739999942, 594391149936039),
     (False, 142409781772823, 1656378787136128),
     (False, 1105896470287056, 1509998350462288),
     (False, 919068957770264, 86652957288920),
     (True, 43361887169691, 1007028364701099),
     (False, 408769570555928, 1405184918894353),
     (True, 703166652495078, 1669118836527459),
     (False, 1122973915689145, 776005930686986),
     (False, 242730993130998, 246044977834378),
     (True, 123123028934267, 631621559258485),
     (False, 160808515544361, 493962647832874),
     (False, 98352039886245, 1378225564804081),
     (True, 689675959196148, 741005289859521),
     (False, 221328718085025, 537551157474666),
     (False, 116475545923975, 2206187454367331),
     (False, 1961914031446933, 1110409596841158),
     (False, 497005923833550, 389481352402914),
     (False, 61146061769367, 865720144580499),
     (False, 302099633647428, 1480468043599053),
     (True, 740838977379995, 1044598718180812),
     (False, 439839399093100, 1150448401457244),
     (False, 533493880257184, 638047541999792),
     (True, 319284492886333, 691406231522645),
     (False, 192691133245412, 626084555817533),
     (False, 158001472205462, 548647785588047),
     (True, 274548083745688, 88723132355435),
     (False, 3172991321215, 292995783026160),
     (False, 34603329765254, 803159784850486),
     (True, 401908083226763, 1)]"]) simp_all

lemma cop_2480874801745591_867203: "coprime (1241451147209469 - 1) (2480874801745591::nat)"
  by (rule bezout_coprime [of _ 60395260069513 _ 30222309020413]) simp

lemma prime_2480874801745591: "is_prime 2480874801745591"
  by (rule pocklington_one [OF _ prime_35385462869 pow_2480874801745591_35385462869 cop_2480874801745591_867203]) simp_all

lemma prime_13327: "is_prime 13327"
  by (rule is_prime_list [of _ 116]) (simp_all add: upt_rec)

lemma pow_173171039_13327: "(16359965::nat) ^ 13327 mod 173171039 = 1"
  by (rule chain_power [of _ _
    "[(False, 1545572, 145711917),
     (True, 13765822, 163773847),
     (False, 154886597, 31515126),
     (False, 5735388, 67767744),
     (True, 6402213, 42859653),
     (False, 10607719, 134630368),
     (False, 104667247, 75555791),
     (False, 32965544, 47955465),
     (False, 13280087, 159565832),
     (False, 147029519, 172951983),
     (False, 172733204, 17153333),
     (False, 1699111, 15762560),
     (True, 1489134, 47920174),
     (False, 13260549, 28149865),
     (True, 2659398, 91380203),
     (False, 48220196, 58217565),
     (True, 5499980, 74706005),
     (False, 32228178, 113723083),
     (True, 10743746, 1)]"]) simp_all

lemma cop_173171039_359917: "coprime (16359965 - 1) (173171039::nat)"
  by (rule bezout_coprime [of _ 35859620 _ 3387761]) simp

lemma prime_173171039: "is_prime 173171039"
  by (rule pocklington_one [OF _ prime_13327 pow_173171039_13327 cop_173171039_359917]) simp_all

lemma pow_13427688667394608761327070753331941386769_2480874801745591_seg1:
  "chain_ok 13427688667394608761327070753331941386769 11079643483354044030555362120445414701546 11079643483354044030555362120445414701546
    [(False, 9142191389670395144015446400242595837569, 1412269077777152287427131589271325065555),
     (False, 148536654181491706743341001206609668129, 5524357512551390817878878323801925872824),
     (False, 2272805594650753690836647412032428085764, 814009455366653984902717929767994878460),
     (False, 49346645564942485667245810358841552058, 10122691371326735853234142036317346050998),
     (True, 8352577592796259916095285138184621028952, 1000979228615337817096439653029286706820),
     (False, 74618904335511985787391341351440486109, 10619113650791253948867898484567693620579),
     (True, 8762192531740775611800554031572208732895, 4382870394156370570437712231264840648879),
     (False, 1430592663249443116131840150909779041470, 2451154501880406134732628457726403646211),
     (False, 447445464436311838790734409143668883039, 12956073047997011844789968923116731545530),
     (True, 10690497364946128661126474023237161942955, 7490139402583275448238164035935090626985),
     (False, 4178097188562246003271391862560952059099, 1401469199872877832534739791952305529094),
     (False, 146273567018397684170891818474941359624, 12989735536517931319512052989458376045980),
     (False, 12566066542665552336168088976098959049063, 1636099779954555463160351005945344112953),
     (False, 199350949837499622686642920378439087844, 9001598269529584304064279786361652044173),
     (False, 6034454135264078967134728746046347023129, 10721055997445987980214872069454365673728),
     (False, 8560001988985252695322513308588147775883, 2982278323388046623940511823593315925957),
     (True, 2460779469180654481483620367520624397710, 6521294863714530090832878865993001530532),
     (False, 3167133804850208390926813001607825098580, 10493014767819007127461331354245195515004),
     (False, 8199725332105965828512475733899721848471, 10793811556990999510069547982244966839817),
     (True, 8906341727177637941519696001701963488016, 13330652976501220303084003567520491796778),
     (False, 13234318517632224931662339278572247464464, 11487714043771522997661873661966643904468),
     (False, 9828018598011723975116941940380657739504, 13172385029921318318274896433829396140448),
     (True, 10868983752310668805327020564980223943348, 999711592089269003222135679937405969996),
     (False, 74430029777535818168432020188594317295, 378582897621415878257351417486551370161),
     (True, 312381649473727935665717810022763376799, 9204978914522395551480602929853844796475),
     (False, 6310217559820925235455515622792584885051, 72807124071691152874342420456775135406),
     (True, 60075639057781548792140103862468091202, 1732308552980332237766796099892979431338),
     (False, 223485440946783550451813834273374451739, 10495238338779541063485819286279132828953),
     (True, 8659978790606626245901939910388759275469, 10629991095228416126113540250299619791677),
     (False, 8415201862627063351677150519903632054889, 566601836089887094037496107793092108688),
     (False, 23908630041444252242663206814765718469, 4535145979563202966289027043737909544683),
     (True, 3742103488036588350223488274951019703043, 6455565540039680275665828893187206941851),
     (False, 3103611311970783916072765290745346026899, 9004074178548871469106014214585258606870),
     (False, 6037774171043637881325769286980203031154, 9120411300440695728265567902977140795474),
     (True, 7525562152465616432028636092781053422916, 1223376797776920865935098317061453804400),
     (False, 111460045463603242485429048173347536061, 12707148660358419041368348317155883583091),
     (True, 10485101370321614654422342382944887996109, 2688397665858452496491275035595921076865),
     (False, 538252128777985212283990615101456799543, 302711604129789542645110850493372781658),
     (False, 6824280599932195045091861246518336917, 2824106765292226770014766050735993177791)]
    2824106765292226770014766050735993177791"
  by simp

lemma pow_13427688667394608761327070753331941386769_2480874801745591_seg1_exp:
  "chain_exp 1
    [(False, 9142191389670395144015446400242595837569, 1412269077777152287427131589271325065555),
     (False, 148536654181491706743341001206609668129, 5524357512551390817878878323801925872824),
     (False, 2272805594650753690836647412032428085764, 814009455366653984902717929767994878460),
     (False, 49346645564942485667245810358841552058, 10122691371326735853234142036317346050998),
     (True, 8352577592796259916095285138184621028952, 1000979228615337817096439653029286706820),
     (False, 74618904335511985787391341351440486109, 10619113650791253948867898484567693620579),
     (True, 8762192531740775611800554031572208732895, 4382870394156370570437712231264840648879),
     (False, 1430592663249443116131840150909779041470, 2451154501880406134732628457726403646211),
     (False, 447445464436311838790734409143668883039, 12956073047997011844789968923116731545530),
     (True, 10690497364946128661126474023237161942955, 7490139402583275448238164035935090626985),
     (False, 4178097188562246003271391862560952059099, 1401469199872877832534739791952305529094),
     (False, 146273567018397684170891818474941359624, 12989735536517931319512052989458376045980),
     (False, 12566066542665552336168088976098959049063, 1636099779954555463160351005945344112953),
     (False, 199350949837499622686642920378439087844, 9001598269529584304064279786361652044173),
     (False, 6034454135264078967134728746046347023129, 10721055997445987980214872069454365673728),
     (False, 8560001988985252695322513308588147775883, 2982278323388046623940511823593315925957),
     (True, 2460779469180654481483620367520624397710, 6521294863714530090832878865993001530532),
     (False, 3167133804850208390926813001607825098580, 10493014767819007127461331354245195515004),
     (False, 8199725332105965828512475733899721848471, 10793811556990999510069547982244966839817),
     (True, 8906341727177637941519696001701963488016, 13330652976501220303084003567520491796778),
     (False, 13234318517632224931662339278572247464464, 11487714043771522997661873661966643904468),
     (False, 9828018598011723975116941940380657739504, 13172385029921318318274896433829396140448),
     (True, 10868983752310668805327020564980223943348, 999711592089269003222135679937405969996),
     (False, 74430029777535818168432020188594317295, 378582897621415878257351417486551370161),
     (True, 312381649473727935665717810022763376799, 9204978914522395551480602929853844796475),
     (False, 6310217559820925235455515622792584885051, 72807124071691152874342420456775135406),
     (True, 60075639057781548792140103862468091202, 1732308552980332237766796099892979431338),
     (False, 223485440946783550451813834273374451739, 10495238338779541063485819286279132828953),
     (True, 8659978790606626245901939910388759275469, 10629991095228416126113540250299619791677),
     (False, 8415201862627063351677150519903632054889, 566601836089887094037496107793092108688),
     (False, 23908630041444252242663206814765718469, 4535145979563202966289027043737909544683),
     (True, 3742103488036588350223488274951019703043, 6455565540039680275665828893187206941851),
     (False, 3103611311970783916072765290745346026899, 9004074178548871469106014214585258606870),
     (False, 6037774171043637881325769286980203031154, 9120411300440695728265567902977140795474),
     (True, 7525562152465616432028636092781053422916, 1223376797776920865935098317061453804400),
     (False, 111460045463603242485429048173347536061, 12707148660358419041368348317155883583091),
     (True, 10485101370321614654422342382944887996109, 2688397665858452496491275035595921076865),
     (False, 538252128777985212283990615101456799543, 302711604129789542645110850493372781658),
     (False, 6824280599932195045091861246518336917, 2824106765292226770014766050735993177791)] = 147871660"
  by simp

lemma pow_13427688667394608761327070753331941386769_2480874801745591_seg2:
  "chain_ok 13427688667394608761327070753331941386769 11079643483354044030555362120445414701546 2824106765292226770014766050735993177791
    [(True, 2330266726718601048591235828767330687303, 644256743821925655385650500902660070879),
     (False, 30911258239692733546481073260684445526, 2495441231131202476099401987273026187147),
     (False, 463760152046918744575075203055699538459, 8336951785534065210123860273554958750638),
     (True, 6879103009434915800982178121849019634629, 6199678053643813946131559304905852262647),
     (False, 2862444082589124843589159407098499825328, 246393361703778810222070535808881161377),
     (False, 4521231478884798367967936337626865906, 11001878171949904443767770539295470938415),
     (False, 9014308144062262551101375364046614505870, 11458791652904512818274524069801231878195),
     (True, 9455039464275073725841962893781610803518, 4599473920385754229190496164969646336128),
     (False, 1575487849645940716738018708328286109901, 10047449104462590568572996667916076732515),
     (False, 7518139272315568766823594855238995569238, 5978798688474110423705344471850581613203),
     (True, 4933310532280242895610090537870021172475, 13225116103650817473324814773586626128563),
     (False, 13025599586602640746509307793827475811810, 9553524776881199194914284873797936503079),
     (False, 6797136716768409205984126574793692357917, 1162020295178476418494968018016500280068),
     (False, 100560208078511560475349251405620127740, 1504737311298165588612433747887912212564),
     (True, 1241610031201243645864466880036870530728, 8801065343137147506600137695481224286112),
     (False, 5768584087167342287189575678397932849922, 3574520198476054468620879531955002594526),
     (False, 951555771496187578890182670359029325001, 4544797644503111237335469148821622852907),
     (False, 1538253242319832530707443713185460973127, 11592767394071615911592078351733135993986),
     (True, 9565587413689039589865888697899235009642, 7468386474638504784587624369103674675658),
     (False, 4153864296094511350752490870540040083519, 6808212190935660510557084905648056172853),
     (True, 5617687876377321779814684977255554510154, 4075769320691373626044124535770730578312),
     (False, 1237137378365523879433370984605979518347, 9497318773257790972735396524436106218501),
     (True, 7836561351841278260393820651193964797628, 12377091569514069884294644967970816718614),
     (False, 11408694341575047413209158883062664767694, 4368214085241604346503030117550863840310),
     (False, 1421040863185690293382569182287096022512, 3107957706852203789102406758583857952372),
     (True, 2564481811146018808607205013814401361284, 11694935349132232679070195008860716315716),
     (False, 10185782245048179605045779215853157858467, 12666538734432238179499142937318780169533),
     (False, 11948534664827230729410898642135358383545, 11934028338600588202903996701750731121984),
     (True, 9847173447877849505042602587190029617554, 11829573051862191459388660122739613644238),
     (False, 10421659457233801247316683913951683021410, 13383798019585126488399546096667512876354),
     (True, 11043427814222293621885947309073675724766, 8393659687935402978068677826291712622230),
     (False, 5246883860805363142767985956486525156787, 9473778823849435484106395911420757821697),
     (False, 6684135105184322103629677404140193389470, 205928704627575288717879750686122037379),
     (True, 169918791444928492585075744842636658605, 6740059885760323476984927782560624090689),
     (False, 3383188900852732943229235942689021967646, 222031068130504320454798366149806018947),
     (True, 183205400277693637252080876200267305694, 13395792029760145837911260292514816229376),
     (False, 13363971160600629365800061596085530856629, 9335018442023270962428499490951468807675),
     (True, 7702641817969804814882625026579070078621, 1)]
    1"
  by simp

lemma pow_13427688667394608761327070753331941386769_2480874801745591_seg2_exp:
  "chain_exp 147871660
    [(True, 2330266726718601048591235828767330687303, 644256743821925655385650500902660070879),
     (False, 30911258239692733546481073260684445526, 2495441231131202476099401987273026187147),
     (False, 463760152046918744575075203055699538459, 8336951785534065210123860273554958750638),
     (True, 6879103009434915800982178121849019634629, 6199678053643813946131559304905852262647),
     (False, 2862444082589124843589159407098499825328, 246393361703778810222070535808881161377),
     (False, 4521231478884798367967936337626865906, 11001878171949904443767770539295470938415),
     (False, 9014308144062262551101375364046614505870, 11458791652904512818274524069801231878195),
     (True, 9455039464275073725841962893781610803518, 4599473920385754229190496164969646336128),
     (False, 1575487849645940716738018708328286109901, 10047449104462590568572996667916076732515),
     (False, 7518139272315568766823594855238995569238, 5978798688474110423705344471850581613203),
     (True, 4933310532280242895610090537870021172475, 13225116103650817473324814773586626128563),
     (False, 13025599586602640746509307793827475811810, 9553524776881199194914284873797936503079),
     (False, 6797136716768409205984126574793692357917, 1162020295178476418494968018016500280068),
     (False, 100560208078511560475349251405620127740, 1504737311298165588612433747887912212564),
     (True, 1241610031201243645864466880036870530728, 8801065343137147506600137695481224286112),
     (False, 5768584087167342287189575678397932849922, 3574520198476054468620879531955002594526),
     (False, 951555771496187578890182670359029325001, 4544797644503111237335469148821622852907),
     (False, 1538253242319832530707443713185460973127, 11592767394071615911592078351733135993986),
     (True, 9565587413689039589865888697899235009642, 7468386474638504784587624369103674675658),
     (False, 4153864296094511350752490870540040083519, 6808212190935660510557084905648056172853),
     (True, 5617687876377321779814684977255554510154, 4075769320691373626044124535770730578312),
     (False, 1237137378365523879433370984605979518347, 9497318773257790972735396524436106218501),
     (True, 7836561351841278260393820651193964797628, 12377091569514069884294644967970816718614),
     (False, 11408694341575047413209158883062664767694, 4368214085241604346503030117550863840310),
     (False, 1421040863185690293382569182287096022512, 3107957706852203789102406758583857952372),
     (True, 2564481811146018808607205013814401361284, 11694935349132232679070195008860716315716),
     (False, 10185782245048179605045779215853157858467, 12666538734432238179499142937318780169533),
     (False, 11948534664827230729410898642135358383545, 11934028338600588202903996701750731121984),
     (True, 9847173447877849505042602587190029617554, 11829573051862191459388660122739613644238),
     (False, 10421659457233801247316683913951683021410, 13383798019585126488399546096667512876354),
     (True, 11043427814222293621885947309073675724766, 8393659687935402978068677826291712622230),
     (False, 5246883860805363142767985956486525156787, 9473778823849435484106395911420757821697),
     (False, 6684135105184322103629677404140193389470, 205928704627575288717879750686122037379),
     (True, 169918791444928492585075744842636658605, 6740059885760323476984927782560624090689),
     (False, 3383188900852732943229235942689021967646, 222031068130504320454798366149806018947),
     (True, 183205400277693637252080876200267305694, 13395792029760145837911260292514816229376),
     (False, 13363971160600629365800061596085530856629, 9335018442023270962428499490951468807675),
     (True, 7702641817969804814882625026579070078621, 1)] = 2480874801745591"
  by simp

lemma pow_13427688667394608761327070753331941386769_2480874801745591: "(11079643483354044030555362120445414701546::nat) ^ 2480874801745591 mod 13427688667394608761327070753331941386769 = 1"
proof -
  have s0: "(11079643483354044030555362120445414701546::nat) = 11079643483354044030555362120445414701546 ^ 1 mod 13427688667394608761327070753331941386769" by simp
  have s1: "(2824106765292226770014766050735993177791::nat) = 11079643483354044030555362120445414701546 ^ 147871660 mod 13427688667394608761327070753331941386769"
    using chain_sound [OF pow_13427688667394608761327070753331941386769_2480874801745591_seg1 s0] unfolding pow_13427688667394608761327070753331941386769_2480874801745591_seg1_exp .
  have s2: "(1::nat) = 11079643483354044030555362120445414701546 ^ 2480874801745591 mod 13427688667394608761327070753331941386769"
    using chain_sound [OF pow_13427688667394608761327070753331941386769_2480874801745591_seg2 s1] unfolding pow_13427688667394608761327070753331941386769_2480874801745591_seg2_exp .
  from s2 show ?thesis by (rule sym)
qed

lemma pow_13427688667394608761327070753331941386769_173171039_seg1:
  "chain_ok 13427688667394608761327070753331941386769 9785822746442342713677375315050249518427 9785822746442342713677375315050249518427
    [(False, 7131705924737473037298335693433143117105, 12912131168316894023511570168864347970584),
     (False, 12416368552888864116314404055007683639081, 773424987450240165278926376699704581767),
     (True, 563656190006525416364952969323100447456, 1540133634197360606467898308728136610845),
     (False, 176650775121539495295811644793945808469, 4997776701245533508172006497208246867364),
     (False, 1860169130683244761997147653265769790001, 12070366371306328051604749018681558411727),
     (False, 10850247421310806488573314954330514507641, 10083950542671241061164725455204064320600),
     (True, 7348975318000040607939526775931763312289, 4357579377990335300824152509595455991959),
     (False, 1414130049171820688095383165645072415950, 2669137588166885173816902070004478092131),
     (False, 530567519178836657571242045666575087718, 5845668757960706467658602387352984518019),
     (True, 4260202907349559083639056232334052474543, 8470891850962823413973311336221964514546),
     (False, 5343883860291443345762903029634906658921, 9961698938050948608697574984532220369867),
     (False, 7390359442376032910221122023643270863976, 9814112546625660981245906086080076464145),
     (False, 7172999573017631405220276544155358018419, 9806700200793781341142211127278765682814),
     (True, 7146920983169399056045934361367076301715, 604849150566456655126187309064377204743),
     (False, 27245381092973242895766794656898699751, 538440845535222767753341213422246701530),
     (False, 21591098164546503589913484663600504702, 11962914660687738863978643139574719253062),
     (False, 10657927117896583478959903460465561696093, 5276595716582572367569119279505047182327),
     (True, 3845474203799285326230454400812139166820, 7498542199808404862053439489193983435049),
     (False, 4187476826063281595312240550672203639754, 9120838524051125432267066912297543617575),
     (True, 6647079129263528680835057531106492674662, 1263847500314695950771678110126975207447)]
    1263847500314695950771678110126975207447"
  by simp

lemma pow_13427688667394608761327070753331941386769_173171039_seg1_exp:
  "chain_exp 1
    [(False, 7131705924737473037298335693433143117105, 12912131168316894023511570168864347970584),
     (False, 12416368552888864116314404055007683639081, 773424987450240165278926376699704581767),
     (True, 563656190006525416364952969323100447456, 1540133634197360606467898308728136610845),
     (False, 176650775121539495295811644793945808469, 4997776701245533508172006497208246867364),
     (False, 1860169130683244761997147653265769790001, 12070366371306328051604749018681558411727),
     (False, 10850247421310806488573314954330514507641, 10083950542671241061164725455204064320600),
     (True, 7348975318000040607939526775931763312289, 4357579377990335300824152509595455991959),
     (False, 1414130049171820688095383165645072415950, 2669137588166885173816902070004478092131),
     (False, 530567519178836657571242045666575087718, 5845668757960706467658602387352984518019),
     (True, 4260202907349559083639056232334052474543, 8470891850962823413973311336221964514546),
     (False, 5343883860291443345762903029634906658921, 9961698938050948608697574984532220369867),
     (False, 7390359442376032910221122023643270863976, 9814112546625660981245906086080076464145),
     (False, 7172999573017631405220276544155358018419, 9806700200793781341142211127278765682814),
     (True, 7146920983169399056045934361367076301715, 604849150566456655126187309064377204743),
     (False, 27245381092973242895766794656898699751, 538440845535222767753341213422246701530),
     (False, 21591098164546503589913484663600504702, 11962914660687738863978643139574719253062),
     (False, 10657927117896583478959903460465561696093, 5276595716582572367569119279505047182327),
     (True, 3845474203799285326230454400812139166820, 7498542199808404862053439489193983435049),
     (False, 4187476826063281595312240550672203639754, 9120838524051125432267066912297543617575),
     (True, 6647079129263528680835057531106492674662, 1263847500314695950771678110126975207447)] = 21139"
  by simp

lemma pow_13427688667394608761327070753331941386769_173171039_seg2:
  "chain_ok 13427688667394608761327070753331941386769 9785822746442342713677375315050249518427 1263847500314695950771678110126975207447
    [(False, 118956474462379200942000486783961267727, 6619663059734286389794825098725019753746),
     (False, 3263401476593300556128415118272686326697, 2777961190215519931721833518163713760523),
     (False, 574713084693598317367545119964669402169, 5381697068471989292729922314982156731568),
     (False, 2156935869918382999545038993033525309265, 2522509801445077877625514257052703623839),
     (False, 473875724705875078916604256619651942295, 8619191153010031920463005173256144603066),
     (True, 6281488864563160086383939477416307689456, 6468271329479181881714269671118728489518),
     (False, 3115840337686379067044512311284315871383, 8560437908524187557695892193916173940797),
     (False, 5457461741992919586499433852934947690595, 4487390206996934008598680241926622257654),
     (True, 3270317494508432483858690985184624732478, 2385175983551504343735850998250061006676),
     (False, 423681589097697066275828215964791216901, 10148028445045199713400614087145505986107),
     (False, 7669412351770612933541130611195005101940, 4558131812171065307168859966976664783589),
     (True, 3321872518323799093285697539479377051857, 10696809935136249034117650866310016014470),
     (False, 8521328251098851120135131109753411957558, 8155512213986807045757383272713758630798),
     (True, 5943569210560626610364388396826791756839, 6988187480433325460552967359398890851555),
     (False, 3636870460086452090007264013152788191099, 6181753384524723325670102364944003748894),
     (True, 4505134456242692535440834074835409761409, 3399657297366667572997134207743254472217),
     (False, 860734116334034985850174663140935409863, 105363582102491791906298227789604592442),
     (True, 76786807016822886138023365820136898501, 11100784120629053923849670310109566595465),
     (False, 9177112394036473162072747527389889174929, 589918460089145967394751929637471451824),
     (True, 429920415067734424220460684267169557663, 1)]
    1"
  by simp

lemma pow_13427688667394608761327070753331941386769_173171039_seg2_exp:
  "chain_exp 21139
    [(False, 118956474462379200942000486783961267727, 6619663059734286389794825098725019753746),
     (False, 3263401476593300556128415118272686326697, 2777961190215519931721833518163713760523),
     (False, 574713084693598317367545119964669402169, 5381697068471989292729922314982156731568),
     (False, 2156935869918382999545038993033525309265, 2522509801445077877625514257052703623839),
     (False, 473875724705875078916604256619651942295, 8619191153010031920463005173256144603066),
     (True, 6281488864563160086383939477416307689456, 6468271329479181881714269671118728489518),
     (False, 3115840337686379067044512311284315871383, 8560437908524187557695892193916173940797),
     (False, 5457461741992919586499433852934947690595, 4487390206996934008598680241926622257654),
     (True, 3270317494508432483858690985184624732478, 2385175983551504343735850998250061006676),
     (False, 423681589097697066275828215964791216901, 10148028445045199713400614087145505986107),
     (False, 7669412351770612933541130611195005101940, 4558131812171065307168859966976664783589),
     (True, 3321872518323799093285697539479377051857, 10696809935136249034117650866310016014470),
     (False, 8521328251098851120135131109753411957558, 8155512213986807045757383272713758630798),
     (True, 5943569210560626610364388396826791756839, 6988187480433325460552967359398890851555),
     (False, 3636870460086452090007264013152788191099, 6181753384524723325670102364944003748894),
     (True, 4505134456242692535440834074835409761409, 3399657297366667572997134207743254472217),
     (False, 860734116334034985850174663140935409863, 105363582102491791906298227789604592442),
     (True, 76786807016822886138023365820136898501, 11100784120629053923849670310109566595465),
     (False, 9177112394036473162072747527389889174929, 589918460089145967394751929637471451824),
     (True, 429920415067734424220460684267169557663, 1)] = 173171039"
  by simp

lemma pow_13427688667394608761327070753331941386769_173171039: "(9785822746442342713677375315050249518427::nat) ^ 173171039 mod 13427688667394608761327070753331941386769 = 1"
proof -
  have s0: "(9785822746442342713677375315050249518427::nat) = 9785822746442342713677375315050249518427 ^ 1 mod 13427688667394608761327070753331941386769" by simp
  have s1: "(1263847500314695950771678110126975207447::nat) = 9785822746442342713677375315050249518427 ^ 21139 mod 13427688667394608761327070753331941386769"
    using chain_sound [OF pow_13427688667394608761327070753331941386769_173171039_seg1 s0] unfolding pow_13427688667394608761327070753331941386769_173171039_seg1_exp .
  have s2: "(1::nat) = 9785822746442342713677375315050249518427 ^ 173171039 mod 13427688667394608761327070753331941386769"
    using chain_sound [OF pow_13427688667394608761327070753331941386769_173171039_seg2 s1] unfolding pow_13427688667394608761327070753331941386769_173171039_seg2_exp .
  from s2 show ?thesis by (rule sym)
qed

lemma cop_13427688667394608761327070753331941386769_187539: "coprime (11079643483354044030555362120445414701546 - 1) (13427688667394608761327070753331941386769::nat)"
  by (rule bezout_coprime [of _ 6785926852418085198570490017495330175623 _ 5599299484168009323850478809842907506686]) simp

lemma cop_13427688667394608761327070753331941386769_512444: "coprime (9785822746442342713677375315050249518427 - 1) (13427688667394608761327070753331941386769::nat)"
  by (rule bezout_coprime [of _ 8400704698881656509131354358865537047819 _ 6122260439957911926599827184786105782797]) simp

lemma prime_13427688667394608761327070753331941386769: "is_prime 13427688667394608761327070753331941386769"
  by (rule pocklington_two [OF _ prime_2480874801745591 pow_13427688667394608761327070753331941386769_2480874801745591 cop_13427688667394608761327070753331941386769_187539 prime_173171039 pow_13427688667394608761327070753331941386769_173171039 cop_13427688667394608761327070753331941386769_512444]) simp_all

lemma pow_0_13427688667394608761327070753331941386769_seg1:
  "chain_ok 21888242871839275222246405745257275088696311157297823662689037894645226208583 20520420087326380218354900027015874311863624918437260220194913954166250002289 20520420087326380218354900027015874311863624918437260220194913954166250002289
    [(False, 19238074203850603232075934733970503619080248404937198273859482994282858037284, 1168350874092745625405749664249284140222932432086006564121548311108330430949),
     (False, 62364246092568038487843797424838160046389053177325094074683747031571159708, 12084850875733009551105854211970485156906309794495034472951121415634843666837),
     (False, 6672240505728306605573235773690991160564166835151540889568402418069339256107, 1728711361824467244428017976948836031851166774962390661835532357162615018188),
     (True, 1620682096871819815405055300783697389587096132150360566998608716917243440679, 1944099738983215340511157305465284169323853253662281453403900640043735484475),
     (False, 172673695976629647393611546709552966557130308767821777230812719950591596253, 6606581569194768481367769750379802743582402588503580492522530682077866786126),
     (True, 6193728292163846686812800520056982624145203360743723426857896631072321168465, 2767581608560203884827991219266359153093887989819017746943776761720201507319),
     (False, 349937087453244938650308336451998425223665288634199571804742323686370281678, 7961691111392704383334592276267692400734401072117462637351479690417919325487),
     (True, 7464155399221504890751328277347198580542443196201023125577143987089850818388, 20846724391401744837767268903091488754085576514495268749495906647262146215539),
     (False, 19854764971115567279117329503899493399406501039129702697745576689544002590458, 352097487885586148848495007416804207701158182008040625024147747874011559507),
     (False, 5663891875708295668181057207827350864117154958506018584890447652899248371, 21295925724000722465762284391551415268997489023823679378766583721747433114756),
     (True, 19965117554832470942377181727841006688349343770633454679777441340208259975795, 2474904033221529360040703593810585053108044259776351193309008100264198427999),
     (False, 279837445587586118661721248579251909492847035076450117132476337806636222088, 19185403589486437399248030573162535943376532227060806873147958730587787362697),
     (True, 17986484502493965288937086377846749084862141476873496206633107193652807344359, 3879501965817328533789451323327343293121890226046011222319372100927080780136),
     (False, 687608210074462491014855789301031763240037691955976282778192760406524298936, 4398832226009647346365217664841709411687112101215341306295512134236991210808),
     (True, 4123943877081162673224691745315925051670549548939246087960999641294192346018, 11362048079661685016912077362612320736592260745580003979125142086970704067018),
     (False, 5897967110490847702481916213442917428185585319778630810893887287616108168628, 11563494126660254421990594607155083764770268681978913414181913347425770478200),
     (False, 6108959828353281685381564891707885821262293835797632271754686220033393691784, 13751489027580514238977525877790418466672739463836521784870796610277077857928),
     (True, 12892141837262942356407921950708442964700299733257772819870889751282751014321, 11686331258361405336797681148160758292765303287808588315347384366424850680049),
     (False, 6239438180570536747078891855689180623657337318819025567727433179191053618605, 14766950660098502109673966672250918341025562854113545034889533010531107155686),
     (False, 9962555380739875074534934224330088226105587402163586868248156122687682612206, 7148923783416660390600253137593975048922122109987333140615026668742184366498),
     (True, 6702178885118583806937770743407644043415873567183889947765163420881781550853, 8700259349505545606454443131906551732443073823376839020539284475833515342623),
     (False, 3458227012184922284839528414708959601758887928437408207787552373576743595516, 9279150787008645725563532796913990771884670965570465747729998015621081006301),
     (True, 8699285425420821982834053381504210660900895074042192060081083882090107941930, 20561467795377180608911723914660049250262709454751438565084138847484641837799),
     (False, 19315116356108265395111629224126942476013670638973219919201155389444419246110, 16609878247643725539532781932485662889662402360423440728653925135321753802271),
     (True, 15571906855963755085423840116431251471986654786130596036371447950086047280038, 21538327222366393657617722530675043986586386126492211785491518833249803232165)]
    21538327222366393657617722530675043986586386126492211785491518833249803232165"
  by simp

lemma pow_0_13427688667394608761327070753331941386769_seg1_exp:
  "chain_exp 1
    [(False, 19238074203850603232075934733970503619080248404937198273859482994282858037284, 1168350874092745625405749664249284140222932432086006564121548311108330430949),
     (False, 62364246092568038487843797424838160046389053177325094074683747031571159708, 12084850875733009551105854211970485156906309794495034472951121415634843666837),
     (False, 6672240505728306605573235773690991160564166835151540889568402418069339256107, 1728711361824467244428017976948836031851166774962390661835532357162615018188),
     (True, 1620682096871819815405055300783697389587096132150360566998608716917243440679, 1944099738983215340511157305465284169323853253662281453403900640043735484475),
     (False, 172673695976629647393611546709552966557130308767821777230812719950591596253, 6606581569194768481367769750379802743582402588503580492522530682077866786126),
     (True, 6193728292163846686812800520056982624145203360743723426857896631072321168465, 2767581608560203884827991219266359153093887989819017746943776761720201507319),
     (False, 349937087453244938650308336451998425223665288634199571804742323686370281678, 7961691111392704383334592276267692400734401072117462637351479690417919325487),
     (True, 7464155399221504890751328277347198580542443196201023125577143987089850818388, 20846724391401744837767268903091488754085576514495268749495906647262146215539),
     (False, 19854764971115567279117329503899493399406501039129702697745576689544002590458, 352097487885586148848495007416804207701158182008040625024147747874011559507),
     (False, 5663891875708295668181057207827350864117154958506018584890447652899248371, 21295925724000722465762284391551415268997489023823679378766583721747433114756),
     (True, 19965117554832470942377181727841006688349343770633454679777441340208259975795, 2474904033221529360040703593810585053108044259776351193309008100264198427999),
     (False, 279837445587586118661721248579251909492847035076450117132476337806636222088, 19185403589486437399248030573162535943376532227060806873147958730587787362697),
     (True, 17986484502493965288937086377846749084862141476873496206633107193652807344359, 3879501965817328533789451323327343293121890226046011222319372100927080780136),
     (False, 687608210074462491014855789301031763240037691955976282778192760406524298936, 4398832226009647346365217664841709411687112101215341306295512134236991210808),
     (True, 4123943877081162673224691745315925051670549548939246087960999641294192346018, 11362048079661685016912077362612320736592260745580003979125142086970704067018),
     (False, 5897967110490847702481916213442917428185585319778630810893887287616108168628, 11563494126660254421990594607155083764770268681978913414181913347425770478200),
     (False, 6108959828353281685381564891707885821262293835797632271754686220033393691784, 13751489027580514238977525877790418466672739463836521784870796610277077857928),
     (True, 12892141837262942356407921950708442964700299733257772819870889751282751014321, 11686331258361405336797681148160758292765303287808588315347384366424850680049),
     (False, 6239438180570536747078891855689180623657337318819025567727433179191053618605, 14766950660098502109673966672250918341025562854113545034889533010531107155686),
     (False, 9962555380739875074534934224330088226105587402163586868248156122687682612206, 7148923783416660390600253137593975048922122109987333140615026668742184366498),
     (True, 6702178885118583806937770743407644043415873567183889947765163420881781550853, 8700259349505545606454443131906551732443073823376839020539284475833515342623),
     (False, 3458227012184922284839528414708959601758887928437408207787552373576743595516, 9279150787008645725563532796913990771884670965570465747729998015621081006301),
     (True, 8699285425420821982834053381504210660900895074042192060081083882090107941930, 20561467795377180608911723914660049250262709454751438565084138847484641837799),
     (False, 19315116356108265395111629224126942476013670638973219919201155389444419246110, 16609878247643725539532781932485662889662402360423440728653925135321753802271),
     (True, 15571906855963755085423840116431251471986654786130596036371447950086047280038, 21538327222366393657617722530675043986586386126492211785491518833249803232165)] = 40407"
  by simp

lemma pow_0_13427688667394608761327070753331941386769_seg2:
  "chain_ok 21888242871839275222246405745257275088696311157297823662689037894645226208583 20520420087326380218354900027015874311863624918437260220194913954166250002289 21538327222366393657617722530675043986586386126492211785491518833249803232165
    [(False, 21194005487510731422657742217138350790254362867380875197387139333402698328017, 14147691653720709577002186291340395157977990237591096175211494963958695817314),
     (False, 9144506496054763573867296889749153565710618951847533894936078956727863421217, 2326191518174917314948607223373080889278871140129922726410016915262432469085),
     (True, 2180824995227846006036871873198812429684194158939589129640818385817678241637, 10397351369704481530066465699145675313052645251701581862648006485833534365194),
     (False, 4938949011945588468428300545805630932285149671954375090282214673115073357175, 16299267186611700458381441027114396792188009629462854839018830371421949024611),
     (True, 15280706256013004918913276455819825321429940390872571712418529819865842360938, 12860720477097617155221537428952288341009522542263126136704262592840907803725),
     (False, 7556482818583578235286014967001956778792188161380629686475687497912593279386, 20042724030773446009167636284234741478637376736815460350758103294047893705587),
     (True, 18790229951942331125431476357133814641550061072947714122585734347101003582088, 10383822259845886481468339656286319156087626983945751301243728330525391427339),
     (False, 4926104180925075392735345686188998595640290508588358927729261845262335609151, 1567975565361860071904999315455674797902833534730824180866385563500227077888),
     (True, 1469990874840138926947989365116606997307946882740236001837698184206611057664, 14471708774685246780963560304828266181559841416594895410675053427033476555520),
     (False, 9568166621942434385609363193396710752876752596361220734232758990171812299436, 21401020979764980223770661378921917472077668109764722194139176342466253211212),
     (False, 20924644415637126657506760525399810180320619555548884225654586933325434554709, 9586791544135392027690327627539345186009558242081360315810857311716923641597),
     (True, 8987701339351765350350096006393673971466405543969388229482586698500360100080, 10417829005017018226679789808694508713970944863600548150013975718710630628893),
     (False, 4958422739241743980627100800745221126273732440669513901839709751192645120774, 16108782399874635067601475999763853269041098677498178897441047400838536002207),
     (True, 15102125094109034397389531952369932062205854058431131586119289732206317684689, 3138654901818867971134174862189110535395720176892013590054855186816319566136),
     (False, 450066030900351227892106830109971744467914419011059414580099453239902766627, 4592105941752678591243889642703385869843317038661168085541475472155804610955),
     (False, 963413879485533681182588712563871455351703194006315502318617029392071353383, 10348691011700320939498571401698734146090747040917771178168500168520245325736),
     (False, 4892827911436993069150673133420649373922118871360394634363504552822454710564, 20659254206715413051784765495862014660589487440258824774427229585718386370884),
     (False, 19499271224132938553250126003188317863309648437382547047151077544790567991380, 5471090929630167168197646057370643468116177195695438920401882574688776926916),
     (True, 5129195836748225869769082037913243307568850468412546617561568613502978349495, 18733155059020248422630231817741491482550861412275862196715381073401442995139),
     (False, 16032858394347992172847972846626207653612161560000781415336737773026004153987, 4457743481490746983030292861530319579698474714964429457194035918730664558900),
     (False, 907860766308439626582391642477264449123918873367780896749832541878605193206, 12131517647158159441697630955355587916259969034116491213712492811889998722902),
     (False, 6723870951407384282487541732196194806198985071103615595150091138730434053609, 7897645571827279826486544396629371799762097480545627345238349881144141375557),
     (True, 7404112142926461850110519060004694102588577797240888114441798879800628299362, 14142029604359203322089452243374140744066391812010877430440239836692480825927),
     (False, 9137188512645844943217837957960918890213554409874081787930850223840070902158, 12248135604199897759036871429175908596477295124145793840429547819233382587215),
     (True, 11482734788550941509660666627336260106068880517722434841841362909354419157048, 7127705300160167733067409551901352848585007536958176169886957649442609592151)]
    7127705300160167733067409551901352848585007536958176169886957649442609592151"
  by simp

lemma pow_0_13427688667394608761327070753331941386769_seg2_exp:
  "chain_exp 40407
    [(False, 21194005487510731422657742217138350790254362867380875197387139333402698328017, 14147691653720709577002186291340395157977990237591096175211494963958695817314),
     (False, 9144506496054763573867296889749153565710618951847533894936078956727863421217, 2326191518174917314948607223373080889278871140129922726410016915262432469085),
     (True, 2180824995227846006036871873198812429684194158939589129640818385817678241637, 10397351369704481530066465699145675313052645251701581862648006485833534365194),
     (False, 4938949011945588468428300545805630932285149671954375090282214673115073357175, 16299267186611700458381441027114396792188009629462854839018830371421949024611),
     (True, 15280706256013004918913276455819825321429940390872571712418529819865842360938, 12860720477097617155221537428952288341009522542263126136704262592840907803725),
     (False, 7556482818583578235286014967001956778792188161380629686475687497912593279386, 20042724030773446009167636284234741478637376736815460350758103294047893705587),
     (True, 18790229951942331125431476357133814641550061072947714122585734347101003582088, 10383822259845886481468339656286319156087626983945751301243728330525391427339),
     (False, 4926104180925075392735345686188998595640290508588358927729261845262335609151, 1567975565361860071904999315455674797902833534730824180866385563500227077888),
     (True, 1469990874840138926947989365116606997307946882740236001837698184206611057664, 14471708774685246780963560304828266181559841416594895410675053427033476555520),
     (False, 9568166621942434385609363193396710752876752596361220734232758990171812299436, 21401020979764980223770661378921917472077668109764722194139176342466253211212),
     (False, 20924644415637126657506760525399810180320619555548884225654586933325434554709, 9586791544135392027690327627539345186009558242081360315810857311716923641597),
     (True, 8987701339351765350350096006393673971466405543969388229482586698500360100080, 10417829005017018226679789808694508713970944863600548150013975718710630628893),
     (False, 4958422739241743980627100800745221126273732440669513901839709751192645120774, 16108782399874635067601475999763853269041098677498178897441047400838536002207),
     (True, 15102125094109034397389531952369932062205854058431131586119289732206317684689, 3138654901818867971134174862189110535395720176892013590054855186816319566136),
     (False, 450066030900351227892106830109971744467914419011059414580099453239902766627, 4592105941752678591243889642703385869843317038661168085541475472155804610955),
     (False, 963413879485533681182588712563871455351703194006315502318617029392071353383, 10348691011700320939498571401698734146090747040917771178168500168520245325736),
     (False, 4892827911436993069150673133420649373922118871360394634363504552822454710564, 20659254206715413051784765495862014660589487440258824774427229585718386370884),
     (False, 19499271224132938553250126003188317863309648437382547047151077544790567991380, 5471090929630167168197646057370643468116177195695438920401882574688776926916),
     (True, 5129195836748225869769082037913243307568850468412546617561568613502978349495, 18733155059020248422630231817741491482550861412275862196715381073401442995139),
     (False, 16032858394347992172847972846626207653612161560000781415336737773026004153987, 4457743481490746983030292861530319579698474714964429457194035918730664558900),
     (False, 907860766308439626582391642477264449123918873367780896749832541878605193206, 12131517647158159441697630955355587916259969034116491213712492811889998722902),
     (False, 6723870951407384282487541732196194806198985071103615595150091138730434053609, 7897645571827279826486544396629371799762097480545627345238349881144141375557),
     (True, 7404112142926461850110519060004694102588577797240888114441798879800628299362, 14142029604359203322089452243374140744066391812010877430440239836692480825927),
     (False, 9137188512645844943217837957960918890213554409874081787930850223840070902158, 12248135604199897759036871429175908596477295124145793840429547819233382587215),
     (True, 11482734788550941509660666627336260106068880517722434841841362909354419157048, 7127705300160167733067409551901352848585007536958176169886957649442609592151)] = 2648144659"
  by simp

lemma pow_0_13427688667394608761327070753331941386769_seg3:
  "chain_ok 21888242871839275222246405745257275088696311157297823662689037894645226208583 20520420087326380218354900027015874311863624918437260220194913954166250002289 7127705300160167733067409551901352848585007536958176169886957649442609592151
    [(False, 2321071780105949499890967879767790742486383036561060660251528666414901835963, 16648213594016176875134526519638642281640181994209446456598616309542272136372),
     (False, 12662643479188283631359183689376182912141768940011044409225083520376807523828, 7054565889184982248752032586888939735196159110849056343119771424364094706660),
     (True, 6613717529882038894412730327731415040616910173672918870282798166615644668267, 6327842583942150475080448687104583585543795210673175328600025375382600409079),
     (False, 1829365289923200008393811304950479233114588640613105560196853665248654795870, 16444147774164526778733310478442143560922804446458410462622536617238238676031),
     (False, 12354120776248382891055493941639267625312916870295669747538152181767137814836, 14622045483212304825714013966419603806050048637503342372913932376724005975573),
     (False, 9767993500666202015141802842052170594987904431806262095675085544658258904598, 5013505802753955058942732858821764863299767652292026782453597517645226913695),
     (True, 4700205758184492240987341554931100619864109980272996424361905717364446603526, 9831213195888858861822058136959513004629345455691440767732208842685376184197),
     (False, 4415738324402897667567198305437252281908639273062632948811110424498344473032, 4317666812919489792284869824098763249925122675670225004545094909709622101153),
     (False, 851701382177683740956011396666044351898481962507251339152800067540271984297, 10738199843415713114993631601480973962205494893300275283888216988231141308258),
     (True, 10067156740665155007684768432670727184752317421216746194054381285232807639648, 20162117139722321181897659068724538524681277815955873902051579564738605903778),
     (False, 18572115173250787427024658120035435782165731058139924106095178496769594173278, 10018458694400361908013293183869200801953596374769902193510308407983921828210),
     (True, 9392393087026615753691017082759978613235945007963194130504501553843809908119, 19524190626343331922144267145379958336797818157923733530219833589717605587313),
     (False, 17415469201697549817141237992086921883081925338346866568329622204441673640810, 20335448403728916336060154723030438204654731412296618886190651893949585487739),
     (True, 19064661624599511254826792748089232416028843853139935312167439641320036007272, 12641802187603674250120431490860898685268472338467046165455959140055954618995),
     (False, 7301415809677176279163021061459419448440617767102737028794028159269230331666, 5807616428737045699487423734141827727946979221204430603620541749478828920747),
     (True, 5444691450178891479644867054834576829764523345372610353879728445299734467263, 941636264960340975346880186109755379357112928352363780151534818477326471554),
     (False, 40509366634872029770443794777074180924923682225529808705602215545448844596, 20115202162902065150556826996392249234897318552631364369559872646536522807448),
     (True, 18858178837886826085379285979636893057061120301528351183767177068236892831696, 4572420220240383816143940620200393807595713851399178433295607548629896601704),
     (False, 955171540853169302162730554104992885723520114362382528040954753135176740270, 4656549611968262630478568572794456245066109724858118820985240430226579966206),
     (True, 4365556191721658214282253983072585607385799004976928644246979644860316132722, 13056308824348938698977482874313845862155433714008833659393134275383959092608),
     (False, 7788071482708632741787624447571197023910315396237013001726800323698818564603, 21724193469003562520028638604789817221971499682106894427392571879150781654115),
     (False, 21561373594126230540149537856979812758925909584033190926355999117114872046405, 20537618840761948641294350741627441974911317123945445284746624132586911139110),
     (True, 19254198186371387250483390240733781795283427753976275108715386113840314176306, 11727516494308984355476307727759310330795768455549215015827479869010104988392),
     (False, 6283494016837552361838597309692007265318914215434323170786912529641310596798, 18357269385967211988105606976850639121316699017921302311321967371327894828430),
     (False, 15395906436259847249666911523846107585828288165495049268466475548699459003434, 1973876352534487507342732723472343035713847827443673414192696246175738990878)]
    1973876352534487507342732723472343035713847827443673414192696246175738990878"
  by simp

lemma pow_0_13427688667394608761327070753331941386769_seg3_exp:
  "chain_exp 2648144659
    [(False, 2321071780105949499890967879767790742486383036561060660251528666414901835963, 16648213594016176875134526519638642281640181994209446456598616309542272136372),
     (False, 12662643479188283631359183689376182912141768940011044409225083520376807523828, 7054565889184982248752032586888939735196159110849056343119771424364094706660),
     (True, 6613717529882038894412730327731415040616910173672918870282798166615644668267, 6327842583942150475080448687104583585543795210673175328600025375382600409079),
     (False, 1829365289923200008393811304950479233114588640613105560196853665248654795870, 16444147774164526778733310478442143560922804446458410462622536617238238676031),
     (False, 12354120776248382891055493941639267625312916870295669747538152181767137814836, 14622045483212304825714013966419603806050048637503342372913932376724005975573),
     (False, 9767993500666202015141802842052170594987904431806262095675085544658258904598, 5013505802753955058942732858821764863299767652292026782453597517645226913695),
     (True, 4700205758184492240987341554931100619864109980272996424361905717364446603526, 9831213195888858861822058136959513004629345455691440767732208842685376184197),
     (False, 4415738324402897667567198305437252281908639273062632948811110424498344473032, 4317666812919489792284869824098763249925122675670225004545094909709622101153),
     (False, 851701382177683740956011396666044351898481962507251339152800067540271984297, 10738199843415713114993631601480973962205494893300275283888216988231141308258),
     (True, 10067156740665155007684768432670727184752317421216746194054381285232807639648, 20162117139722321181897659068724538524681277815955873902051579564738605903778),
     (False, 18572115173250787427024658120035435782165731058139924106095178496769594173278, 10018458694400361908013293183869200801953596374769902193510308407983921828210),
     (True, 9392393087026615753691017082759978613235945007963194130504501553843809908119, 19524190626343331922144267145379958336797818157923733530219833589717605587313),
     (False, 17415469201697549817141237992086921883081925338346866568329622204441673640810, 20335448403728916336060154723030438204654731412296618886190651893949585487739),
     (True, 19064661624599511254826792748089232416028843853139935312167439641320036007272, 12641802187603674250120431490860898685268472338467046165455959140055954618995),
     (False, 7301415809677176279163021061459419448440617767102737028794028159269230331666, 5807616428737045699487423734141827727946979221204430603620541749478828920747),
     (True, 5444691450178891479644867054834576829764523345372610353879728445299734467263, 941636264960340975346880186109755379357112928352363780151534818477326471554),
     (False, 40509366634872029770443794777074180924923682225529808705602215545448844596, 20115202162902065150556826996392249234897318552631364369559872646536522807448),
     (True, 18858178837886826085379285979636893057061120301528351183767177068236892831696, 4572420220240383816143940620200393807595713851399178433295607548629896601704),
     (False, 955171540853169302162730554104992885723520114362382528040954753135176740270, 4656549611968262630478568572794456245066109724858118820985240430226579966206),
     (True, 4365556191721658214282253983072585607385799004976928644246979644860316132722, 13056308824348938698977482874313845862155433714008833659393134275383959092608),
     (False, 7788071482708632741787624447571197023910315396237013001726800323698818564603, 21724193469003562520028638604789817221971499682106894427392571879150781654115),
     (False, 21561373594126230540149537856979812758925909584033190926355999117114872046405, 20537618840761948641294350741627441974911317123945445284746624132586911139110),
     (True, 19254198186371387250483390240733781795283427753976275108715386113840314176306, 11727516494308984355476307727759310330795768455549215015827479869010104988392),
     (False, 6283494016837552361838597309692007265318914215434323170786912529641310596798, 18357269385967211988105606976850639121316699017921302311321967371327894828430),
     (False, 15395906436259847249666911523846107585828288165495049268466475548699459003434, 1973876352534487507342732723472343035713847827443673414192696246175738990878)] = 173548808391668"
  by simp

lemma pow_0_13427688667394608761327070753331941386769_seg4:
  "chain_ok 21888242871839275222246405745257275088696311157297823662689037894645226208583 20520420087326380218354900027015874311863624918437260220194913954166250002289 1973876352534487507342732723472343035713847827443673414192696246175738990878
    [(True, 1850526430632738935288379929160135609874316287158722562263665130473600475117, 15903273653230022804522879826818523221828602406053620214758893010884706790531),
     (False, 11554792879921464037571689325855731782631569866938519325911827651190745523501, 3850284251730093851791675675211533197817978351132253318722795471932956852878),
     (False, 677290036752732995294574402146561265706280722812869556942536901065701776001, 16727147622363527911121221398673634113106784052997362773690209404727367266301),
     (False, 12783002693209350560933676849164065705166384565282207595337440753693032577964, 1291228391401314109178917290164482770500952048035016427057395774975776757589),
     (False, 76171978195010040657450954022198031595497735187743186442926197317276166015, 21656305680770361421798476594608898787779291669201607871720519490293143186176),
     (True, 20302976931999738977773237868125410999569228460172420719455684475101312380136, 849681475122350682398115806971274668069016172048965421435342460093831249576),
     (False, 32983854089765381702750112081150083665697814665664491387319612268850459384, 8346323319556107748934268901371877540488759878517159301432007640857446486904),
     (False, 3182581322879502704319461452935494540426496531127194630299055963510714370673, 7298832758859418135855407033023320791163834118175059700376860874818767418857),
     (False, 2433861866104323029454944885587996571420341828786385559948572827279626042861, 5904313416164430192315089874638129339546724130079856146739087886483595110486),
     (False, 1592677727509604847314900013954799997281953773149953433056867908160791902377, 17822968471033755948049826533005138076529540018050175352196898134406971654405),
     (True, 16709189603306564056393206128225529765630063901596020018046100875316653125876, 9796288673064575735228985517450767208488231590628817068821283458462436339337),
     (False, 4384421002997996663833707556679490580748641463215037186124302118046052694596, 21696273405398604721421358698169125624587480285030977763808837484197120682101),
     (False, 21505987595168315945517948898248131345487949195524684993633379211208953633905, 2857322612423921217600280813552211572615666812319861352537386022800150967586),
     (True, 2678765064663627614501543220170773684886367454307520077391103778866803117184, 15291295189807566785089464087420172321650091968891504580904813636159889214082),
     (False, 10682616688371192115214523616028420625612141415223203328722661353644718784107, 2545416906585525853345382367954747479281527513979164864029804955158299712343),
     (True, 2386350723827135845020757122342868980068125409588939410835479923344438874396, 20120304684843499813890888757544942849337821195206379774829473608244557412259),
     (False, 18495164869162363597908255687173546117068407246763522236393366997830568061825, 1382117589519464765631795099151241630921097561173663737586235532342993839106),
     (True, 1295747388819023334798808239414364408735133612246713365803921160540456062505, 4038254741314365686355620637497639552377575547043374656564847542687382233219),
     (False, 745034740852984266489079209528652416605513233664805342817726045022700935021, 16368252934778834616170063306147345933224293420573662060670561697250831616718),
     (False, 12240347738538345450654531373809669101196247704561648173666111913396571214897, 5677729956150525752730649940457857001596204506423553578780203219220218230573),
     (True, 5322921740442825163500216020777836637336675798717771679715164968731312993566, 13215086942735791946702418599616789950329864663749547370676544795766726804619),
     (False, 7978645153318837242997818644362297053620749598870608895034982027964787740331, 6899872006345954595497336446241437183188023436546257417847232695131152274188),
     (False, 2175059641960013375317264288928714209949038776174526500276569040368180091903, 14446856324681129901751380054355218236751294081770972488788184968371143655895),
     (False, 9535331770943615501440808578201244279339607112751828398777838249236737048249, 8949607760509372549659039848424864265732705533020123272628999185273159329858),
     (False, 3659292321267958452121918862028843841402966501978301948402503536154524839757, 4246751335182358788630681355529698815060052215470092989187073214166917265833)]
    4246751335182358788630681355529698815060052215470092989187073214166917265833"
  by simp

lemma pow_0_13427688667394608761327070753331941386769_seg4_exp:
  "chain_exp 173548808391668
    [(True, 1850526430632738935288379929160135609874316287158722562263665130473600475117, 15903273653230022804522879826818523221828602406053620214758893010884706790531),
     (False, 11554792879921464037571689325855731782631569866938519325911827651190745523501, 3850284251730093851791675675211533197817978351132253318722795471932956852878),
     (False, 677290036752732995294574402146561265706280722812869556942536901065701776001, 16727147622363527911121221398673634113106784052997362773690209404727367266301),
     (False, 12783002693209350560933676849164065705166384565282207595337440753693032577964, 1291228391401314109178917290164482770500952048035016427057395774975776757589),
     (False, 76171978195010040657450954022198031595497735187743186442926197317276166015, 21656305680770361421798476594608898787779291669201607871720519490293143186176),
     (True, 20302976931999738977773237868125410999569228460172420719455684475101312380136, 849681475122350682398115806971274668069016172048965421435342460093831249576),
     (False, 32983854089765381702750112081150083665697814665664491387319612268850459384, 8346323319556107748934268901371877540488759878517159301432007640857446486904),
     (False, 3182581322879502704319461452935494540426496531127194630299055963510714370673, 7298832758859418135855407033023320791163834118175059700376860874818767418857),
     (False, 2433861866104323029454944885587996571420341828786385559948572827279626042861, 5904313416164430192315089874638129339546724130079856146739087886483595110486),
     (False, 1592677727509604847314900013954799997281953773149953433056867908160791902377, 17822968471033755948049826533005138076529540018050175352196898134406971654405),
     (True, 16709189603306564056393206128225529765630063901596020018046100875316653125876, 9796288673064575735228985517450767208488231590628817068821283458462436339337),
     (False, 4384421002997996663833707556679490580748641463215037186124302118046052694596, 21696273405398604721421358698169125624587480285030977763808837484197120682101),
     (False, 21505987595168315945517948898248131345487949195524684993633379211208953633905, 2857322612423921217600280813552211572615666812319861352537386022800150967586),
     (True, 2678765064663627614501543220170773684886367454307520077391103778866803117184, 15291295189807566785089464087420172321650091968891504580904813636159889214082),
     (False, 10682616688371192115214523616028420625612141415223203328722661353644718784107, 2545416906585525853345382367954747479281527513979164864029804955158299712343),
     (True, 2386350723827135845020757122342868980068125409588939410835479923344438874396, 20120304684843499813890888757544942849337821195206379774829473608244557412259),
     (False, 18495164869162363597908255687173546117068407246763522236393366997830568061825, 1382117589519464765631795099151241630921097561173663737586235532342993839106),
     (True, 1295747388819023334798808239414364408735133612246713365803921160540456062505, 4038254741314365686355620637497639552377575547043374656564847542687382233219),
     (False, 745034740852984266489079209528652416605513233664805342817726045022700935021, 16368252934778834616170063306147345933224293420573662060670561697250831616718),
     (False, 12240347738538345450654531373809669101196247704561648173666111913396571214897, 5677729956150525752730649940457857001596204506423553578780203219220218230573),
     (True, 5322921740442825163500216020777836637336675798717771679715164968731312993566, 13215086942735791946702418599616789950329864663749547370676544795766726804619),
     (False, 7978645153318837242997818644362297053620749598870608895034982027964787740331, 6899872006345954595497336446241437183188023436546257417847232695131152274188),
     (False, 2175059641960013375317264288928714209949038776174526500276569040368180091903, 14446856324681129901751380054355218236751294081770972488788184968371143655895),
     (False, 9535331770943615501440808578201244279339607112751828398777838249236737048249, 8949607760509372549659039848424864265732705533020123272628999185273159329858),
     (False, 3659292321267958452121918862028843841402966501978301948402503536154524839757, 4246751335182358788630681355529698815060052215470092989187073214166917265833)] = 45494778827025696208"
  by simp

lemma pow_0_13427688667394608761327070753331941386769_seg5:
  "chain_ok 21888242871839275222246405745257275088696311157297823662689037894645226208583 20520420087326380218354900027015874311863624918437260220194913954166250002289 4246751335182358788630681355529698815060052215470092989187073214166917265833
    [(False, 823953617861042566618496833581890983308040934151629774983674737356257637383, 4593216947487749133841472679606492895115095407184466249750344436794052925600),
     (False, 963880109071351654930592705854705844042450112492046285691606478143951959669, 5163948225099685664563091551955346214870074962694169772719696938597337720973),
     (False, 1218296115757117053000603741203788498437853104064499575688101749993856945228, 15770693719840909160020286716180508384055389918169935235107184102872869574805),
     (True, 14785163984819280263102475327028275371875702510387846363389832663620802224826, 9250494019229908783585216485898775406174733021144837959016538479958569847087),
     (False, 3909479627983390655988601633494928893704392045402078763544697977998111256875, 10922969529809421637072185359536985985117237399888240696628573231925519627444),
     (False, 5450929252189867467675342252833644798321782417832353754808804404235223540473, 12057330549084462844934871835123672077512568938785558172704207329216917493377),
     (True, 11303853372227129695438648374890368636995761288218205234035784675120239499950, 12484388669719701541848954363185690141013584749184428671755345009796074269103),
     (False, 7120715964694917635992131446528931594481228767561731927987953351956133273917, 20148282329444206578259426400965662306735649787966037302665286121358744994998),
     (False, 18546636347373520104485140633419213514635367982889900528611420966712544562282, 4039532234352066011343919188609578861161048272282814937436725298466878553598),
     (True, 3787096976699209870762188009325060500417415445656008241337511840812206734561, 19127812316295780085492745018611446008069927513042102983712225037979408248759),
     (False, 16715512805194495141792168073427551564795367097859177724047493203348792188884, 13683399295203194927904994699505351605944093643560263471724282641182307048709),
     (False, 8554154729014748311369961734273684593733185496451035845171623277413825792977, 2015666968720036938275823611024389700998976289779553459912876601582520045090),
     (False, 185620808055645200174682363459428113350878400289229466007211219902767515352, 107334060117361786981804554890369541885147552275724182705778584189426441884),
     (False, 526337382526921626704996982628151946256812218816037210893624670674892188, 9091994476024159566284543784897538152851904928969022502495636654556904219852),
     (True, 8523824738791789153919151067235307523631218332366883300404615633021592846970, 11368018194082554332770220592398033492385876191650138293630313637182739697718),
     (False, 5904166835943583084908341912148361507357367200126943805053730559753699829399, 18210214614520313703441358023954979474260962512533474802051840918295324875907),
     (True, 17072236266671437927908503627433000330329010614370675342194650592396890526348, 18907775863177548874009473924513750180371947752207374464796297089506085706239),
     (False, 16333151554714923648973898793674199649181026852841238574525999203311337946822, 20411170678493604703383904401444219160796927888021852696604383368452669551895),
     (False, 19033774931408586328590657012650909417139505508439406342777376478276651495023, 11949131436653225855366125994112114151332975659256597940963380464311113708616),
     (False, 6523216273066527575602857276549263082816687190248130035343760683545133275724, 2345874788107895329620782563891590982617900115011775652364391223973678296364),
     (True, 2199278233803547575884468412030535620987976982722701269354967935154639982645, 8647263176884852814287497874586232965645284830032127240734686269890350335161),
     (False, 3416224906134977451830711586968265498220480881415308306556391818366557112989, 15981026427606811492776500334372159072648615811930712025477492636282220311334),
     (False, 11668054268917501472572933044014163507726741308885896217484100109252847590925, 5560046374451599621040912717222705204939870751139726080106537038576780950281),
     (True, 5212592348175796062563310966875455804880926791856826954637046511084994428949, 10481837127168144588889071808627162948252677827252950675249604900027397723942),
     (False, 5019539951369711161215805878736585252958966730779872718478754469270962675922, 7953667848095980991769401465827792634402959391547160412522651129545836180838)]
    7953667848095980991769401465827792634402959391547160412522651129545836180838"
  by simp

lemma pow_0_13427688667394608761327070753331941386769_seg5_exp:
  "chain_exp 45494778827025696208
    [(False, 823953617861042566618496833581890983308040934151629774983674737356257637383, 4593216947487749133841472679606492895115095407184466249750344436794052925600),
     (False, 963880109071351654930592705854705844042450112492046285691606478143951959669, 5163948225099685664563091551955346214870074962694169772719696938597337720973),
     (False, 1218296115757117053000603741203788498437853104064499575688101749993856945228, 15770693719840909160020286716180508384055389918169935235107184102872869574805),
     (True, 14785163984819280263102475327028275371875702510387846363389832663620802224826, 9250494019229908783585216485898775406174733021144837959016538479958569847087),
     (False, 3909479627983390655988601633494928893704392045402078763544697977998111256875, 10922969529809421637072185359536985985117237399888240696628573231925519627444),
     (False, 5450929252189867467675342252833644798321782417832353754808804404235223540473, 12057330549084462844934871835123672077512568938785558172704207329216917493377),
     (True, 11303853372227129695438648374890368636995761288218205234035784675120239499950, 12484388669719701541848954363185690141013584749184428671755345009796074269103),
     (False, 7120715964694917635992131446528931594481228767561731927987953351956133273917, 20148282329444206578259426400965662306735649787966037302665286121358744994998),
     (False, 18546636347373520104485140633419213514635367982889900528611420966712544562282, 4039532234352066011343919188609578861161048272282814937436725298466878553598),
     (True, 3787096976699209870762188009325060500417415445656008241337511840812206734561, 19127812316295780085492745018611446008069927513042102983712225037979408248759),
     (False, 16715512805194495141792168073427551564795367097859177724047493203348792188884, 13683399295203194927904994699505351605944093643560263471724282641182307048709),
     (False, 8554154729014748311369961734273684593733185496451035845171623277413825792977, 2015666968720036938275823611024389700998976289779553459912876601582520045090),
     (False, 185620808055645200174682363459428113350878400289229466007211219902767515352, 107334060117361786981804554890369541885147552275724182705778584189426441884),
     (False, 526337382526921626704996982628151946256812218816037210893624670674892188, 9091994476024159566284543784897538152851904928969022502495636654556904219852),
     (True, 8523824738791789153919151067235307523631218332366883300404615633021592846970, 11368018194082554332770220592398033492385876191650138293630313637182739697718),
     (False, 5904166835943583084908341912148361507357367200126943805053730559753699829399, 18210214614520313703441358023954979474260962512533474802051840918295324875907),
     (True, 17072236266671437927908503627433000330329010614370675342194650592396890526348, 18907775863177548874009473924513750180371947752207374464796297089506085706239),
     (False, 16333151554714923648973898793674199649181026852841238574525999203311337946822, 20411170678493604703383904401444219160796927888021852696604383368452669551895),
     (False, 19033774931408586328590657012650909417139505508439406342777376478276651495023, 11949131436653225855366125994112114151332975659256597940963380464311113708616),
     (False, 6523216273066527575602857276549263082816687190248130035343760683545133275724, 2345874788107895329620782563891590982617900115011775652364391223973678296364),
     (True, 2199278233803547575884468412030535620987976982722701269354967935154639982645, 8647263176884852814287497874586232965645284830032127240734686269890350335161),
     (False, 3416224906134977451830711586968265498220480881415308306556391818366557112989, 15981026427606811492776500334372159072648615811930712025477492636282220311334),
     (False, 11668054268917501472572933044014163507726741308885896217484100109252847590925, 5560046374451599621040912717222705204939870751139726080106537038576780950281),
     (True, 5212592348175796062563310966875455804880926791856826954637046511084994428949, 10481837127168144588889071808627162948252677827252950675249604900027397723942),
     (False, 5019539951369711161215805878736585252958966730779872718478754469270962675922, 7953667848095980991769401465827792634402959391547160412522651129545836180838)] = 11926183300831824106793162"
  by simp

lemma pow_0_13427688667394608761327070753331941386769_seg6:
  "chain_ok 21888242871839275222246405745257275088696311157297823662689037894645226208583 20520420087326380218354900027015874311863624918437260220194913954166250002289 7953667848095980991769401465827792634402959391547160412522651129545836180838
    [(False, 2890174081503141114608465737613288490163315514887643572009804580085615124403, 17335844277909099598844019890915529275557215155200644827413908977904267031295),
     (True, 16252506390490135405993103841417790112661898686886457734333296728498434173960, 7260023362438087191715981628539731259816080656743860541381985849250717535575),
     (False, 2408047988674285325925982512805957437989486813744520086676161955352436226351, 6133558309398666728462459848480611071766606631577479070146944340045663609992),
     (False, 1718755486910044796608690407539220283690013760082362903772320571101997132533, 11422654638078695198678815849527830950478950818125723354292766331896129109325),
     (True, 10708839126935610345385959449386548882647503017350290631154147377007835821937, 15247074232914832407422242711288603663244774465860451104897924036978772159654),
     (False, 10620919825552019306693935448814117507408878477314990827142712678069108956337, 17288688520007075413755413218794614503392548348914612678665168173304663759245),
     (False, 13655675902901194979197592046431184905954620242036505923267751941573351840995, 6107383195348991824522796581973857713698835165137087604108616285008402709940),
     (True, 5725725428790796351459267976252958661421855653836454929406564034205282156990, 8695946019116259567441368930954898212049914955059760954339818945360911607490),
     (False, 3454798889529573106887873420343300320665263365484166065471591711953653735680, 19565517766554588294175964097494878682316767296372595445066886914194994758660),
     (False, 17489274388757531908865743796447719013074622347467783732695172089998522809263, 7569902485346355341735268260764842981292069380604974333899167971460082491271),
     (False, 2618000173571616838433891175299141640088154947299929106806198910807971297448, 21779638022708406976437352516123516110047475312620436870827465117869407599257),
     (False, 21671572047955157856291648727172512520279883525453656153511330613336939409340, 3882777604881055056374614938908648432605819834455302343583890834176648586829),
     (False, 688769857737741063596562408189700140638438447326989646988709736969541764564, 2613208471943464836993411084203446290771362904669738542042164884181410222429),
     (False, 311987515755451206885961714427397115587633588949679624329465508361341280871, 7575902487842484714878458451415214700806514383681504639700389774819020744248),
     (True, 7102475173608369904749770043673829852113953090559332351698164920210305674868, 17057530288256137839195685410759950323045266541766843578011140293399734591628),
     (False, 13292950980049415244627683364637424374143748470972165549609460785696984374772, 8544300846114438340373902749370062886147628614667230163643164353273612622308),
     (True, 8010357146591422839749691643429541583475046176961193565006916367017735844711, 54059787083616520671972141422520722909762933236477716301500500108909108499),
     (False, 133517368051772554852429096783763136864217058726685332089306973155506767, 1137763650281504485702057257023477738113755291814550438385112825107544051840),
     (True, 1066663422942203665218290409288589960220476504786800792474279466703887066446, 1918465491087974783299773739850442850948020949349000835061686094005558155742),
     (False, 168150082308829478584639528919322886666491355271736020360296063193601039556, 10299302206045854172274311656605044529433208923207375849501088067807037861416),
     (True, 9655686347774374026281927638470838173248469585487151318243607650422770423868, 9474572758605589961811425022524668433179847880031430715616158899342175122180),
     (False, 4101175662373667187651981581651254160756762745515951661644363202455674075416, 13672745299612246570563406507345550804586698617318292511409941178668239456872),
     (False, 8540839258896610928106735260749794291712858101437881347228361479897290467780, 14811552227626340607576951984066505283279821374578812155981966052229627068644),
     (True, 13885960405131746003602347562748184940109860229408243622811386945293098825199, 6073434967081849288898438630855873175792645894686934782525968527399129643099),
     (False, 1685224918023440742267936951875119150722068153273506057705919428738766332901, 1428672553184627876160966987416304924430824137504591477538561321856476834518)]
    1428672553184627876160966987416304924430824137504591477538561321856476834518"
  by simp

lemma pow_0_13427688667394608761327070753331941386769_seg6_exp:
  "chain_exp 11926183300831824106793162
    [(False, 2890174081503141114608465737613288490163315514887643572009804580085615124403, 17335844277909099598844019890915529275557215155200644827413908977904267031295),
     (True, 16252506390490135405993103841417790112661898686886457734333296728498434173960, 7260023362438087191715981628539731259816080656743860541381985849250717535575),
     (False, 2408047988674285325925982512805957437989486813744520086676161955352436226351, 6133558309398666728462459848480611071766606631577479070146944340045663609992),
     (False, 1718755486910044796608690407539220283690013760082362903772320571101997132533, 11422654638078695198678815849527830950478950818125723354292766331896129109325),
     (True, 10708839126935610345385959449386548882647503017350290631154147377007835821937, 15247074232914832407422242711288603663244774465860451104897924036978772159654),
     (False, 10620919825552019306693935448814117507408878477314990827142712678069108956337, 17288688520007075413755413218794614503392548348914612678665168173304663759245),
     (False, 13655675902901194979197592046431184905954620242036505923267751941573351840995, 6107383195348991824522796581973857713698835165137087604108616285008402709940),
     (True, 5725725428790796351459267976252958661421855653836454929406564034205282156990, 8695946019116259567441368930954898212049914955059760954339818945360911607490),
     (False, 3454798889529573106887873420343300320665263365484166065471591711953653735680, 19565517766554588294175964097494878682316767296372595445066886914194994758660),
     (False, 17489274388757531908865743796447719013074622347467783732695172089998522809263, 7569902485346355341735268260764842981292069380604974333899167971460082491271),
     (False, 2618000173571616838433891175299141640088154947299929106806198910807971297448, 21779638022708406976437352516123516110047475312620436870827465117869407599257),
     (False, 21671572047955157856291648727172512520279883525453656153511330613336939409340, 3882777604881055056374614938908648432605819834455302343583890834176648586829),
     (False, 688769857737741063596562408189700140638438447326989646988709736969541764564, 2613208471943464836993411084203446290771362904669738542042164884181410222429),
     (False, 311987515755451206885961714427397115587633588949679624329465508361341280871, 7575902487842484714878458451415214700806514383681504639700389774819020744248),
     (True, 7102475173608369904749770043673829852113953090559332351698164920210305674868, 17057530288256137839195685410759950323045266541766843578011140293399734591628),
     (False, 13292950980049415244627683364637424374143748470972165549609460785696984374772, 8544300846114438340373902749370062886147628614667230163643164353273612622308),
     (True, 8010357146591422839749691643429541583475046176961193565006916367017735844711, 54059787083616520671972141422520722909762933236477716301500500108909108499),
     (False, 133517368051772554852429096783763136864217058726685332089306973155506767, 1137763650281504485702057257023477738113755291814550438385112825107544051840),
     (True, 1066663422942203665218290409288589960220476504786800792474279466703887066446, 1918465491087974783299773739850442850948020949349000835061686094005558155742),
     (False, 168150082308829478584639528919322886666491355271736020360296063193601039556, 10299302206045854172274311656605044529433208923207375849501088067807037861416),
     (True, 9655686347774374026281927638470838173248469585487151318243607650422770423868, 9474572758605589961811425022524668433179847880031430715616158899342175122180),
     (False, 4101175662373667187651981581651254160756762745515951661644363202455674075416, 13672745299612246570563406507345550804586698617318292511409941178668239456872),
     (False, 8540839258896610928106735260749794291712858101437881347228361479897290467780, 14811552227626340607576951984066505283279821374578812155981966052229627068644),
     (True, 13885960405131746003602347562748184940109860229408243622811386945293098825199, 6073434967081849288898438630855873175792645894686934782525968527399129643099),
     (False, 1685224918023440742267936951875119150722068153273506057705919428738766332901, 1428672553184627876160966987416304924430824137504591477538561321856476834518)] = 1563188697606628849325593415802"
  by simp

lemma pow_0_13427688667394608761327070753331941386769_seg7:
  "chain_ok 21888242871839275222246405745257275088696311157297823662689037894645226208583 20520420087326380218354900027015874311863624918437260220194913954166250002289 1428672553184627876160966987416304924430824137504591477538561321856476834518
    [(False, 93251216014653473933867272712523088248610329518626801648453679697649504745, 10144766210023148268479913947337357710653596443019448847730245868549538065989),
     (True, 9510807493150587967163484469724788048859317779295491328911814166230918731724, 8096418777666527880935114263249260365071795399073675482621453291492439861729),
     (False, 2994849673734582452181355406382343169415165509809169252616725928817621769959, 21447926134129346820400931460237311191729001480953476359715956642109261511344),
     (True, 20107619275393065740999202706174162895508846328415833558169986901956445599159, 13722739928959987836364537436472330413370560887603887816351304134782256084719),
     (False, 8603412903470251371062279865971035188840889995792712998547915207045779290281, 20122935192382353966434400865815234428854954750266650549649910977269094627138),
     (False, 18500001262220718912597828774489444619388264172971051496616756600861358920526, 13776677481308463908895097045831037083453361759058294504166845442402649996386),
     (False, 8671177651641391839759268920993010087502380363977451159063881816640826785971, 20401158758106802172600581777577219811488257225873113614966515541147868871903),
     (True, 19126265659414755275084729830065677893252764179751225139495310987983687683839, 1079254303472227163265414510288167257195767723415227202943436943114825595830),
     (False, 53215320132522112559814836234283067823282020628744430759498730406177162710, 19130489207334816229969015520247573663506875492358152811028929799340923848970),
     (True, 17935001786536119495631075654644037769318467546105025737688882380970293688198, 18277663234776867181645399030253632870153220714484750343755467762626076888896),
     (False, 15262667509675788151924604910758561268356434310987674712855252453398067676414, 8647776161052848252002917069635030798745848670584284759219678486644614637454),
     (False, 3416630241611980719111548291052145103851931104319690712841552389683821458651, 15953377387054022765887427791658645126705069386852156287646657213870423800583),
     (True, 14956431528598659751191806750566807432062823831880598012581318370127986793389, 4066938648678522204692739892400921406162263013290273088596668655243590076700),
     (False, 755656361680585840350306939258471452247215846012662140587008157158526905376, 9564329764591677381766449058582072262419392822485445925901358677559402847792),
     (True, 8966643223593238630165603056282073885380013748700399932415113486684389788438, 12403083661788082568904169908929453453080092617744797756996077650120888832534),
     (False, 7028270164127046157053033086865275620635277549119812653173110337954298904049, 14680234674149577664931610068022929759970855772643695611829521039985119608589),
     (False, 9845892671694128103872225093346830921972162147108690209485619896730590966400, 375770679505593900828891512261566764944211668939419949873882925282617959721),
     (True, 352288315014795760943081401432589218156818234043364646364073299154932511570, 1117684683779423284824501780122137472372793748327496307821222685975878996059),
     (False, 57072605584174843100654519568595943636054719103765580814662554803417136881, 14521343645316617400827221955496109273537023115498862063349349042784969481858),
     (True, 13613887308318445796373270115465867295590550635568688509717348514360219246438, 3030879932741806683175003273580718982176561982092025807736665953871576195608),
     (False, 419688013354223935447004355898314198517871884088799918285900916321320437467, 1849423197598879922674866944270010600921612305482472423177029465451328310403),
     (False, 156264995040666383025236983757878171932804491399449968822042152458431457629, 2694043037735802699111787392575206347518219541351108625492717318088837392702),
     (False, 331587507122853437160336184056892400177988366665167313932671049409591473464, 191701241836127061688219263199904967172029209930467259706496939988189319292),
     (True, 179721599251832338961716297542650636346864036778577625937486548978550337589, 16467638379102029857789326227617470229452199244515477831675607253095172533001),
     (False, 12389441919696980030106987417106485159537664283706006246556901580528593797427, 746167031136767141357202001989294152850026284354018423865191871512883350060)]
    746167031136767141357202001989294152850026284354018423865191871512883350060"
  by simp

lemma pow_0_13427688667394608761327070753331941386769_seg7_exp:
  "chain_exp 1563188697606628849325593415802
    [(False, 93251216014653473933867272712523088248610329518626801648453679697649504745, 10144766210023148268479913947337357710653596443019448847730245868549538065989),
     (True, 9510807493150587967163484469724788048859317779295491328911814166230918731724, 8096418777666527880935114263249260365071795399073675482621453291492439861729),
     (False, 2994849673734582452181355406382343169415165509809169252616725928817621769959, 21447926134129346820400931460237311191729001480953476359715956642109261511344),
     (True, 20107619275393065740999202706174162895508846328415833558169986901956445599159, 13722739928959987836364537436472330413370560887603887816351304134782256084719),
     (False, 8603412903470251371062279865971035188840889995792712998547915207045779290281, 20122935192382353966434400865815234428854954750266650549649910977269094627138),
     (False, 18500001262220718912597828774489444619388264172971051496616756600861358920526, 13776677481308463908895097045831037083453361759058294504166845442402649996386),
     (False, 8671177651641391839759268920993010087502380363977451159063881816640826785971, 20401158758106802172600581777577219811488257225873113614966515541147868871903),
     (True, 19126265659414755275084729830065677893252764179751225139495310987983687683839, 1079254303472227163265414510288167257195767723415227202943436943114825595830),
     (False, 53215320132522112559814836234283067823282020628744430759498730406177162710, 19130489207334816229969015520247573663506875492358152811028929799340923848970),
     (True, 17935001786536119495631075654644037769318467546105025737688882380970293688198, 18277663234776867181645399030253632870153220714484750343755467762626076888896),
     (False, 15262667509675788151924604910758561268356434310987674712855252453398067676414, 8647776161052848252002917069635030798745848670584284759219678486644614637454),
     (False, 3416630241611980719111548291052145103851931104319690712841552389683821458651, 15953377387054022765887427791658645126705069386852156287646657213870423800583),
     (True, 14956431528598659751191806750566807432062823831880598012581318370127986793389, 4066938648678522204692739892400921406162263013290273088596668655243590076700),
     (False, 755656361680585840350306939258471452247215846012662140587008157158526905376, 9564329764591677381766449058582072262419392822485445925901358677559402847792),
     (True, 8966643223593238630165603056282073885380013748700399932415113486684389788438, 12403083661788082568904169908929453453080092617744797756996077650120888832534),
     (False, 7028270164127046157053033086865275620635277549119812653173110337954298904049, 14680234674149577664931610068022929759970855772643695611829521039985119608589),
     (False, 9845892671694128103872225093346830921972162147108690209485619896730590966400, 375770679505593900828891512261566764944211668939419949873882925282617959721),
     (True, 352288315014795760943081401432589218156818234043364646364073299154932511570, 1117684683779423284824501780122137472372793748327496307821222685975878996059),
     (False, 57072605584174843100654519568595943636054719103765580814662554803417136881, 14521343645316617400827221955496109273537023115498862063349349042784969481858),
     (True, 13613887308318445796373270115465867295590550635568688509717348514360219246438, 3030879932741806683175003273580718982176561982092025807736665953871576195608),
     (False, 419688013354223935447004355898314198517871884088799918285900916321320437467, 1849423197598879922674866944270010600921612305482472423177029465451328310403),
     (False, 156264995040666383025236983757878171932804491399449968822042152458431457629, 2694043037735802699111787392575206347518219541351108625492717318088837392702),
     (False, 331587507122853437160336184056892400177988366665167313932671049409591473464, 191701241836127061688219263199904967172029209930467259706496939988189319292),
     (True, 179721599251832338961716297542650636346864036778577625937486548978550337589, 16467638379102029857789326227617470229452199244515477831675607253095172533001),
     (False, 12389441919696980030106987417106485159537664283706006246556901580528593797427, 746167031136767141357202001989294152850026284354018423865191871512883350060)] = 102445134486348028269402090098052530"
  by simp

lemma pow_0_13427688667394608761327070753331941386769_seg8:
  "chain_ok 21888242871839275222246405745257275088696311157297823662689037894645226208583 20520420087326380218354900027015874311863624918437260220194913954166250002289 746167031136767141357202001989294152850026284354018423865191871512883350060
    [(True, 699538150407637626109669288684771194050315576242991743495931434948164848386, 18338225489892412437721552570711987887724438446817484280951940738691181390302),
     (False, 15363979470037798579658459979905344018366134499033012780550712294351277644861, 19259977976305846777062358141805383762677681370301353099012234962177075609241),
     (False, 16947306086640453144223232824226598343026565172982692944698055051448357584206, 6028182798697602634525289447046676836085939157119251917272070028400782155983),
     (True, 5651474360768321710305338293459694466340423398197956337050269957150900356276, 15845662873477744099404900776985347692185835688265165099319586794776715928179),
     (False, 11471228337974495983648186100306632273564861582216511502524952715249748499143, 9999588191586777626817026496644107810540411075753209359109414450632971511672),
     (False, 4568286480865395551264295841621856160306412964883492514906413095687059175693, 18300366490803714156047061790538513550382131171424318486151963456781170662565),
     (True, 17156754443111089301058063097859230659437927445104809505300604977937365664511, 18718038043601528930703351738764462885573123226295138105785116040214009913372),
     (False, 16006992898113474160611250365742257709631458706215110925025541800392095925262, 16128152718130344605286851125090617631713422334021703245649901895847353486638),
     (False, 11883882668078120241938128956579845405102002003977683314278682845564117760225, 10668426037886631772557522096450924054174426762431232413906300928264613531869),
     (True, 10001743184678426699824874721294157629927942981102145951602175267503365002912, 3169795145584202950061959191037081729163915550283732263568268145641110054445),
     (False, 459041016850928043757344223505840925311637389904675239839110644544864946562, 10950802993883126762508630662232689794381631957840948805816789420492703516379),
     (False, 5478744315521327809963852810526287202476199693461451919913284635371489759795, 12583380773670502607993119174042988515100582471671108746517952237294283951156),
     (True, 11797030081693659673634948062571002639905453841843137363312605358757386072636, 8994672957683066172727160719071145926163228599479414559529008491806039561296),
     (False, 3696237385951330120328038913009976660879206132691367710895447337598683347774, 3536474726870592746837496301682467019275971630298077527091074993252488455374),
     (False, 571386820176648375601120324894201389603744155232952989479521362015802004821, 13212588185681505715355059856830095067589669587745640311434340182484271901233),
     (False, 7975628175663656077914145389512817919650687663466810797432486412924774450014, 5268492040812475929011861354356358542375820697864984741804946246862235650127),
     (False, 1268124104188175900228147410610557532388015127599390454492538017530420036020, 21255027283617507042572505379677870006756283953933128320881412245287461956469),
     (False, 20640130296094514229340867760989529319617262028296508058712044149234174122695, 4434892893668397579633011895908828271105364298270138060367085695240146856776),
     (True, 4157751069980098114560835425361435139478456644670710280123052455280621371933, 4204673850110849669371637989465644433594405089574660937165909421016675259325),
     (False, 807706780728004634186289179490024930730219207764371874200941797143508517788, 13038646377868259199770482066988551400019844377625248307083906968838745681221),
     (False, 7767014481816712324395367008780593448643405055076675212451459320561158913616, 8927115276395136471738888244628663175246246945148376305761267113872457284713),
     (False, 3640922097980666094516011571895792265579596148601278263011623489930139288459, 9440706190465490338709687782652509219413205211107886418176482807290804848772),
     (False, 4071909010538316902090147926377709276541058872909308670776918893023291830549, 10714922605290891120183404489975313603902140222923225838745804136216824505917),
     (True, 10045334125319058982299502594446416921053576633424456009920151963599505590964, 1)]
    1"
  by simp

lemma pow_0_13427688667394608761327070753331941386769_seg8_exp:
  "chain_exp 102445134486348028269402090098052530
    [(True, 699538150407637626109669288684771194050315576242991743495931434948164848386, 18338225489892412437721552570711987887724438446817484280951940738691181390302),
     (False, 15363979470037798579658459979905344018366134499033012780550712294351277644861, 19259977976305846777062358141805383762677681370301353099012234962177075609241),
     (False, 16947306086640453144223232824226598343026565172982692944698055051448357584206, 6028182798697602634525289447046676836085939157119251917272070028400782155983),
     (True, 5651474360768321710305338293459694466340423398197956337050269957150900356276, 15845662873477744099404900776985347692185835688265165099319586794776715928179),
     (False, 11471228337974495983648186100306632273564861582216511502524952715249748499143, 9999588191586777626817026496644107810540411075753209359109414450632971511672),
     (False, 4568286480865395551264295841621856160306412964883492514906413095687059175693, 18300366490803714156047061790538513550382131171424318486151963456781170662565),
     (True, 17156754443111089301058063097859230659437927445104809505300604977937365664511, 18718038043601528930703351738764462885573123226295138105785116040214009913372),
     (False, 16006992898113474160611250365742257709631458706215110925025541800392095925262, 16128152718130344605286851125090617631713422334021703245649901895847353486638),
     (False, 11883882668078120241938128956579845405102002003977683314278682845564117760225, 10668426037886631772557522096450924054174426762431232413906300928264613531869),
     (True, 10001743184678426699824874721294157629927942981102145951602175267503365002912, 3169795145584202950061959191037081729163915550283732263568268145641110054445),
     (False, 459041016850928043757344223505840925311637389904675239839110644544864946562, 10950802993883126762508630662232689794381631957840948805816789420492703516379),
     (False, 5478744315521327809963852810526287202476199693461451919913284635371489759795, 12583380773670502607993119174042988515100582471671108746517952237294283951156),
     (True, 11797030081693659673634948062571002639905453841843137363312605358757386072636, 8994672957683066172727160719071145926163228599479414559529008491806039561296),
     (False, 3696237385951330120328038913009976660879206132691367710895447337598683347774, 3536474726870592746837496301682467019275971630298077527091074993252488455374),
     (False, 571386820176648375601120324894201389603744155232952989479521362015802004821, 13212588185681505715355059856830095067589669587745640311434340182484271901233),
     (False, 7975628175663656077914145389512817919650687663466810797432486412924774450014, 5268492040812475929011861354356358542375820697864984741804946246862235650127),
     (False, 1268124104188175900228147410610557532388015127599390454492538017530420036020, 21255027283617507042572505379677870006756283953933128320881412245287461956469),
     (False, 20640130296094514229340867760989529319617262028296508058712044149234174122695, 4434892893668397579633011895908828271105364298270138060367085695240146856776),
     (True, 4157751069980098114560835425361435139478456644670710280123052455280621371933, 4204673850110849669371637989465644433594405089574660937165909421016675259325),
     (False, 807706780728004634186289179490024930730219207764371874200941797143508517788, 13038646377868259199770482066988551400019844377625248307083906968838745681221),
     (False, 7767014481816712324395367008780593448643405055076675212451459320561158913616, 8927115276395136471738888244628663175246246945148376305761267113872457284713),
     (False, 3640922097980666094516011571895792265579596148601278263011623489930139288459, 9440706190465490338709687782652509219413205211107886418176482807290804848772),
     (False, 4071909010538316902090147926377709276541058872909308670776918893023291830549, 10714922605290891120183404489975313603902140222923225838745804136216824505917),
     (True, 10045334125319058982299502594446416921053576633424456009920151963599505590964, 1)] = 13427688667394608761327070753331941386769"
  by simp

lemma pow_0_13427688667394608761327070753331941386769: "(20520420087326380218354900027015874311863624918437260220194913954166250002289::nat) ^ 13427688667394608761327070753331941386769 mod 21888242871839275222246405745257275088696311157297823662689037894645226208583 = 1"
proof -
  have s0: "(20520420087326380218354900027015874311863624918437260220194913954166250002289::nat) = 20520420087326380218354900027015874311863624918437260220194913954166250002289 ^ 1 mod 21888242871839275222246405745257275088696311157297823662689037894645226208583" by simp
  have s1: "(21538327222366393657617722530675043986586386126492211785491518833249803232165::nat) = 20520420087326380218354900027015874311863624918437260220194913954166250002289 ^ 40407 mod 21888242871839275222246405745257275088696311157297823662689037894645226208583"
    using chain_sound [OF pow_0_13427688667394608761327070753331941386769_seg1 s0] unfolding pow_0_13427688667394608761327070753331941386769_seg1_exp .
  have s2: "(7127705300160167733067409551901352848585007536958176169886957649442609592151::nat) = 20520420087326380218354900027015874311863624918437260220194913954166250002289 ^ 2648144659 mod 21888242871839275222246405745257275088696311157297823662689037894645226208583"
    using chain_sound [OF pow_0_13427688667394608761327070753331941386769_seg2 s1] unfolding pow_0_13427688667394608761327070753331941386769_seg2_exp .
  have s3: "(1973876352534487507342732723472343035713847827443673414192696246175738990878::nat) = 20520420087326380218354900027015874311863624918437260220194913954166250002289 ^ 173548808391668 mod 21888242871839275222246405745257275088696311157297823662689037894645226208583"
    using chain_sound [OF pow_0_13427688667394608761327070753331941386769_seg3 s2] unfolding pow_0_13427688667394608761327070753331941386769_seg3_exp .
  have s4: "(4246751335182358788630681355529698815060052215470092989187073214166917265833::nat) = 20520420087326380218354900027015874311863624918437260220194913954166250002289 ^ 45494778827025696208 mod 21888242871839275222246405745257275088696311157297823662689037894645226208583"
    using chain_sound [OF pow_0_13427688667394608761327070753331941386769_seg4 s3] unfolding pow_0_13427688667394608761327070753331941386769_seg4_exp .
  have s5: "(7953667848095980991769401465827792634402959391547160412522651129545836180838::nat) = 20520420087326380218354900027015874311863624918437260220194913954166250002289 ^ 11926183300831824106793162 mod 21888242871839275222246405745257275088696311157297823662689037894645226208583"
    using chain_sound [OF pow_0_13427688667394608761327070753331941386769_seg5 s4] unfolding pow_0_13427688667394608761327070753331941386769_seg5_exp .
  have s6: "(1428672553184627876160966987416304924430824137504591477538561321856476834518::nat) = 20520420087326380218354900027015874311863624918437260220194913954166250002289 ^ 1563188697606628849325593415802 mod 21888242871839275222246405745257275088696311157297823662689037894645226208583"
    using chain_sound [OF pow_0_13427688667394608761327070753331941386769_seg6 s5] unfolding pow_0_13427688667394608761327070753331941386769_seg6_exp .
  have s7: "(746167031136767141357202001989294152850026284354018423865191871512883350060::nat) = 20520420087326380218354900027015874311863624918437260220194913954166250002289 ^ 102445134486348028269402090098052530 mod 21888242871839275222246405745257275088696311157297823662689037894645226208583"
    using chain_sound [OF pow_0_13427688667394608761327070753331941386769_seg7 s6] unfolding pow_0_13427688667394608761327070753331941386769_seg7_exp .
  have s8: "(1::nat) = 20520420087326380218354900027015874311863624918437260220194913954166250002289 ^ 13427688667394608761327070753331941386769 mod 21888242871839275222246405745257275088696311157297823662689037894645226208583"
    using chain_sound [OF pow_0_13427688667394608761327070753331941386769_seg8 s7] unfolding pow_0_13427688667394608761327070753331941386769_seg8_exp .
  from s8 show ?thesis by (rule sym)
qed

lemma cop_0_751743: "coprime (20520420087326380218354900027015874311863624918437260220194913954166250002289 - 1) (21888242871839275222246405745257275088696311157297823662689037894645226208583::nat)"
  by (rule bezout_coprime [of _ 7760040696430108728351579495285625070970037227808537281002514205477518194167 _ 7275106362711593634910217017553301347431408024134515045317937743039521961465]) simp

lemma prime_P: "is_prime 21888242871839275222246405745257275088696311157297823662689037894645226208583"
  by (rule pocklington_one [OF _ prime_13427688667394608761327070753331941386769 pow_0_13427688667394608761327070753331941386769 cop_0_751743]) simp_all

section \<open>Inversion\<close>

lemma is_prime_P: "is_prime P"
  unfolding P_def by (rule prime_P)

lemma fermat_P: "\<not> P dvd a \<Longrightarrow> a ^ (P - 1) mod P = 1"
  using is_prime_P by (rule fermat_little)

lemma plain_gfpMul: "plain (gfpMul u v) = plain u * plain v mod P"
proof -
  have "plain (gfpMul u v) = (val u * val v * Rinv) * Rinv mod P"
    by (simp only: plain_def val_gfpMul mod_mult_left_eq)
  also have "(val u * val v * Rinv) * Rinv = (val u * Rinv) * (val v * Rinv)"
    by (simp only: ac_simps)
  also have "\<dots> mod P = plain u * plain v mod P"
    by (simp only: plain_def mod_mult_eq)
  finally show ?thesis .
qed

lemma val_montDecode_plain: "val (montDecode u) = plain u"
  by (simp add: val_montDecode plain_def)

lemma Invert_step_plain:
  assumes "plain sm = S * A ^ e mod P" "plain pw = A ^ 2 ^ k mod P"
    and "Invert_step w k (sm, pw) = (sm', pw')"
  shows "plain sm' = S * A ^ (e + 2 ^ k * of_bool (bit (limb Invert_bits w) k)) mod P"
    and "plain pw' = A ^ 2 ^ Suc k mod P"
proof -
  have pw': "pw' = gfpMul pw pw"
    and sm': "sm' = (if bit (limb Invert_bits w) k then gfpMul sm pw else sm)"
    using assms(3) by (simp_all add: Invert_step_def bit_word_iff_drop_bit_and)
  have "plain pw' = (A ^ 2 ^ k mod P) * (A ^ 2 ^ k mod P) mod P"
    by (simp only: pw' plain_gfpMul assms(2))
  also have "\<dots> = A ^ 2 ^ k * A ^ 2 ^ k mod P" by (rule mod_mult_eq)
  also have "A ^ 2 ^ k * A ^ 2 ^ k = A ^ 2 ^ Suc k"
    by (simp add: power_add [symmetric] mult_2)
  finally show "plain pw' = A ^ 2 ^ Suc k mod P" .
  show "plain sm' = S * A ^ (e + 2 ^ k * of_bool (bit (limb Invert_bits w) k)) mod P"
  proof (cases "bit (limb Invert_bits w) k")
    case False
    then show ?thesis by (simp add: sm' assms(1))
  next
    case True
    have "plain sm' = (S * A ^ e mod P) * (A ^ 2 ^ k mod P) mod P"
      using True by (simp only: sm' if_True plain_gfpMul assms(1,2))
    also have "\<dots> = (S * A ^ e) * A ^ 2 ^ k mod P" by (rule mod_mult_eq)
    also have "(S * A ^ e) * A ^ 2 ^ k = S * A ^ (e + 2 ^ k)"
      by (simp add: power_add)
    finally show ?thesis using True by simp
  qed
qed

lemma Invert_word_prefix:
  assumes "plain sm = S * A ^ e mod P" "plain pw = A mod P"
  shows "fold (\<lambda>b s. Invert_step w b s) [0..<k] (sm, pw) = (sm', pw') \<Longrightarrow>
         plain sm' = S * A ^ (e + take_bit k (unat (limb Invert_bits w))) mod P \<and>
         plain pw' = A ^ 2 ^ k mod P"
proof (induction k arbitrary: sm' pw')
  case 0
  then show ?case using assms by simp
next
  case (Suc k)
  obtain s1 p1 where 1: "fold (\<lambda>b s. Invert_step w b s) [0..<k] (sm, pw) = (s1, p1)"
    by (cases "fold (\<lambda>b s. Invert_step w b s) [0..<k] (sm, pw)")
  from Suc.IH [OF 1] have s1: "plain s1 = S * A ^ (e + take_bit k (unat (limb Invert_bits w))) mod P"
    and p1: "plain p1 = A ^ 2 ^ k mod P" by simp_all
  have st: "Invert_step w k (s1, p1) = (sm', pw')"
    using Suc.prems 1 by simp
  have b: "bit (unat (limb Invert_bits w)) k = bit (limb Invert_bits w) k"
    by (simp add: bit_unsigned_iff)
  have "take_bit (Suc k) (unat (limb Invert_bits w))
          = 2 ^ k * of_bool (bit (limb Invert_bits w) k) + take_bit k (unat (limb Invert_bits w))"
    by (simp only: take_bit_Suc_from_most b)
  then show ?case
    using Invert_step_plain [OF s1 p1 st] by (simp add: ac_simps)
qed


lemma plain_lt: "plain u < P"
  using P_pos by (simp add: plain_def)

lemma Invert_word:
  assumes "plain sm = S mod P" "plain pw = B mod P"
    and "fold (\<lambda>b s. Invert_step w b s) [0..<64] (sm, pw) = (sm', pw')"
  shows "plain sm' = S * B ^ unat (limb Invert_bits w) mod P" and "plain pw' = B ^ 2 ^ 64 mod P"
proof -
  have 1: "plain sm = S * B ^ 0 mod P" using assms(1) by simp
  have "take_bit 64 (unat (limb Invert_bits w)) = unat (limb Invert_bits w)"
    using unsigned_less [of "limb Invert_bits w"] by (simp add: take_bit_nat_eq_self_iff)
  with Invert_word_prefix [OF 1 assms(2) assms(3)]
  show "plain sm' = S * B ^ unat (limb Invert_bits w) mod P" and "plain pw' = B ^ 2 ^ 64 mod P"
    by simp_all
qed

lemma val_Invert_bits: "val Invert_bits = P - 2"
  by (simp add: Invert_bits_def P_def)

lemma plain_rN1_r3: "plain rN1 * plain r3 mod P = 1"
proof -
  have "plain rN1 * plain r3 mod P = (Rinv * Rinv) * ((R * R * R) * Rinv) mod P"
    unfolding plain_def val_rN1 val_r3
    by (metis mod_mult_eq mod_mult_left_eq)
  also have "(Rinv * Rinv) * ((R * R * R) * Rinv) = (R * Rinv) * (R * Rinv) * (R * Rinv)"
    by (simp only: ac_simps)
  also have "\<dots> mod P = (R * Rinv mod P) * (R * Rinv mod P) * (R * Rinv mod P) mod P"
    by (metis mod_mult_eq mod_mult_left_eq)
  finally show ?thesis using P_gt1 by (simp add: R_Rinv)
qed

lemma pow_words:
  fixes A :: nat
  shows "S * A ^ a * (A ^ m) ^ b * ((A ^ m) ^ m) ^ c * (((A ^ m) ^ m) ^ m) ^ d
           = S * A ^ (a + m * b + m * m * c + m * m * m * d)"
  by (simp add: power_add power_mult mult.assoc)

lemma Invert_plain: "plain (Invert f) = plain f ^ (P - 2) mod P"
proof -
  let ?A = "plain f" and ?S = "plain rN1"
  let ?W = "\<lambda>w s. fold (\<lambda>b s'. Invert_step w b s') [0..<64] s"
  let ?L = "\<lambda>w. unat (limb Invert_bits w)"
  obtain s1 p1 where w0: "?W 0 (rN1, f) = (s1, p1)" by (cases "?W 0 (rN1, f)")
  obtain s2 p2 where w1: "?W 1 (s1, p1) = (s2, p2)" by (cases "?W 1 (s1, p1)")
  obtain s3 p3 where w2: "?W 2 (s2, p2) = (s3, p3)" by (cases "?W 2 (s2, p2)")
  obtain s4 p4 where w3: "?W 3 (s3, p3) = (s4, p4)" by (cases "?W 3 (s3, p3)")
  have i0: "plain rN1 = ?S mod P" "plain f = ?A mod P" using plain_lt by simp_all
  note r1 = Invert_word [OF i0 w0]
  note r2 = Invert_word [OF r1 w1]
  note r3' = Invert_word [OF r2 w2]
  note r4 = Invert_word [OF r3' w3]
  have e: "?L 0 + 2 ^ 64 * ?L 1 + 2 ^ 64 * 2 ^ 64 * ?L 2 + 2 ^ 64 * 2 ^ 64 * 2 ^ 64 * ?L 3 = P - 2"
    by (simp add: Invert_bits_def P_def)
  have s4: "plain s4 = ?S * ?A ^ (P - 2) mod P"
    by (simp only: r4(1) pow_words e)
  have u: "[0..<4] = [0, 1, 2, 3 :: nat]" by (simp add: upt_rec)
  have "Invert f = gfpMul s4 r3"
    unfolding Invert_def u
    by (simp only: fold.simps comp_apply id_apply w0 w1 w2 w3 Let_def prod.case)
  then have "plain (Invert f) = (?S * ?A ^ (P - 2) mod P) * plain r3 mod P"
    by (simp only: plain_gfpMul s4)
  also have "\<dots> = (?S * ?A ^ (P - 2)) * plain r3 mod P"
    by (rule mod_mult_left_eq)
  also have "(?S * ?A ^ (P - 2)) * plain r3 = (?S * plain r3) * ?A ^ (P - 2)"
    by (simp only: ac_simps)
  also have "(?S * plain r3) * ?A ^ (P - 2) mod P = (?S * plain r3 mod P) * ?A ^ (P - 2) mod P"
    by (simp only: mod_mult_left_eq)
  finally show ?thesis by (simp add: plain_rN1_r3)
qed

lemma Rinv_pos: "0 < Rinv" by (simp add: Rinv_def)

lemma Rinv_lt: "Rinv < P" by (simp add: Rinv_def P_def)

lemma P_not_dvd_less:
  assumes "0 < a" "a < P"
  shows "\<not> P dvd a"
  using assms by (rule prime_not_dvd_less)

lemma P_not_dvd_plain:
  assumes "val f < P" "val f \<noteq> 0"
  shows "\<not> P dvd plain f"
proof
  assume "P dvd plain f"
  then have "P dvd val f * Rinv" by (simp add: plain_def dvd_mod_iff)
  then have "P dvd val f \<or> P dvd Rinv" using is_prime_P by (rule prime_dvd_mult [rotated])
  then show False
    using P_not_dvd_less [of "val f"] P_not_dvd_less [OF Rinv_pos Rinv_lt] assms by auto
qed

lemma P_minus_1: "P - 1 = Suc (P - 2)"
  using P_gt1 by simp

text \<open>
  C8: for every field element \<open>f\<close> that is not zero (its limbs denote a number below \<open>p\<close>,
  not 0), the Montgomery product of \<open>f\<close> and \<^verbatim>\<open>Invert\<close> of \<open>f\<close>, decoded out of Montgomery form,
  is 1.
\<close>

theorem Invert_law:
  assumes "val f < P" "val f \<noteq> 0"
  shows "montDecode (gfpMul f (Invert f)) = GfP 1 0 0 0"
proof -
  let ?A = "plain f"
  have "plain (gfpMul f (Invert f)) = ?A * (?A ^ (P - 2) mod P) mod P"
    by (simp only: plain_gfpMul Invert_plain)
  also have "\<dots> = ?A * ?A ^ (P - 2) mod P" by (rule mod_mult_right_eq)
  also have "?A * ?A ^ (P - 2) = ?A ^ (P - 1)" by (simp only: P_minus_1 power_Suc)
  also have "?A ^ (P - 1) mod P = 1"
    using P_not_dvd_plain [OF assms] by (rule fermat_P)
  finally have "val (montDecode (gfpMul f (Invert f))) = val (GfP 1 0 0 0)"
    by (simp add: val_montDecode_plain)
  then show ?thesis by (rule val_inj)
qed

theorem Invert_law_witness:
  "val (GfP 1 0 0 0) < P \<and> val (GfP 1 0 0 0) \<noteq> 0 \<and>
   montDecode (gfpMul (GfP 1 0 0 0) (Invert (GfP 1 0 0 0))) = GfP 1 0 0 0"
proof -
  have 1: "val (GfP 1 0 0 0) < P" by (simp add: P_def)
  have 2: "val (GfP 1 0 0 0) \<noteq> 0" by simp
  show ?thesis using 1 2 Invert_law [OF 1 2] by simp
qed

end
